theory Spec2Isabelle
  imports Complex_Main
begin

section \<open>Numbers and utilities (utils.js)\<close>

text \<open>
  JavaScript numbers are modelled as reals: every field holds a finite number, so the
  \<open>isNaN\<close> guards of the source (which reset a field only when it holds NaN) never fire
  and \<open>x ?? d\<close> is \<open>x\<close>.  The idiom \<open>x || d\<close> on a number yields \<open>d\<close> exactly when
  \<open>x\<close> is \<open>0\<close>; it is kept, because for a default other than \<open>0\<close> it changes results.
\<close>

definition jsor :: "real \<Rightarrow> real \<Rightarrow> real" where
  "jsor x d = (if x = 0 then d else x)"

text \<open>\<open>clamp(value, min, max) = Math.max(min, Math.min(max, value))\<close>\<close>

definition clamp :: "real \<Rightarrow> real \<Rightarrow> real \<Rightarrow> real" where
  "clamp v lo hi = max lo (min hi v)"

text \<open>\<open>Math.round\<close> rounds to the nearest integer, halves upwards: \<open>\<lfloor>x + 1/2\<rfloor>\<close>.\<close>

definition Math_round :: "real \<Rightarrow> real" where
  "Math_round x = of_int \<lfloor>x + 1 / 2\<rfloor>"

text \<open>
  The configuration tables of config.js are object literals, and the source looks an
  identifier up with \<open>TABLE[identifier]\<close>.  Such a lookup finds the table's own keys and also
  the names of the properties that every object inherits from \<open>Object.prototype\<close>; what it
  finds under an inherited name (a built-in function, or the prototype object for
  \<open>__proto__\<close>) is truthy.  These are the inherited names.
\<close>

definition Object_prototype_keys :: "string list" where
  "Object_prototype_keys =
     [''constructor'', ''__defineGetter__'', ''__defineSetter__'', ''hasOwnProperty'',
      ''__lookupGetter__'', ''__lookupSetter__'', ''isPrototypeOf'', ''propertyIsEnumerable'',
      ''toString'', ''valueOf'', ''__proto__'', ''toLocaleString'']"

section \<open>Soil (soil.js)\<close>

record Soil =
  moisture :: real
  nutrition :: real
  compaction :: real
  microbes :: real
  oxygen :: real
  organicMatter :: real
  bioavailableNutrition :: real
  pH :: real
  soilCondition :: real
  evaporationRate :: real
  wetDuration :: nat
  oxygenBasePotential :: real

text \<open>
  \<open>updateDerivedVariables\<close>: nutrition, soilCondition and oxygenBasePotential from the
  other fields.  Thresholds from config.js: phOptimalLow 5.5, phOptimalHigh 6.0, wet 80,
  compactionMax 100.
\<close>

definition phFactor_of :: "real \<Rightarrow> real" where
  "phFactor_of currentPH =
     (if currentPH \<ge> 5.5 \<and> currentPH \<le> 6.0 then 100
      else (let diff = (if currentPH < 5.5 then 5.5 - currentPH else currentPH - 6.0)
            in max 0 (100 - Math_round (diff * 10) * 10)))"

definition updateDerivedVariables :: "Soil \<Rightarrow> Soil" where
  "updateDerivedVariables s =
     (let phFactor = phFactor_of (pH s);
          microbeNutrientFactor = clamp (jsor (microbes s) 0) 0 100;
          omFactor = clamp (jsor (organicMatter s) 0 * 2) 0 100;
          bnFactor = clamp (jsor (bioavailableNutrition s) 0 * 3) 0 100;
          moistureFactor = clamp (jsor (moisture s) 0) 0 100;
          aerationFactor = clamp (100 - jsor (compaction s) 50) 0 100;
          nutrition' = clamp ((bnFactor + omFactor + phFactor + microbeNutrientFactor) / 4) 0 100;
          soilCondition' =
            clamp ((moistureFactor + nutrition' + aerationFactor + microbeNutrientFactor) / 4) 0 100;
          o2Reduction1 = (if jsor (moisture s) 0 \<ge> 80 then 0.9 else 0);
          o2Reduction = (if jsor (compaction s) 0 \<ge> 100 then max o2Reduction1 0.9 else o2Reduction1)
      in s\<lparr>nutrition := nutrition', soilCondition := soilCondition',
            oxygenBasePotential := 100 * (1 - o2Reduction)\<rparr>)"

text \<open>\<open>addMoisture(amount)\<close>: clamp to [0, 100], then recompute the derived values.\<close>

definition addMoisture :: "real \<Rightarrow> Soil \<Rightarrow> Soil" where
  "addMoisture amount s =
     updateDerivedVariables (s\<lparr>moisture := clamp (moisture s + amount) 0 100\<rparr>)"

text \<open>
  \<open>updateMicrobes(temperature)\<close>.  Thresholds: minTempMicrobeSlowdown 10,
  maxTempMicrobeDeath 40, optimalTempMicrobeLow 15, optimalTempMicrobeHigh 35,
  lowOxygenForRoots 30, microbeMinMoisture 15, microbeMinBN 5, oxygenHigh 80,
  omLowForMicrobes 5, microbeActive 50, microbeHigh 100, microbeOptimalPh 6.0 to 7.5.
  Rates: tempEffectOnMicrobes 0.05, microbeGrowthOxygen 0.1, microbeDeathLowOM 0.2,
  microbeConversionBase 1.0.
\<close>

definition microbeActivityFactor_of :: "real \<Rightarrow> real" where
  "microbeActivityFactor_of tempNum =
     (if tempNum < 10 then 0.1
      else if tempNum > 40 then 0
      else if tempNum < 15 then clamp (1.0 - (15 - tempNum) * 0.05) 0.1 1.0
      else if tempNum > 35 then clamp (1.0 - (tempNum - 35) * 0.05) 0.1 1.0
      else 1.0)"

definition microbePhFactor_of :: "real \<Rightarrow> real" where
  "microbePhFactor_of currentPH =
     (if currentPH \<ge> 6.0 \<and> currentPH \<le> 7.5 then 1.0
      else (let diff = (if currentPH < 6.0 then 6.0 - currentPH else currentPH - 7.5)
            in max 0 (1.0 - (diff / 0.5) * 0.25)))"

definition updateMicrobes :: "real \<Rightarrow> Soil \<Rightarrow> Soil" where
  "updateMicrobes temperature s =
     (let currentMicrobes = microbes s;
          currentOM = organicMatter s;
          currentBN = bioavailableNutrition s;
          currentOxygen = oxygen s;
          currentMoisture = moisture s;
          microbeActivityFactor = microbeActivityFactor_of temperature;
          deathHot = (if \<not> temperature < 10 \<and> temperature > 40 then currentMicrobes * 0.5 else 0);
          microbeGrowthConditionsMet =
            (currentOxygen > 30 \<and> currentMoisture > 15 \<and> currentBN > 5);
          growthDelta =
            (if microbeGrowthConditionsMet \<and> microbeActivityFactor > 0.1
             then (if currentOxygen > 80 then 0.1 else 0) * microbeActivityFactor
             else 0);
          deathDelta = deathHot + (if currentOM < 5 \<and> currentMicrobes > 0 then 0.2 else 0);
          conversionDelta =
            (if currentMicrobes \<ge> 50 \<and> currentOM > 0 \<and> microbeActivityFactor > 0
             then min currentOM
                    (1.0 * (if currentMicrobes \<ge> 100 then 2 else 1)
                       * microbePhFactor_of (pH s) * microbeActivityFactor)
             else 0)
      in s\<lparr>microbes := clamp (currentMicrobes + growthDelta - deathDelta) 0 1000,
            organicMatter := max 0 (currentOM - conversionDelta),
            bioavailableNutrition := max 0 (currentBN + conversionDelta)\<rparr>)"

text \<open>
  \<open>applyEvaporation(temperature, humidity, wind, squashModifier)\<close> returns the evaporated
  amount together with the new soil.  Rates: tempEffectOnEvap 0.007, humidityEffectOnEvap 0.9.
\<close>

definition evaporationRate_of :: "real \<Rightarrow> real \<Rightarrow> real \<Rightarrow> real" where
  "evaporationRate_of temperature humidity squashModifier =
     (let baseEvap = jsor temperature 0 * 0.007;
          humidityFactor = 1.0 - (jsor humidity 60 / 100 * 0.9)
      in max 0 (baseEvap * humidityFactor * squashModifier))"

definition applyEvaporation :: "real \<Rightarrow> real \<Rightarrow> real \<Rightarrow> real \<Rightarrow> Soil \<Rightarrow> real \<times> Soil" where
  "applyEvaporation temperature humidity wind squashModifier s =
     (let rate = evaporationRate_of temperature humidity squashModifier;
          evaporationAmount = rate * (jsor (moisture s) 0 / 100)
      in (evaporationAmount, addMoisture (- evaporationAmount) (s\<lparr>evaporationRate := rate\<rparr>)))"

text \<open>\<open>updateDegradation\<close>: soilDegradeWet 0.02, soilDegradeMoist 0.01, moist 30.\<close>

definition updateDegradation :: "Soil \<Rightarrow> Soil" where
  "updateDegradation s =
     (let degradeRate =
            (if jsor (moisture s) 0 \<ge> 80 then 0.02
             else if jsor (moisture s) 0 \<ge> 30 then 0.01 else 0)
      in if degradeRate > 0
         then (let s1 = addMoisture (- degradeRate) s
               in s1\<lparr>microbes := clamp (jsor (microbes s1) 0 - degradeRate) 0 1000\<rparr>)
         else s)"

text \<open>\<open>updateOxygen(plantOxygenConsumption = 0)\<close>\<close>

definition updateOxygen :: "real \<Rightarrow> Soil \<Rightarrow> Soil" where
  "updateOxygen plantOxygenConsumption s =
     (let s1 = updateDerivedVariables s
      in s1\<lparr>oxygen := clamp (oxygenBasePotential s1 - plantOxygenConsumption) 0 100\<rparr>)"

text \<open>\<open>updatePH\<close>: highOMAcidify 70, acidifyRateHighOM 0.02, phMin 4.0, phMax 9.0.\<close>

definition updatePH :: "Soil \<Rightarrow> Soil" where
  "updatePH s =
     (if jsor (organicMatter s) 0 > 70 then s\<lparr>pH := clamp (pH s - 0.02) 4.0 9.0\<rparr> else s)"

definition updateWetDuration :: "Soil \<Rightarrow> Soil" where
  "updateWetDuration s =
     s\<lparr>wetDuration := (if jsor (moisture s) 0 \<ge> 80 then wetDuration s + 1 else 0)\<rparr>"

text \<open>
  The constructor: the given initial conditions, \<open>oxygenBasePotential = 100\<close>, then
  \<open>updateDerivedVariables\<close> and \<open>updateOxygen()\<close>.
\<close>

definition Soil_DEFAULTS :: Soil where
  "Soil_DEFAULTS =
     \<lparr>moisture = 50, nutrition = 50, compaction = 50, microbes = 50, oxygen = 100,
      organicMatter = 10, bioavailableNutrition = 10, pH = 7.0, soilCondition = 50,
      evaporationRate = 0.1, wetDuration = 0, oxygenBasePotential = 100\<rparr>"

definition new_Soil :: "Soil \<Rightarrow> Soil" where
  "new_Soil initialConditions =
     updateOxygen 0 (updateDerivedVariables (initialConditions\<lparr>oxygenBasePotential := 100\<rparr>))"

subsection \<open>Soil operations as data\<close>

text \<open>
  The soil methods, and the three direct writes to soil fields that other classes make
  during a tick: the Beans neighbour effect of \<open>Square.updateEntities\<close> (organic matter and
  microbes, rates beansOMRate 0.1 and beansMICRate 0.2), the weed nutrient sap of
  \<open>Square.updateWeeds\<close> and the nutrient draw of \<open>Plant._consumeResources\<close>.
\<close>

datatype soil_op =
    UpdateDerivedVariables
  | AddMoisture real
  | UpdateMicrobes real
  | ApplyEvaporation real real real real
  | UpdateDegradation
  | UpdateOxygen real
  | UpdatePH
  | UpdateWetDuration
  | BeansEffect bool bool real
  | DrawBN real

definition beansEffect :: "bool \<Rightarrow> bool \<Rightarrow> real \<Rightarrow> Soil \<Rightarrow> Soil" where
  "beansEffect addsOM addsMIC bonusFactor s =
     (let s1 = (if addsOM
                then s\<lparr>organicMatter := max 0 (jsor (organicMatter s) 0 + 0.1 * bonusFactor)\<rparr>
                else s)
      in if addsMIC
         then s1\<lparr>microbes := clamp (jsor (microbes s1) 0 + 0.2 * bonusFactor) 0 1000\<rparr>
         else s1)"

definition drawBN :: "real \<Rightarrow> Soil \<Rightarrow> Soil" where
  "drawBN amount s =
     s\<lparr>bioavailableNutrition := max 0 (jsor (bioavailableNutrition s) 0 - amount)\<rparr>"

fun apply_soil_op :: "soil_op \<Rightarrow> Soil \<Rightarrow> Soil" where
  "apply_soil_op UpdateDerivedVariables s = updateDerivedVariables s"
| "apply_soil_op (AddMoisture d) s = addMoisture d s"
| "apply_soil_op (UpdateMicrobes t) s = updateMicrobes t s"
| "apply_soil_op (ApplyEvaporation t h w m) s = snd (applyEvaporation t h w m s)"
| "apply_soil_op UpdateDegradation s = updateDegradation s"
| "apply_soil_op (UpdateOxygen c) s = updateOxygen c s"
| "apply_soil_op UpdatePH s = updatePH s"
| "apply_soil_op UpdateWetDuration s = updateWetDuration s"
| "apply_soil_op (BeansEffect om mic b) s = beansEffect om mic b s"
| "apply_soil_op (DrawBN a) s = drawBN a s"

fun apply_soil_ops :: "soil_op list \<Rightarrow> Soil \<Rightarrow> Soil" where
  "apply_soil_ops [] s = s"
| "apply_soil_ops (op # ops) s = apply_soil_ops ops (apply_soil_op op s)"

text \<open>The bounds of the soil state.\<close>

definition soil_bounds :: "Soil \<Rightarrow> bool" where
  "soil_bounds s =
     (0 \<le> moisture s \<and> moisture s \<le> 100 \<and>
      0 \<le> compaction s \<and> compaction s \<le> 100 \<and>
      0 \<le> oxygen s \<and> oxygen s \<le> 100 \<and>
      0 \<le> soilCondition s \<and> soilCondition s \<le> 100 \<and>
      0 \<le> nutrition s \<and> nutrition s \<le> 100 \<and>
      0 \<le> microbes s \<and> microbes s \<le> 1000 \<and>
      4.0 \<le> pH s \<and> pH s \<le> 9.0)"

section \<open>Plants (config.js, plant.js)\<close>

text \<open>
  The per-species properties the simulation reads (the presentation fields name,
  colorClass, description, effects, calPerUnit and maxHeight are left out).  A flag that
  a species does not define (addsOM, addsMIC) is \<open>False\<close>.
\<close>

record PlantProps =
  H2O_Mod :: real
  BN_Mod :: real
  O2_Mod :: real
  addsOM :: bool
  addsMIC :: bool
  maxYield :: real
  price :: real
  attractsBeneficials :: bool
  wetnessSensitivity :: real
  suppressesNematodes :: bool
  daysToHarvestableStage :: real
  isPerennial :: bool

definition Test_properties :: PlantProps where
  "Test_properties =
      \<lparr>H2O_Mod = 1.0, BN_Mod = 1.0, O2_Mod = 1.0, addsOM = False, addsMIC = False,
         maxYield = 0, price = 0, attractsBeneficials = False, wetnessSensitivity = 1.0,
         suppressesNematodes = False, daysToHarvestableStage = 10, isPerennial = True\<rparr>"

text \<open>The keys of the table \<open>PLANT_PROPERTIES\<close>, in its order.\<close>

definition PLANT_PROPERTIES_keys :: "string list" where
  "PLANT_PROPERTIES_keys =
     [''Test'', ''Corn'', ''Beans'', ''Squash'', ''Tomato'', ''Basil'', ''Flower'', ''Marigold'']"

text \<open>
  What \<open>PLANT_PROPERTIES[type]\<close> finds under an inherited name has none of the fields
  above: each of them reads \<open>undefined\<close>.  An undefined field is modelled by \<open>0\<close> or \<open>False\<close>:
  the source reads every numeric field through \<open>field || default\<close>, for which \<open>undefined\<close>
  and \<open>0\<close> give the same result, and every flag for its truthiness.  The one strict test,
  \<open>maxYield === 0\<close> in \<open>harvestPlant\<close>, stands in a conjunction with the type being Flower,
  Marigold or Basil, which an inherited name is not.
\<close>

definition inherited_properties :: PlantProps where
  "inherited_properties =
      \<lparr>H2O_Mod = 0, BN_Mod = 0, O2_Mod = 0, addsOM = False, addsMIC = False,
         maxYield = 0, price = 0, attractsBeneficials = False, wetnessSensitivity = 0,
         suppressesNematodes = False, daysToHarvestableStage = 0, isPerennial = False\<rparr>"

text \<open>
  \<open>PLANT_PROPERTIES[type]\<close>: the entry of an own key, the built-in found under an
  inherited name, or nothing (\<open>undefined\<close>).
\<close>

definition PLANT_PROPERTIES :: "string \<Rightarrow> PlantProps option" where
  "PLANT_PROPERTIES t =
     (if t = ''Test'' then Some Test_properties
      else if t = ''Corn'' then Some
        \<lparr>H2O_Mod = 6.0, BN_Mod = 5.0, O2_Mod = 2.0, addsOM = False, addsMIC = False,
         maxYield = 2, price = 60, attractsBeneficials = False, wetnessSensitivity = 1.0,
         suppressesNematodes = False, daysToHarvestableStage = 60, isPerennial = False\<rparr>
      else if t = ''Beans'' then Some
        \<lparr>H2O_Mod = 1.0, BN_Mod = 1.0, O2_Mod = 1.0, addsOM = True, addsMIC = True,
         maxYield = 3, price = 40, attractsBeneficials = False, wetnessSensitivity = 1.0,
         suppressesNematodes = False, daysToHarvestableStage = 50, isPerennial = False\<rparr>
      else if t = ''Squash'' then Some
        \<lparr>H2O_Mod = 1.0, BN_Mod = 1.0, O2_Mod = 1.0, addsOM = False, addsMIC = False,
         maxYield = 1, price = 70, attractsBeneficials = False, wetnessSensitivity = 1.0,
         suppressesNematodes = False, daysToHarvestableStage = 55, isPerennial = False\<rparr>
      else if t = ''Tomato'' then Some
        \<lparr>H2O_Mod = 1.2, BN_Mod = 1.8, O2_Mod = 1.0, addsOM = False, addsMIC = False,
         maxYield = 4, price = 30, attractsBeneficials = False, wetnessSensitivity = 1.5,
         suppressesNematodes = False, daysToHarvestableStage = 70, isPerennial = False\<rparr>
      else if t = ''Basil'' then Some
        \<lparr>H2O_Mod = 1.0, BN_Mod = 1.0, O2_Mod = 1.0, addsOM = False, addsMIC = False,
         maxYield = 1, price = 20, attractsBeneficials = True, wetnessSensitivity = 1.0,
         suppressesNematodes = False, daysToHarvestableStage = 40, isPerennial = False\<rparr>
      else if t = ''Flower'' then Some
        \<lparr>H2O_Mod = 1.5, BN_Mod = 1.5, O2_Mod = 1.0, addsOM = False, addsMIC = False,
         maxYield = 0, price = 50, attractsBeneficials = True, wetnessSensitivity = 1.2,
         suppressesNematodes = False, daysToHarvestableStage = 45, isPerennial = False\<rparr>
      else if t = ''Marigold'' then Some
        \<lparr>H2O_Mod = 1.6, BN_Mod = 1.2, O2_Mod = 1.0, addsOM = False, addsMIC = False,
         maxYield = 0, price = 25, attractsBeneficials = True, wetnessSensitivity = 1.0,
         suppressesNematodes = True, daysToHarvestableStage = 50, isPerennial = False\<rparr>
      else if t \<in> set Object_prototype_keys then Some inherited_properties
      else None)"

record Plant =
  plant_type :: string
  properties :: PlantProps
  plant_size :: real
  rootHealth :: real
  rootDensity :: real
  CHO :: real
  ATP :: real
  stemHealth :: real
  leafDensity :: real
  stemDevelopment :: real
  wasPollinated :: bool
  ageTicks :: nat
  ageDays :: real
  maturityProgress :: real
  growthStage :: nat
  lastO2Consumed :: real
  displayStatus :: string

text \<open>
  The constructor.  A type for which the lookup finds nothing is not rejected: the plant
  becomes a \<open>Test\<close> plant.  A type for which the lookup finds something (an own key or
  an inherited name) is kept, with what was found as its properties.
  Initial values: INITIAL_DOT_SIZE_RATIO 0.05, INITIAL_CHO 5.0, INITIAL_ATP 1.0,
  INITIAL_LEAF_DENSITY 0.2, INITIAL_STEM_DEV 0.1.
\<close>

definition new_Plant :: "string \<Rightarrow> Plant" where
  "new_Plant t =
     (let (type', props) =
            (case PLANT_PROPERTIES t of
               Some pr \<Rightarrow> (t, pr)
             | None \<Rightarrow> (''Test'', Test_properties))
      in \<lparr>plant_type = type', properties = props, plant_size = 0.05, rootHealth = 100,
          rootDensity = 1.0, CHO = 5.0, ATP = 1.0, stemHealth = 100, leafDensity = 0.2,
          stemDevelopment = 0.1, wasPollinated = False, ageTicks = 0, ageDays = 0,
          maturityProgress = 0, growthStage = 0, lastO2Consumed = 0,
          displayStatus = ''initializing''\<rparr>)"

subsection \<open>The per-tick update of a plant\<close>

definition updateAge :: "real \<Rightarrow> Plant \<Rightarrow> Plant" where
  "updateAge elapsedSimMinutes p =
     p\<lparr>ageTicks := ageTicks p + 1, ageDays := ageDays p + elapsedSimMinutes / (24 * 60)\<rparr>"

text \<open>
  \<open>_handleSenescence\<close> returns whether the plant is senescent or dead, and the plant.
  Rates: senescenceShrinkRate 0.001, baseRespirationRate 0.001.
\<close>

definition handleSenescence :: "Plant \<Rightarrow> bool \<times> Plant" where
  "handleSenescence p =
     (let trigger = (growthStage p \<noteq> 4 \<and> \<not> isPerennial (properties p)
                       \<and> maturityProgress p \<ge> 1.0 \<and> growthStage p = 3);
          isSenescent = (growthStage p = 4 \<or> trigger);
          p1 = (if trigger then p\<lparr>growthStage := 4\<rparr> else p);
          p2 = (if isSenescent
                then (let rootHealth' = max 0 (jsor (rootHealth p1) 0 - 0.5);
                          size' = max 0 (jsor (plant_size p1) 0 - 0.001);
                          CHO' = max 0 (jsor (CHO p1) 0 - (0.001 * jsor size' 0 * 0.1));
                          ATP' = max 0 (jsor (ATP p1) 0 - (0.001 * jsor size' 0 * 0.05))
                      in p1\<lparr>rootHealth := rootHealth', plant_size := size',
                             CHO := CHO', ATP := ATP'\<rparr>)
                else p1)
      in (jsor (plant_size p2) 0 \<le> 0 \<or> jsor (rootHealth p2) 0 \<le> 0 \<or> isSenescent, p2))"

definition overallHealthFactor :: "Plant \<Rightarrow> real" where
  "overallHealthFactor p =
     clamp ((jsor (stemHealth p) 100 + jsor (rootHealth p) 0 + jsor (leafDensity p) 0 * 100) / 300)
       0.1 1.0"

text \<open>The base daily progress rate: plantTier3Maturity 0.85 over the days to harvest.\<close>

definition dailyProgressRate :: "PlantProps \<Rightarrow> real" where
  "dailyProgressRate props =
     (let daysToHarvestable = jsor (daysToHarvestableStage props) 60
      in if daysToHarvestable > 0 then 0.85 / daysToHarvestable else 0)"

text \<open>
  \<open>_updateMaturityAndStage\<close>.  Thresholds: soilConditionGrow 65, plantTier1Maturity 0.15,
  plantTier2Maturity 0.50, plantTier3Maturity 0.85, minNutrientsForFlowering 10.
\<close>

definition progressThisTick :: "real \<Rightarrow> Soil \<Rightarrow> Plant \<Rightarrow> real" where
  "progressThisTick elapsedSimMinutes soil p =
     (let conditionFactor = clamp (jsor (soilCondition soil) 0 / 65) 0.1 1.2
      in (dailyProgressRate (properties p) * (elapsedSimMinutes / (24 * 60)))
           * conditionFactor * overallHealthFactor p)"

definition updateMaturityAndStage :: "real \<Rightarrow> Soil \<Rightarrow> Plant \<Rightarrow> Plant" where
  "updateMaturityAndStage elapsedSimMinutes soil p =
     (let mp = clamp (jsor (maturityProgress p) 0 + progressThisTick elapsedSimMinutes soil p) 0 1;
          p1 = p\<lparr>maturityProgress := mp\<rparr>
      in if growthStage p1 < 4
         then p1\<lparr>growthStage :=
                (if mp \<ge> 0.85
                 then (if jsor (bioavailableNutrition soil) 0 \<ge> 10 then 3
                       else min (growthStage p1) 2)
                 else if mp \<ge> 0.50
                 then (if jsor (bioavailableNutrition soil) 0 \<ge> 10 then 2
                       else min (growthStage p1) 1)
                 else if mp \<ge> 0.15 then 1
                 else 0)\<rparr>
         else p1)"

text \<open>
  \<open>_calculateLightFactor\<close> reads the variable \<open>simulatedTimeOfDay\<close> (minutes past
  midnight).  plant.js does not declare it, and main.js declares it inside a callback, out
  of the reach of plant.js: in the modules as they stand the read raises a
  \<open>ReferenceError\<close>.  Here the value is a parameter, so that the update can be followed to
  its end; \<open>Plant_update_unbound\<close> below is the update as the unbound variable ends it.
\<close>

definition calculateLightFactor :: "real \<Rightarrow> real" where
  "calculateLightFactor simulatedTimeOfDay =
     (let timeFraction = jsor simulatedTimeOfDay 720 / (24 * 60)
      in max 0 ((cos ((timeFraction - 0.5) * 2 * pi) + 1) / 2 * 1.1 - 0.1))"

text \<open>
  The temperature factor that \<open>_calculatePhotosynthesis\<close> and \<open>_calculatePotentialGrowth\<close>
  both compute: minTempPlantSlowdown 5, maxTempPlantSlowdown 35, optimalTempPlantLow 15,
  optimalTempPlantHigh 30, tempEffectOnGrowth 0.04.
\<close>

definition plantTempFactor :: "real \<Rightarrow> real" where
  "plantTempFactor temp =
     (if temp < 5 then 0.1
      else if temp > 35 then clamp (1.0 - (temp - 35) * 0.04) 0.1 1.0
      else if temp < 15 then clamp (1.0 - (15 - temp) * 0.04) 0.1 1.0
      else if temp > 30 then clamp (1.0 - (temp - 30) * 0.04) 0.1 1.0
      else 1.0)"

text \<open>basePhotosynthesisRate 0.18, moistureStressPhotosynthesis 30.\<close>

definition calculatePhotosynthesis :: "Soil \<Rightarrow> real \<Rightarrow> real \<Rightarrow> Plant \<Rightarrow> real" where
  "calculatePhotosynthesis soil temp lightFactor p =
     (if lightFactor \<le> 0 \<or> jsor (plant_size p) 0 \<le> 0 then 0
      else (let healthFactor_photo = clamp (jsor (rootHealth p) 0 / 100) 0.2 1.0;
                waterFactor = clamp (jsor (moisture soil) 0 / 30) 0.1 1.0;
                photoTempFactor = plantTempFactor temp;
                tierFactor = 0.5 + (real (growthStage p) / 3 * 0.5);
                structureFactor = jsor (leafDensity p) 0 * jsor (plant_size p) 0;
                choGained = 0.18 * lightFactor * structureFactor * healthFactor_photo
                              * waterFactor * photoTempFactor * tierFactor
            in max 0 choGained))"

definition applyMaintenanceRespiration :: "real \<Rightarrow> Plant \<Rightarrow> Plant" where
  "applyMaintenanceRespiration temp p =
     (let respTempFactor = clamp (temp / 25) 0.5 2.0;
          maintenanceCHOCost = 0.001 * jsor (plant_size p) 0 * respTempFactor;
          actualMaintenanceCHOConsumed = min (jsor (CHO p) 0) maintenanceCHOCost
      in p\<lparr>CHO := max 0 (jsor (CHO p) 0 - actualMaintenanceCHOConsumed)\<rparr>)"

definition on_trellis_species :: "string \<Rightarrow> bool" where
  "on_trellis_species t = (t = ''Beans'' \<or> t = ''Squash'' \<or> t = ''Tomato'')"

text \<open>
  \<open>_consumeResources\<close> (plantConsumption 0.5) returns the oxygen consumed and the soil
  after the water and nutrient draw; the argument is the type of the square's structure.
\<close>

definition consumeResources :: "string option \<Rightarrow> Soil \<Rightarrow> Plant \<Rightarrow> real \<times> Soil" where
  "consumeResources structureType soil p =
     (let props = properties p;
          baseConsumption = 0.5 * jsor (plant_size p) 0;
          rootHealthFactor_consume = clamp (jsor (rootHealth p) 0 / 100) 0 1.0;
          waterConsumed = baseConsumption * jsor (H2O_Mod props) 1.0;
          soil1 = addMoisture (- waterConsumed) soil;
          bnMod0 = jsor (BN_Mod props) 1.0;
          bnMod = (if structureType = Some ''Trellis'' \<and> on_trellis_species (plant_type p)
                   then bnMod0 * 0.75 else bnMod0);
          bnConsumed = baseConsumption * bnMod * jsor (rootDensity p) 0 * rootHealthFactor_consume;
          soil2 = drawBN bnConsumed soil1;
          oxygenConsumed = baseConsumption * jsor (O2_Mod props) 1.0 * jsor (rootDensity p) 0
      in (oxygenConsumed, soil2))"

text \<open>
  \<open>_updateHealthAndRecoveryDemand\<close> returns \<open>atpNeeded\<close>, \<open>canRecover\<close> and the plant.
  Thresholds lowOxygenForRoots 30, wet 80, maxTempRootDamage 38; rates rootDamageLowOxygen
  0.4, rootDamageWetness 0.2, rootDamageHighTempFactor 0.15, rootDamageNematodeFactor 0.3,
  rootRecoveryATPCost 0.1.
\<close>

record RecoveryInfo =
  rec_atpNeeded :: real
  canRecover :: bool

definition updateHealthAndRecoveryDemand ::
  "Soil \<Rightarrow> real \<Rightarrow> string option \<Rightarrow> nat \<Rightarrow> Plant \<Rightarrow> RecoveryInfo \<times> Plant" where
  "updateHealthAndRecoveryDemand soil temp pestType pestLevel p =
     (let isLowOxygen = (jsor (oxygen soil) 100 < 30);
          isWet = (jsor (moisture soil) 0 \<ge> 80);
          isTooHot = (temp > 38);
          wetnessSens = jsor (wetnessSensitivity (properties p)) 1.0;
          rootDamage = (if isLowOxygen then 0.4 else 0)
                     + (if isWet then 0.2 * wetnessSens else 0)
                     + (if isTooHot then (temp - 38) * 0.15 else 0)
                     + (if pestType = Some ''Nematodes'' then 0.3 * real pestLevel else 0);
          p1 = p\<lparr>rootHealth := clamp (jsor (rootHealth p) 0 - rootDamage) 0 100\<rparr>;
          needsRecovery = (jsor (rootHealth p1) 0 < 100);
          conditionsAllowRecovery = (\<not> isLowOxygen \<and> \<not> isWet \<and> \<not> isTooHot)
      in (\<lparr>rec_atpNeeded = (if needsRecovery \<and> conditionsAllowRecovery then 0.1 else 0),
           canRecover = (needsRecovery \<and> conditionsAllowRecovery)\<rparr>, p1))"

text \<open>
  \<open>_updateStemAndLeaf\<close> (lowNutrientThreshold 5, lowCHOThreshold 1.0, windStressThreshold 8,
  stemDevRate and leafDevRate 0.01).  The square's \<open>variables\<close> hold no \<open>windSpeed\<close>, so
  the source's \<open>square.variables?.windSpeed || 0\<close> is \<open>0\<close>.
\<close>

definition updateStemAndLeaf :: "Soil \<Rightarrow> real \<Rightarrow> Plant \<Rightarrow> Plant" where
  "updateStemAndLeaf soil lightFactor p =
     (let nutrientFactor_dev = clamp (jsor (bioavailableNutrition soil) 0 / (5 * 5)) 0.2 1.0;
          choFactor_dev = clamp (jsor (CHO p) 0 / (1.0 * 5)) 0.2 1.0;
          resourceFactor = nutrientFactor_dev * choFactor_dev;
          windSpeed = (0 :: real);
          targetStemDev = 0.5 * (if lightFactor < 0.3 then 0.5 else 1.5)
                              * (if windSpeed > 8 then 1.3 else 0.8) * resourceFactor;
          targetLeafDensity = (0.1 + (real (growthStage p) / 3) * 0.9)
                                * (resourceFactor * clamp lightFactor 0.5 1.0)
      in p\<lparr>stemDevelopment :=
              clamp (jsor (stemDevelopment p) 0
                       + (targetStemDev - jsor (stemDevelopment p) 0) * 0.01) 0.05 1.0,
            leafDensity :=
              clamp (jsor (leafDensity p) 0
                       + (targetLeafDensity - jsor (leafDensity p) 0) * 0.01) 0.05 1.0\<rparr>)"

record GrowthInfo =
  potentialSizeChange :: real
  atpNeeded :: real
  isShrinking :: bool
  tempFactor :: real
  gi_lightFactor :: real
  baseConditionStatus :: string

text \<open>
  \<open>_calculatePotentialGrowth\<close> (soilConditionGrow 65, moistureShrink 20, growthATPCost 0.05).
\<close>

definition calculatePotentialGrowth ::
  "real \<Rightarrow> Soil \<Rightarrow> real \<Rightarrow> string option \<Rightarrow> real \<Rightarrow> Plant \<Rightarrow> GrowthInfo" where
  "calculatePotentialGrowth simulatedTimeOfDay soil temp structureType elapsedSimMinutes p =
     (let currentSoilCondition = jsor (soilCondition soil) 0;
          currentMoisture = jsor (moisture soil) 0;
          canGrowBase = (currentSoilCondition > 65 \<and> currentMoisture \<ge> 20);
          shrinking = (currentMoisture < 20);
          tempStatus0 = (if temp < 5 then ''too cold''
                         else if temp > 35 then ''too hot!''
                         else if temp < 15 then ''cool''
                         else if temp > 30 then ''warm''
                         else ''optimal temp'');
          netTempEffect0 = plantTempFactor temp;
          mitigated = (structureType = Some ''Net'' \<and> temp > 30);
          netTempEffect = (if mitigated then 1.0 - (1.0 - netTempEffect0) * (1.0 - 0.6)
                           else netTempEffect0);
          tempStatus = (if mitigated \<and> tempStatus0 = ''too hot!'' then ''hot! (Net)''
                        else if mitigated \<and> tempStatus0 = ''warm'' then ''warm (Net)''
                        else tempStatus0);
          lightFactor = calculateLightFactor simulatedTimeOfDay;
          grows = (canGrowBase \<and> netTempEffect > 0.1 \<and> lightFactor > 0.1 \<and> \<not> shrinking);
          conditionFactor = clamp (currentSoilCondition / 65) 0.1 1.2;
          tierGrowthMultiplier = 1.0 + (real (growthStage p) * 0.5);
          potentialGrowthRate = dailyProgressRate (properties p) * 2.5
                                  * conditionFactor * overallHealthFactor p;
          change = (if grows
                    then max 0 (potentialGrowthRate * netTempEffect * tierGrowthMultiplier
                                  * (elapsedSimMinutes / (24 * 60)))
                    else 0);
          atp = (if grows then max 0 (change * 0.05 * (1 + jsor (plant_size p) 0)) else 0)
      in \<lparr>potentialSizeChange = change, atpNeeded = atp, isShrinking = shrinking,
          tempFactor = netTempEffect, gi_lightFactor = lightFactor,
          baseConditionStatus = tempStatus\<rparr>)"

text \<open>\<open>_generateATP\<close>: respirationCHOToATPConversion 30.\<close>

definition generateATP :: "real \<Rightarrow> Plant \<Rightarrow> Plant" where
  "generateATP totalATPDemand p =
     (let choNeededForATP = max 0 totalATPDemand / 30;
          availableCHOForATP = max 0 (jsor (CHO p) 0);
          choToConsumeForATP = min choNeededForATP availableCHOForATP;
          atpGenerated = choToConsumeForATP * 30
      in p\<lparr>CHO := max 0 (jsor (CHO p) 0 - choToConsumeForATP),
            ATP := jsor (ATP p) 0 + atpGenerated\<rparr>)"

text \<open>
  \<open>_applyGrowthAndRecoveryCosts\<close> returns the status and the plant.  Rates: rootRecoveryRate
  0.8, plantShrink 0.002, pestNematodeShrinkAdd 0.001; plantMaxSize 1.0.
\<close>

definition applyGrowthAndRecoveryCosts ::
  "GrowthInfo \<Rightarrow> RecoveryInfo \<Rightarrow> string \<Rightarrow> string option \<Rightarrow> nat \<Rightarrow> Plant \<Rightarrow> string \<times> Plant" where
  "applyGrowthAndRecoveryCosts growthInfo recoveryInfo currentStatus pestType pestLevel p =
     (let currentATP = jsor (ATP p) 0;
          growthCost = jsor (atpNeeded growthInfo) 0;
          recoveryCost = jsor (rec_atpNeeded recoveryInfo) 0;
          canAffordRecovery = (currentATP \<ge> recoveryCost);
          (status1, p1) =
            (if canRecover recoveryInfo
             then (if canAffordRecovery
                   then (currentStatus,
                         p\<lparr>rootHealth := clamp (jsor (rootHealth p) 0 + 0.8) 0 100,
                           ATP := ATP p - recoveryCost\<rparr>)
                   else (if currentStatus \<notin> set [''shrinking'', ''low ATP'', ''Aphids!'',
                              ''Nematodes!'', ''senescent'', ''too hot!'', ''too cold'', ''dark'',
                              ''low light'']
                         then ''low ATP (root)'' else currentStatus, p))
             else (currentStatus, p));
          (sizeChange, status2, p2) =
            (if isShrinking growthInfo
             then (let shrinkRate = 0.002
                         + (if pestType = Some ''Nematodes'' then 0.001 * real pestLevel else 0)
                         + (if pestType = Some ''Aphids'' then (0.002 / 2) * real pestLevel else 0)
                   in (- shrinkRate,
                       if status1 \<notin> set [''Aphids!'', ''Nematodes!'', ''too hot!'']
                       then ''shrinking'' else status1, p1))
             else if potentialSizeChange growthInfo > 0
             then (if jsor (ATP p1) 0 \<ge> growthCost
                   then (potentialSizeChange growthInfo,
                         if status1 \<notin> set [''shrinking'', ''Aphids!'', ''Nematodes!'',
                              ''hot! (Net)'', ''warm (Net)'']
                         then ''growing'' else status1,
                         p1\<lparr>ATP := ATP p1 - growthCost\<rparr>)
                   else (0,
                         if status1 \<notin> set [''shrinking'', ''low ATP (root)'', ''Aphids!'',
                              ''Nematodes!'', ''senescent'', ''too hot!'', ''too cold'', ''dark'',
                              ''low light'']
                         then ''low ATP'' else status1, p1))
             else (0, status1, p1));
          p3 = p2\<lparr>plant_size := clamp (jsor (plant_size p2) 0 + sizeChange) 0 1.0\<rparr>;
          status3 = (if pestType = Some ''Aphids'' then ''Aphids!''
                     else if pestType = Some ''Nematodes'' \<and> status2 \<noteq> ''shrinking''
                     then ''Nematodes!'' else status2)
      in (status3, p3))"

text \<open>\<open>_updateRootDensity\<close>: rootDensityGrowthBase 0.02, density bounds 0.1 and 2.5.\<close>

definition updateRootDensity :: "Soil \<Rightarrow> real \<Rightarrow> Plant \<Rightarrow> Plant" where
  "updateRootDensity soil growthTempFactor p =
     (if jsor (plant_size p) 0 \<le> 0 then p
      else (let sizeFactor = jsor (plant_size p) 0;
                nutrientFactor = clamp (jsor (bioavailableNutrition soil) 0 / 50) 0.2 1.5;
                oxygenFactor = clamp (jsor (oxygen soil) 0 / 80) 0.2 1.2;
                compactionFactor = clamp ((100 - jsor (compaction soil) 50) / 60) 0.1 1.0;
                rootDensityDelta = 0.02 * sizeFactor * nutrientFactor * oxygenFactor
                                     * compactionFactor * jsor growthTempFactor 1.0
            in p\<lparr>rootDensity := clamp (jsor (rootDensity p) 0 + rootDensityDelta) 0.1 2.5\<rparr>))"

text \<open>\<open>_finalizeStatus\<close> (lowCHOThreshold 1.0) returns the status and the plant.\<close>

definition finalizeStatus :: "string \<Rightarrow> GrowthInfo \<Rightarrow> RecoveryInfo \<Rightarrow> Plant \<Rightarrow> string \<times> Plant" where
  "finalizeStatus currentStatus growthInfo recoveryInfo p =
     (let maxPotentialATPCost =
            max (jsor (atpNeeded growthInfo) 0) (jsor (rec_atpNeeded recoveryInfo) 0);
          currentATP = jsor (ATP p) 0;
          currentCHO = jsor (CHO p) 0;
          status1 = (if currentATP < maxPotentialATPCost \<and> maxPotentialATPCost > 0
                        \<and> currentStatus \<notin> set [''shrinking'', ''Aphids!'', ''Nematodes!'',
                             ''senescent'', ''low CHO'', ''dark'', ''low light'', ''too cold'',
                             ''too hot!'', ''low ATP (root)'']
                     then ''low ATP'' else currentStatus);
          status2 = (if currentCHO < 1.0
                        \<and> status1 \<notin> set [''low ATP'', ''low ATP (root)'', ''Aphids!'',
                             ''Nematodes!'', ''senescent'']
                     then ''low CHO'' else status1)
      in (status2, p\<lparr>CHO := max 0 currentCHO, ATP := max 0 currentATP\<rparr>))"

text \<open>The pest entry of a square: no type, or Aphids or Nematodes at a level.\<close>

record Pests =
  pest_type :: "string option"
  pest_level :: nat

definition no_pests :: Pests where
  "no_pests = \<lparr>pest_type = None, pest_level = 0\<rparr>"

text \<open>
  \<open>Plant.update(square, elapsedSimMinutes)\<close> reads the square's soil, temperature,
  structure and pests and writes the plant and the soil; it returns the status, the
  oxygen consumed, the plant and the soil.  The status set from the light factor is
  overwritten by \<open>baseConditionStatus\<close> before it is read, and \<open>_applyBeanEffects\<close> only
  computes local values (its neighbour loop is commented out), so neither appears.
\<close>

definition Plant_update ::
  "real \<Rightarrow> real \<Rightarrow> Soil \<Rightarrow> real \<Rightarrow> string option \<Rightarrow> Pests \<Rightarrow> Plant
     \<Rightarrow> (string \<times> real) \<times> Plant \<times> Soil" where
  "Plant_update simulatedTimeOfDay elapsedSimMinutes soil temp structureType pests p =
     (let p1 = updateAge elapsedSimMinutes (p\<lparr>lastO2Consumed := 0\<rparr>);
          (finished, p2) = handleSenescence p1
      in if finished
         then (let status = (if plant_size p2 \<le> 0 \<or> rootHealth p2 \<le> 0
                             then ''dead'' else ''senescent'')
               in ((status, 0), p2\<lparr>displayStatus := status\<rparr>, soil))
         else (let p3 = updateMaturityAndStage elapsedSimMinutes soil p2;
                   lightFactor = calculateLightFactor simulatedTimeOfDay;
                   choGained = calculatePhotosynthesis soil temp lightFactor p3;
                   p4 = p3\<lparr>CHO := jsor (CHO p3) 0 + choGained\<rparr>;
                   p5 = applyMaintenanceRespiration temp p4;
                   (oxygenConsumed, soil1) = consumeResources structureType soil p5;
                   p6 = p5\<lparr>lastO2Consumed := oxygenConsumed\<rparr>;
                   (recoveryInfo, p7) =
                     updateHealthAndRecoveryDemand soil1 temp (pest_type pests) (pest_level pests) p6;
                   p8 = updateStemAndLeaf soil1 lightFactor p7;
                   growthInfo = calculatePotentialGrowth simulatedTimeOfDay soil1 temp
                                  structureType elapsedSimMinutes p8;
                   p9 = generateATP (atpNeeded growthInfo + rec_atpNeeded recoveryInfo) p8;
                   (status1, p10) =
                     applyGrowthAndRecoveryCosts growthInfo recoveryInfo
                       (baseConditionStatus growthInfo) (pest_type pests) (pest_level pests) p9;
                   p11 = updateRootDensity soil1 (tempFactor growthInfo) p10;
                   (status2, p12) = finalizeStatus status1 growthInfo recoveryInfo p11
               in ((status2, lastO2Consumed p12), p12\<lparr>displayStatus := status2\<rparr>, soil1)))"

text \<open>
  \<open>Plant.update\<close> with \<open>simulatedTimeOfDay\<close> unbound.  Steps 1 to 3 (age, senescence,
  maturity and stage) run as above.  A plant that is senescent or dead returns at step 2;
  for any other plant step 4 reads the unbound variable, and the \<open>ReferenceError\<close> ends
  the update there, with the writes of steps 1 to 3 made on the plant and none made on the
  soil.  The result is whether the error was raised, and the plant as the run leaves it.
\<close>

definition Plant_update_unbound :: "real \<Rightarrow> Soil \<Rightarrow> Plant \<Rightarrow> bool \<times> Plant" where
  "Plant_update_unbound elapsedSimMinutes soil p =
     (let p1 = updateAge elapsedSimMinutes (p\<lparr>lastO2Consumed := 0\<rparr>);
          (finished, p2) = handleSenescence p1
      in if finished
         then (let status = (if plant_size p2 \<le> 0 \<or> rootHealth p2 \<le> 0
                             then ''dead'' else ''senescent'')
               in (False, p2\<lparr>displayStatus := status\<rparr>))
         else (True, updateMaturityAndStage elapsedSimMinutes soil p2))"

section \<open>Structures (structure.js)\<close>

record Connections =
  conn_top :: bool
  conn_right :: bool
  conn_bottom :: bool
  conn_left :: bool

record Structure =
  structure_type :: string
  connections :: Connections
  waterLevel :: "real option"

definition no_connections :: Connections where
  "no_connections = \<lparr>conn_top = False, conn_right = False, conn_bottom = False, conn_left = False\<rparr>"

text \<open>\<open>new Structure(type)\<close>: only an Olla has a water level; it starts full (ollaMaxWater 200).\<close>

definition new_Structure :: "string \<Rightarrow> Structure" where
  "new_Structure t =
     \<lparr>structure_type = t, connections = no_connections,
      waterLevel = (if t = ''Olla'' then Some 200 else None)\<rparr>"

text \<open>
  \<open>Structure.update\<close> returns the water released this tick (ollaWaterRelease 3.5) and the
  structure after the release.
\<close>

definition Structure_update :: "Structure \<Rightarrow> real \<times> Structure" where
  "Structure_update st =
     (case waterLevel st of
        Some w \<Rightarrow>
          if structure_type st = ''Olla'' \<and> w > 0
          then (let releaseAmount = min w 3.5
                in (releaseAmount, st\<lparr>waterLevel := Some (w - releaseAmount)\<rparr>))
          else (0, st)
      | None \<Rightarrow> (0, st))"

section \<open>Squares and the grid (square.js, utils.js)\<close>

text \<open>
  A square: its key \<open>"x,y"\<close> as the pair of coordinates, the soil, \<open>variables\<close>
  (temperature, weeds, pests), the plant and the structure (either may be absent) and the
  \<open>display\<close> cache.  The grid \<open>squareState\<close> is the map from keys to squares.
\<close>

record Square =
  sq_key :: "int \<times> int"
  sq_soil :: Soil
  var_temperature :: real
  var_weeds :: nat
  var_pests :: Pests
  sq_plant :: "Plant option"
  sq_structure :: "Structure option"
  display_moistureText :: string
  display_plantText :: string
  display_statusText :: string

type_synonym squareState = "int \<times> int \<Rightarrow> Square option"

text \<open>\<open>getNeighbors(x, y, includeDiagonals, radius)\<close> on the 15 by 15 grid, in loop order.\<close>

definition getNeighbors :: "int \<Rightarrow> int \<Rightarrow> bool \<Rightarrow> int \<Rightarrow> (int \<times> int) list" where
  "getNeighbors x y includeDiagonals radius =
     concat (map (\<lambda>dy. concat (map (\<lambda>dx.
         if dx = 0 \<and> dy = 0 then []
         else if \<not> includeDiagonals \<and> dx \<noteq> 0 \<and> dy \<noteq> 0 \<and> radius = 1 then []
         else (let nx = x + dx; ny = y + dy
               in if nx \<ge> 0 \<and> nx < 15 \<and> ny \<ge> 0 \<and> ny < 15
                     \<and> dx * dx + dy * dy \<le> radius * radius
                  then [(nx, ny)] else []))
       [- radius..radius])) [- radius..radius])"

definition updateDisplayText :: "Square \<Rightarrow> Square" where
  "updateDisplayText sq =
     sq\<lparr>display_moistureText :=
           (if jsor (moisture (sq_soil sq)) 0 \<ge> 80 then ''wet''
            else if jsor (moisture (sq_soil sq)) 0 \<ge> 30 then ''moist'' else ''dry''),
        display_plantText :=
           (case sq_plant sq of
              Some p \<Rightarrow> plant_type p
            | None \<Rightarrow> (case sq_structure sq of Some st \<Rightarrow> structure_type st | None \<Rightarrow> ''empty''))\<rparr>"

text \<open>The Square constructor (the DOM references are left out).\<close>

definition new_Square :: "int \<times> int \<Rightarrow> real \<Rightarrow> nat \<Rightarrow> Pests \<Rightarrow> Square" where
  "new_Square key temperature weeds pests =
     updateDisplayText
       \<lparr>sq_key = key,
        sq_soil = updateOxygen 0 (updateDerivedVariables (new_Soil Soil_DEFAULTS)),
        var_temperature = temperature, var_weeds = weeds, var_pests = pests,
        sq_plant = None, sq_structure = None,
        display_moistureText = ''-'', display_plantText = ''empty'', display_statusText = ''-''\<rparr>"

subsection \<open>The per-tick methods of a square\<close>

text \<open>
  A method of the square stored under \<open>key\<close> is a function of \<open>key\<close> and the grid: the
  square is read from the grid and written back, so that what the method does to its
  neighbours and to itself lands in the one grid.  Each \<open>Math.random()\<close> draw is an argument.
\<close>

record GlobalState =
  currentHumidity :: real
  currentWindSpeed :: real
  currentWindDirection :: string
  isPollinated :: bool
  beneficialAttractionLevel :: real
  beePosition :: "int \<times> int"

definition updSq :: "int \<times> int \<Rightarrow> (Square \<Rightarrow> Square) \<Rightarrow> squareState \<Rightarrow> squareState" where
  "updSq key f st = (case st key of Some sq \<Rightarrow> st(key \<mapsto> f sq) | None \<Rightarrow> st)"

definition hasBigSquash :: "squareState \<Rightarrow> int \<times> int \<Rightarrow> bool" where
  "hasBigSquash st checkKey =
     (case st checkKey of
        Some checkSq \<Rightarrow>
          (case sq_plant checkSq of
             Some p \<Rightarrow> plant_type p = ''Squash'' \<and> jsor (plant_size p) 0 \<ge> 0.5
           | None \<Rightarrow> False)
      | None \<Rightarrow> False)"

text \<open>
  \<open>updateEnvironment\<close> returns the evaporated amount and the grid (evaporationCoolingFactor
  0.15, moistSoilCoolingFactor 0.05, squashEffectSize 0.5).
\<close>

definition updateEnvironment ::
  "real \<Rightarrow> real \<Rightarrow> real \<Rightarrow> int \<times> int \<Rightarrow> squareState \<Rightarrow> real \<times> squareState" where
  "updateEnvironment ambientTemp humidity wind key st =
     (case st key of
        None \<Rightarrow> (0, st)
      | Some sq \<Rightarrow>
          (let soil = sq_soil sq;
               coolingFromEvap = jsor (evaporationRate soil) 0 * 0.15;
               coolingFromMoist = (if jsor (moisture soil) 0 \<ge> 30 then 0.05 else 0);
               temp = clamp (ambientTemp - coolingFromEvap - coolingFromMoist) (- 10) 50;
               checkKeys = key # getNeighbors (fst key) (snd key) True 1;
               squashModifier = (if list_ex (hasBigSquash st) checkKeys then 0.5 else 1.0);
               (evaporated, s1) = applyEvaporation temp humidity wind squashModifier soil;
               s5 = updateWetDuration (updatePH (updateMicrobes temp (updateDegradation s1)))
           in (evaporated, st(key \<mapsto> sq\<lparr>var_temperature := temp, sq_soil := s5\<rparr>))))"

text \<open>
  The parts of \<open>updateEntities\<close>, in its order: the structure's release, the distribution
  of the Olla's water (ollaDistributionRadius1Ratio 0.7, ollaDistributionRadius2Ratio 0.3),
  the plant's update with pollination and death, the neighbour effects, the oxygen.
\<close>

definition addMoistureAt :: "real \<Rightarrow> int \<times> int \<Rightarrow> squareState \<Rightarrow> squareState" where
  "addMoistureAt amount nKey st =
     updSq nKey (\<lambda>neighbor. neighbor\<lparr>sq_soil := addMoisture amount (sq_soil neighbor)\<rparr>) st"

definition ollaNeighbors1 :: "int \<times> int \<Rightarrow> (int \<times> int) list" where
  "ollaNeighbors1 key = getNeighbors (fst key) (snd key) True 1"

definition ollaNeighbors2 :: "int \<times> int \<Rightarrow> (int \<times> int) list" where
  "ollaNeighbors2 key =
     filter (\<lambda>nk. nk \<notin> set (ollaNeighbors1 key) \<and> nk \<noteq> key)
       (getNeighbors (fst key) (snd key) True 2)"

definition releasePerNeighbor1 :: "int \<times> int \<Rightarrow> real \<Rightarrow> real" where
  "releasePerNeighbor1 key waterReleasedByOlla =
     (let totalRatio = jsor 0.7 0 + jsor 0.3 0;
          effectiveRatio1 = (if totalRatio > 0 then jsor 0.7 0 / totalRatio else 0)
      in if length (ollaNeighbors1 key) > 0
         then (waterReleasedByOlla * effectiveRatio1) / real (length (ollaNeighbors1 key))
         else 0)"

definition releasePerNeighbor2 :: "int \<times> int \<Rightarrow> real \<Rightarrow> real" where
  "releasePerNeighbor2 key waterReleasedByOlla =
     (let totalRatio = jsor 0.7 0 + jsor 0.3 0;
          effectiveRatio2 = (if totalRatio > 0 then jsor 0.3 0 / totalRatio else 0)
      in if length (ollaNeighbors2 key) > 0
         then (waterReleasedByOlla * effectiveRatio2) / real (length (ollaNeighbors2 key))
         else 0)"

definition distributeOllaWater :: "int \<times> int \<Rightarrow> real \<Rightarrow> squareState \<Rightarrow> squareState" where
  "distributeOllaWater key waterReleasedByOlla st =
     (if waterReleasedByOlla > 0
      then fold (addMoistureAt (releasePerNeighbor2 key waterReleasedByOlla)) (ollaNeighbors2 key)
             (fold (addMoistureAt (releasePerNeighbor1 key waterReleasedByOlla))
                (ollaNeighbors1 key) st)
      else st)"

definition updateStructureOf :: "int \<times> int \<Rightarrow> squareState \<Rightarrow> real \<times> squareState" where
  "updateStructureOf key st =
     (case st key of
        None \<Rightarrow> (0, st)
      | Some sq \<Rightarrow>
          (case sq_structure sq of
             None \<Rightarrow> (0, st)
           | Some s \<Rightarrow>
               (let (released, s') = Structure_update s
                in (released, st(key \<mapsto> sq\<lparr>sq_structure := Some s'\<rparr>)))))"

definition plantIsDead :: "Plant \<Rightarrow> bool" where
  "plantIsDead p =
     (jsor (plant_size p) 0 \<le> 0 \<or> jsor (rootHealth p) 0 \<le> 0
        \<or> (growthStage p = 4 \<and> jsor (plant_size p) 0 < 0.01))"

definition updatePlantOf ::
  "real \<Rightarrow> real \<Rightarrow> GlobalState \<Rightarrow> int \<times> int \<Rightarrow> squareState \<Rightarrow> real \<times> squareState" where
  "updatePlantOf simulatedTimeOfDay elapsedSimMinutes globalState key st =
     (case st key of
        None \<Rightarrow> (0, st)
      | Some sq \<Rightarrow>
          (case sq_plant sq of
             None \<Rightarrow> (0, st(key \<mapsto> sq\<lparr>display_statusText := ''-''\<rparr>))
           | Some p \<Rightarrow>
               (let ((status, oxygenConsumed), p1, soil1) =
                      Plant_update simulatedTimeOfDay elapsedSimMinutes (sq_soil sq)
                        (var_temperature sq) (map_option structure_type (sq_structure sq))
                        (var_pests sq) p;
                    sq1 = sq\<lparr>sq_soil := soil1,
                             display_statusText := (if status = [] then ''-'' else status)\<rparr>;
                    beeIsOnSquare = (beePosition globalState = key);
                    p2 = (if isPollinated globalState \<or> beeIsOnSquare
                          then p1\<lparr>wasPollinated := True\<rparr> else p1);
                    sq2 = (if plantIsDead p2
                           then sq1\<lparr>sq_plant := None, var_pests := no_pests,
                                    display_statusText := ''-''\<rparr>
                           else sq1\<lparr>sq_plant := Some p2\<rparr>)
                in (jsor oxygenConsumed 0, st(key \<mapsto> sq2)))))"

text \<open>
  The neighbour effects: Beans donate organic matter and microbes (goodRootDensity 1.0,
  goodRootHealth 80); a Marigold lowers a neighbour's Nematode level with chance 0.1, one
  draw \<open>rnd nKey\<close> for each neighbour that holds Nematodes.
\<close>

definition suppressNematodes :: "real \<Rightarrow> Square \<Rightarrow> Square" where
  "suppressNematodes r nSq =
     (if pest_type (var_pests nSq) = Some ''Nematodes'' \<and> r < 0.1
      then (let level' = pest_level (var_pests nSq) - 1
            in nSq\<lparr>var_pests :=
                 \<lparr>pest_type = (if level' = 0 then None else pest_type (var_pests nSq)),
                  pest_level = level'\<rparr>\<rparr>)
      else nSq)"

definition applyNeighborEffects :: "(int \<times> int \<Rightarrow> real) \<Rightarrow> int \<times> int \<Rightarrow> squareState \<Rightarrow> squareState" where
  "applyNeighborEffects rnd key st =
     (case st key of
        None \<Rightarrow> st
      | Some sq \<Rightarrow>
          (case sq_plant sq of
             None \<Rightarrow> st
           | Some p \<Rightarrow>
               (let props = properties p;
                    neighbors = getNeighbors (fst key) (snd key) True 1;
                    bonusFactor = (if jsor (rootDensity p) 0 \<ge> 1.0 \<and> jsor (rootHealth p) 0 \<ge> 80
                                   then 1.5 else 1.0);
                    st1 = (if addsOM props \<or> addsMIC props
                           then fold (\<lambda>nKey. updSq nKey (\<lambda>nSq. nSq\<lparr>sq_soil :=
                                        beansEffect (addsOM props) (addsMIC props) bonusFactor
                                          (sq_soil nSq)\<rparr>)) neighbors st
                           else st)
                in if suppressesNematodes props \<and> plant_type p = ''Marigold''
                   then fold (\<lambda>nKey. updSq nKey (suppressNematodes (rnd nKey))) neighbors st1
                   else st1)))"

definition updateEntities ::
  "real \<Rightarrow> real \<Rightarrow> GlobalState \<Rightarrow> (int \<times> int \<Rightarrow> real) \<Rightarrow> int \<times> int \<Rightarrow> squareState \<Rightarrow> squareState" where
  "updateEntities simulatedTimeOfDay elapsedSimMinutes globalState rnd key st =
     (let (waterReleasedByOlla, st1) = updateStructureOf key st;
          st2 = distributeOllaWater key waterReleasedByOlla st1;
          (plantOxygenConsumption, st3) =
            updatePlantOf simulatedTimeOfDay elapsedSimMinutes globalState key st2;
          st4 = applyNeighborEffects rnd key st3
      in updSq key (\<lambda>sq. sq\<lparr>sq_soil := updateOxygen plantOxygenConsumption (sq_soil sq)\<rparr>) st4)"

text \<open>
  \<open>updateWeeds\<close>: weedGrowthChance 0.015, weedNutrientSapRate 0.08, weedSpreadChance 0.01.
  The draws are \<open>rGrow\<close>, \<open>rSpread\<close> and \<open>rPick\<close>; an index outside the list reads
  \<open>undefined\<close>, for which the grid has no square.
\<close>

definition downwindNeighbors :: "string \<Rightarrow> int \<times> int \<Rightarrow> (int \<times> int) list" where
  "downwindNeighbors windDirection key =
     (let x = fst key; y = snd key; neighbors = getNeighbors x y True 1
      in if windDirection = ''N'' then filter (\<lambda>nKey. snd nKey > y) neighbors
         else if windDirection = ''E'' then filter (\<lambda>nKey. fst nKey < x) neighbors
         else if windDirection = ''S'' then filter (\<lambda>nKey. snd nKey < y) neighbors
         else if windDirection = ''W'' then filter (\<lambda>nKey. fst nKey > x) neighbors
         else neighbors)"

definition spreadWeedTo :: "int \<times> int \<Rightarrow> squareState \<Rightarrow> squareState" where
  "spreadWeedTo targetNeighborKey st =
     (case st targetNeighborKey of
        None \<Rightarrow> st
      | Some neighborSquare \<Rightarrow>
          if var_weeds neighborSquare = 0 \<and> sq_plant neighborSquare = None
               \<and> sq_structure neighborSquare = None
          then st(targetNeighborKey \<mapsto> neighborSquare\<lparr>var_weeds := 1\<rparr>)
          else st)"

definition updateWeeds ::
  "real \<Rightarrow> real \<Rightarrow> real \<Rightarrow> GlobalState \<Rightarrow> int \<times> int \<Rightarrow> squareState \<Rightarrow> squareState" where
  "updateWeeds rGrow rSpread rPick globalState key st =
     (case st key of
        None \<Rightarrow> st
      | Some sq \<Rightarrow>
          (let currentWeeds = var_weeds sq;
               sq1 = (if currentWeeds > 0 \<and> currentWeeds < 4 \<and> rGrow < 0.015
                      then sq\<lparr>var_weeds := var_weeds sq + 1\<rparr> else sq);
               sq2 = (if currentWeeds > 0
                      then sq1\<lparr>sq_soil := drawBN (0.08 * real currentWeeds) (sq_soil sq1)\<rparr>
                      else sq1);
               st1 = st(key \<mapsto> sq2)
           in if currentWeeds = 4 \<and> rSpread < 0.01
              then (let downwind = downwindNeighbors (currentWindDirection globalState) key;
                        i = \<lfloor>rPick * real (length downwind)\<rfloor>
                    in if length downwind > 0 \<and> 0 \<le> i \<and> i < int (length downwind)
                       then spreadWeedTo (downwind ! nat i) st1
                       else st1)
              else st1))"

text \<open>
  \<open>updatePests\<close>: pestSpawnBaseChance 0.001, pestLevelUpChance 0.01, pestSpawnMoisture 70,
  pestSpawnHumidity 75, nematodeWetDuration 8, highMicrobesForNematodeDefense 70,
  beneficialAttractionThreshold 5, ladybeetleAphidRemovalChanceFactor 0.02.  The source
  keeps \<open>pests\<close>, the pest object found on entry: a spawn replaces the square's object and
  leaves \<open>pests\<close> without a type, so the removal block is skipped after a spawn; a level-up
  or a ladybeetle removal writes into the object \<open>pests\<close> refers to.
\<close>

definition isMarigoldAt :: "squareState \<Rightarrow> int \<times> int \<Rightarrow> bool" where
  "isMarigoldAt st nKey =
     (case st nKey of
        Some nSq \<Rightarrow> (case sq_plant nSq of Some p \<Rightarrow> plant_type p = ''Marigold'' | None \<Rightarrow> False)
      | None \<Rightarrow> False)"

definition spawnPests :: "real \<Rightarrow> real \<Rightarrow> GlobalState \<Rightarrow> int \<times> int \<Rightarrow> squareState \<Rightarrow> Square \<Rightarrow> Pests" where
  "spawnPests rNematodes rAphids globalState key st sq =
     (let hasPlant = (sq_plant sq \<noteq> None);
          wetOrHumid = (jsor (moisture (sq_soil sq)) 0 > 70 \<or> currentHumidity globalState > 75);
          spawnChanceAphids0 = (if hasPlant then (if wetOrHumid then 0.001 * 2 else 0.001) else 0);
          isMarigoldNear = list_ex (isMarigoldAt st) (getNeighbors (fst key) (snd key) True 1);
          nematodeSuppressionFactor =
            (if map_option plant_type (sq_plant sq) = Some ''Marigold'' \<or> isMarigoldNear
             then 0.1 else 1.0);
          nematodeConditions = (real (wetDuration (sq_soil sq)) \<ge> 8
                                  \<and> jsor (microbes (sq_soil sq)) 0 < 70);
          spawnChanceNematodes =
            (if nematodeConditions then 0.001 * 3 * nematodeSuppressionFactor else 0);
          spawnChanceAphids = (if nematodeConditions \<and> hasPlant then spawnChanceAphids0 * 0.3
                               else spawnChanceAphids0)
      in if rNematodes < spawnChanceNematodes then \<lparr>pest_type = Some ''Nematodes'', pest_level = 1\<rparr>
         else if rAphids < spawnChanceAphids then \<lparr>pest_type = Some ''Aphids'', pest_level = 1\<rparr>
         else var_pests sq)"

definition controlPests :: "real \<Rightarrow> real \<Rightarrow> real \<Rightarrow> GlobalState \<Rightarrow> Square \<Rightarrow> Pests" where
  "controlPests rLevelUp rLadybeetle rMicrobes globalState sq =
     (let pests = var_pests sq;
          levelUpChance = (if pest_type pests = Some ''Aphids''
                              \<and> map_option structure_type (sq_structure sq) = Some ''Net''
                           then 0.01 * 0.3 else 0.01);
          pests1 = (if pest_level pests < 4 \<and> rLevelUp < levelUpChance
                    then pests\<lparr>pest_level := pest_level pests + 1\<rparr> else pests);
          removalChance = clamp (beneficialAttractionLevel globalState / 10) 0 1 * 0.02;
          pests2 = (if pest_type pests1 = Some ''Aphids''
                       \<and> beneficialAttractionLevel globalState \<ge> 5 \<and> rLadybeetle < removalChance
                    then (let level' = pest_level pests1 - 1
                          in \<lparr>pest_type = (if level' = 0 then None else pest_type pests1),
                              pest_level = level'\<rparr>)
                    else pests1);
          pests3 = (if pest_type pests2 = Some ''Nematodes''
                       \<and> jsor (microbes (sq_soil sq)) 0 > 70 \<and> rMicrobes < 0.2
                    then no_pests else pests2)
      in if sq_plant sq = None then no_pests else pests3)"

definition updatePests ::
  "real \<Rightarrow> real \<Rightarrow> real \<Rightarrow> real \<Rightarrow> real \<Rightarrow> GlobalState \<Rightarrow> int \<times> int \<Rightarrow> squareState \<Rightarrow> squareState" where
  "updatePests rNematodes rAphids rLevelUp rLadybeetle rMicrobes globalState key st =
     (case st key of
        None \<Rightarrow> st
      | Some sq \<Rightarrow>
          st(key \<mapsto> sq\<lparr>var_pests :=
               (if pest_type (var_pests sq) = None
                then spawnPests rNematodes rAphids globalState key st sq
                else controlPests rLevelUp rLadybeetle rMicrobes globalState sq)\<rparr>))"

subsection \<open>The commands on a square\<close>

text \<open>
  \<open>addAmendment(type)\<close> returns whether the action succeeded, and the square.  Rates:
  compostOM 12, compostMicrobeAdd 5, compostMoistureAdd 3, crhMoistureReduce 5,
  crhCompactionReduce 8, crhOmAdd 2, crhPhIncrease 0.1, sandMoistureReduce 8.
\<close>

definition addAmendment :: "string \<Rightarrow> Square \<Rightarrow> bool \<times> Square" where
  "addAmendment t sq =
     (let soil = sq_soil sq
      in if t = ''compost''
         then (let s1 = soil\<lparr>organicMatter := jsor (organicMatter soil) 0 + jsor 12 0\<rparr>;
                   s2 = s1\<lparr>microbes := clamp (jsor (microbes s1) 0 + jsor 5 0) 0 1000\<rparr>;
                   s3 = addMoisture (jsor 3 0) s2
               in (True, sq\<lparr>sq_soil := updateDerivedVariables s3\<rparr>))
         else if t = ''crh''
         then (let s1 = addMoisture (- jsor 5 0) soil;
                   s2 = s1\<lparr>compaction := clamp (jsor (compaction s1) 0 - jsor 8 0) 0 100\<rparr>;
                   s3 = s2\<lparr>organicMatter := jsor (organicMatter s2) 0 + jsor 2 0\<rparr>;
                   s4 = s3\<lparr>pH := clamp (jsor (pH s3) 7.0 + jsor 0.1 0) 4.0 9.0\<rparr>
               in (True, sq\<lparr>sq_soil := updateDerivedVariables s4\<rparr>))
         else if t = ''sand''
         then (True, sq\<lparr>sq_soil := updateDerivedVariables (addMoisture (- jsor 8 0) soil)\<rparr>)
         else (False, sq))"

text \<open>
  The four connection flags in the order of \<open>Object.entries\<close>, the neighbour a flag points
  to (\<open>top\<close> is \<open>y - 1\<close>) and the flag that mirrors it there.
\<close>

datatype direction = DTop | DRight | DBottom | DLeft

fun isConnected :: "Connections \<Rightarrow> direction \<Rightarrow> bool" where
  "isConnected c DTop = conn_top c"
| "isConnected c DRight = conn_right c"
| "isConnected c DBottom = conn_bottom c"
| "isConnected c DLeft = conn_left c"

fun setFlag :: "direction \<Rightarrow> bool \<Rightarrow> Connections \<Rightarrow> Connections" where
  "setFlag DTop b c = c\<lparr>conn_top := b\<rparr>"
| "setFlag DRight b c = c\<lparr>conn_right := b\<rparr>"
| "setFlag DBottom b c = c\<lparr>conn_bottom := b\<rparr>"
| "setFlag DLeft b c = c\<lparr>conn_left := b\<rparr>"

fun opposite :: "direction \<Rightarrow> direction" where
  "opposite DTop = DBottom"
| "opposite DRight = DLeft"
| "opposite DBottom = DTop"
| "opposite DLeft = DRight"

fun neighborKey :: "int \<times> int \<Rightarrow> direction \<Rightarrow> int \<times> int" where
  "neighborKey (x, y) DTop = (x, y - 1)"
| "neighborKey (x, y) DRight = (x + 1, y)"
| "neighborKey (x, y) DBottom = (x, y + 1)"
| "neighborKey (x, y) DLeft = (x - 1, y)"

definition setFlagSq :: "direction \<Rightarrow> bool \<Rightarrow> Square \<Rightarrow> Square" where
  "setFlagSq d b sq =
     (case sq_structure sq of
        Some s \<Rightarrow> sq\<lparr>sq_structure := Some (s\<lparr>connections := setFlag d b (connections s)\<rparr>)\<rparr>
      | None \<Rightarrow> sq)"

text \<open>
  The loop that \<open>till\<close> and \<open>removeEntity\<close> share: for each flag set on the structure being
  removed, clear the mirrored flag of the neighbour it points to, when that neighbour
  exists and holds a structure.
\<close>

definition clearNeighborConnections :: "int \<times> int \<Rightarrow> Connections \<Rightarrow> squareState \<Rightarrow> squareState" where
  "clearNeighborConnections key conns st =
     fold (\<lambda>dir st'. if isConnected conns dir
                      then updSq (neighborKey key dir) (setFlagSq (opposite dir) False) st'
                      else st')
       [DTop, DRight, DBottom, DLeft] st"

definition isTrellisOrNet :: "string \<Rightarrow> bool" where
  "isTrellisOrNet t = (t = ''Trellis'' \<or> t = ''Net'')"

text \<open>
  \<open>till(squareState)\<close> returns the list \<open>removed\<close> and the grid (tillCompactionReduce 20,
  tillMicrobesReduce 5).
\<close>

definition till :: "int \<times> int \<Rightarrow> squareState \<Rightarrow> string list \<times> squareState" where
  "till key st =
     (case st key of
        None \<Rightarrow> ([], st)
      | Some sq \<Rightarrow>
          (let soil = sq_soil sq;
               soil1 = soil\<lparr>compaction := max 0 (jsor (compaction soil) 0 - jsor 20 0)\<rparr>;
               soil2 = soil1\<lparr>microbes := max 0 (jsor (microbes soil1) 0 - jsor 5 0)\<rparr>;
               hadWeeds = (var_weeds sq > 0);
               sq1 = sq\<lparr>sq_soil := soil2, var_weeds := (if hadWeeds then 0 else var_weeds sq)\<rparr>;
               removed1 = (if hadWeeds then [''weeds''] else []);
               st1 = st(key \<mapsto> sq1);
               (removed2, st2) =
                 (case sq_structure sq1 of
                    Some s \<Rightarrow>
                      if isTrellisOrNet (structure_type s)
                      then (removed1 @ [structure_type s],
                            updSq key (\<lambda>q. q\<lparr>sq_structure := None\<rparr>)
                              (clearNeighborConnections key (connections s) st1))
                      else (removed1, st1)
                  | None \<Rightarrow> (removed1, st1))
           in (removed2,
               updSq key (\<lambda>q. q\<lparr>sq_soil := updateDerivedVariables (sq_soil q)\<rparr>) st2)))"

text \<open>\<open>removeEntity(squareState)\<close> returns the type of what was removed, and the grid.\<close>

definition removeEntity :: "int \<times> int \<Rightarrow> squareState \<Rightarrow> string option \<times> squareState" where
  "removeEntity key st =
     (case st key of
        None \<Rightarrow> (None, st)
      | Some sq \<Rightarrow>
          (case sq_plant sq of
             Some p \<Rightarrow>
               (Some (plant_type p),
                st(key \<mapsto> updateDisplayText (sq\<lparr>sq_plant := None, display_statusText := ''-''\<rparr>)))
           | None \<Rightarrow>
               (case sq_structure sq of
                  Some s \<Rightarrow>
                    (let st1 = (if isTrellisOrNet (structure_type s)
                                then clearNeighborConnections key (connections s) st else st)
                     in (Some (structure_type s),
                         updSq key (\<lambda>q. updateDisplayText (q\<lparr>sq_structure := None\<rparr>)) st1))
                | None \<Rightarrow> (None, st(key \<mapsto> updateDisplayText sq)))))"

text \<open>
  \<open>harvestPlant\<close> returns the result object and the square.  The failure reason starts
  as the text \<open>stage n\<close>.  pestYieldFactorReduction is 0.4.
\<close>

record HarvestResult =
  harvested :: bool
  hr_yield :: "real option"
  hr_value :: "real option"
  hr_type :: "string option"
  hr_reason :: "string option"

fun string_of_nat :: "nat \<Rightarrow> string" where
  "string_of_nat n =
     (if n < 10 then [char_of (48 + n)]
      else string_of_nat (n div 10) @ [char_of (48 + n mod 10)])"

declare string_of_nat.simps [simp del]

definition isFlowerOrHerb :: "string \<Rightarrow> bool" where
  "isFlowerOrHerb t = (t = ''Flower'' \<or> t = ''Marigold'' \<or> t = ''Basil'')"

definition harvestableStage :: "Plant \<Rightarrow> nat" where
  "harvestableStage plant = (if isFlowerOrHerb (plant_type plant) then 2 else 3)"

definition requiresPollination :: "Plant \<Rightarrow> bool" where
  "requiresPollination plant =
     (jsor (maxYield (properties plant)) 0 > 0 \<or> on_trellis_species (plant_type plant))"

definition harvestPlant :: "Square \<Rightarrow> HarvestResult \<times> Square" where
  "harvestPlant sq =
     (case sq_plant sq of
        None \<Rightarrow>
          (\<lparr>harvested = False, hr_yield = None, hr_value = None, hr_type = None,
            hr_reason = Some ''empty''\<rparr>, sq)
      | Some plant \<Rightarrow>
          if growthStage plant = 4
          then (\<lparr>harvested = False, hr_yield = None, hr_value = None,
                 hr_type = Some (plant_type plant), hr_reason = Some ''senescent''\<rparr>, sq)
          else if growthStage plant \<ge> harvestableStage plant
                    \<and> (\<not> requiresPollination plant \<or> wasPollinated plant)
          then (let plantProps = properties plant;
                    soilCondFactor = clamp (jsor (soilCondition (sq_soil sq)) 0 / 100) 0 1;
                    rootHealthFactor = clamp (jsor (rootHealth plant) 0 / 100) 0 1;
                    factor0 = clamp ((soilCondFactor + rootHealthFactor) / 2) 0 1;
                    factor1 = (if map_option structure_type (sq_structure sq) = Some ''Trellis''
                                  \<and> on_trellis_species (plant_type plant)
                               then min 1.0 (factor0 * 1.3) else factor0);
                    factor2 = (if pest_type (var_pests sq) \<noteq> None
                               then factor1 * (1 - jsor 0.4 0) else factor1);
                    yield0 = max 0 (Math_round (jsor (maxYield plantProps) 0 * factor2));
                    harvestedYield = (if maxYield plantProps = 0 \<and> yield0 = 0
                                         \<and> isFlowerOrHerb (plant_type plant)
                                      then 1 else yield0);
                    moneyEarned = harvestedYield * jsor (price plantProps) 0
                in (\<lparr>harvested = True, hr_yield = Some harvestedYield,
                     hr_value = Some moneyEarned, hr_type = Some (plant_type plant),
                     hr_reason = None\<rparr>,
                    sq\<lparr>sq_plant := None, display_statusText := ''-''\<rparr>))
          else (let reason0 = ''stage '' @ string_of_nat (growthStage plant);
                    reason1 = (if growthStage plant < harvestableStage plant
                               then ''immature'' else reason0);
                    reason2 = (if requiresPollination plant \<and> \<not> wasPollinated plant
                               then ''unpollinated'' else reason1)
                in (\<lparr>harvested = False, hr_yield = None, hr_value = None,
                     hr_type = Some (plant_type plant), hr_reason = Some reason2\<rparr>, sq)))"

text \<open>
  \<open>tryPlanting(plantType)\<close>.  Its \<open>catch\<close> branch returns false when the Plant
  constructor throws; the constructor has no \<open>throw\<close>, so that branch is never taken.
\<close>

definition tryPlanting :: "string \<Rightarrow> Square \<Rightarrow> bool \<times> Square" where
  "tryPlanting plantType sq =
     (if sq_plant sq = None \<and> sq_structure sq = None
      then (True, updateDisplayText (sq\<lparr>sq_plant := Some (new_Plant plantType)\<rparr>))
      else (False, sq))"

text \<open>
  \<open>tryAddingStructure(structureType, squareState)\<close>; the answer of the \<open>confirm\<close> dialog
  is the argument \<open>userConfirmed\<close>.  The keys of the table \<open>STRUCTURE_INFO\<close>:
\<close>

definition STRUCTURE_INFO_keys :: "string list" where
  "STRUCTURE_INFO_keys = [''Olla'', ''Trellis'', ''Net'']"

text \<open>
  The guard \<open>!SimulationConfig.STRUCTURE_INFO[structureType]\<close> tests whether the lookup
  finds something truthy: an entry under an own key, or a built-in under an inherited name.
\<close>

definition STRUCTURE_INFO_has :: "string \<Rightarrow> bool" where
  "STRUCTURE_INFO_has t = (t \<in> set STRUCTURE_INFO_keys \<or> t \<in> set Object_prototype_keys)"

definition hasStructureOfType :: "string \<Rightarrow> squareState \<Rightarrow> int \<times> int \<Rightarrow> bool" where
  "hasStructureOfType t st nKey =
     (case st nKey of
        Some neighborSq \<Rightarrow> map_option structure_type (sq_structure neighborSq) = Some t
      | None \<Rightarrow> False)"

definition connectTo :: "int \<times> int \<Rightarrow> int \<times> int \<Rightarrow> squareState \<Rightarrow> squareState" where
  "connectTo key nKey st =
     (let x = fst key; y = snd key; nx = fst nKey; ny = snd nKey;
          both = (\<lambda>d st'. updSq nKey (setFlagSq (opposite d) True) (updSq key (setFlagSq d True) st'));
          st1 = (if ny < y then both DTop st else if ny > y then both DBottom st else st)
      in if nx < x then both DLeft st1 else if nx > x then both DRight st1 else st1)"

definition tryAddingStructure ::
  "bool \<Rightarrow> string \<Rightarrow> int \<times> int \<Rightarrow> squareState \<Rightarrow> bool \<times> squareState" where
  "tryAddingStructure userConfirmed structureType key st =
     (case st key of
        None \<Rightarrow> (False, st)
      | Some sq \<Rightarrow>
          if \<not> STRUCTURE_INFO_has structureType then (False, st)
          else if sq_plant sq \<noteq> None \<or> sq_structure sq \<noteq> None then (False, st)
          else (let placed = st(key \<mapsto> sq\<lparr>sq_structure := Some (new_Structure structureType)\<rparr>);
                    adjacentActiveNeighbors =
                      filter (hasStructureOfType structureType st)
                        (getNeighbors (fst key) (snd key) True 1);
                    st1 = (if isTrellisOrNet structureType \<and> length adjacentActiveNeighbors > 0
                              \<and> userConfirmed
                           then fold (connectTo key) adjacentActiveNeighbors placed
                           else placed)
                in (True, updSq key updateDisplayText st1)))"

subsection \<open>Connection flags across the grid\<close>

text \<open>
  The structure of the square at a key, whether its flag \<open>d\<close> is set, and the symmetry of
  the flags: a flag is set exactly when the neighbour it points to holds a structure whose
  mirrored flag is set.
\<close>

definition structureAt :: "squareState \<Rightarrow> int \<times> int \<Rightarrow> Structure option" where
  "structureAt st k = (case st k of Some sq \<Rightarrow> sq_structure sq | None \<Rightarrow> None)"

definition flagAt :: "squareState \<Rightarrow> int \<times> int \<Rightarrow> direction \<Rightarrow> bool" where
  "flagAt st k d = (case structureAt st k of Some s \<Rightarrow> isConnected (connections s) d | None \<Rightarrow> False)"

definition connections_symmetric :: "squareState \<Rightarrow> bool" where
  "connections_symmetric st = (\<forall>k d. flagAt st k d = flagAt st (neighborKey k d) (opposite d))"

text \<open>
  The test that \<open>getNeighbors\<close> applies to the offset \<open>(dx, dy)\<close>: not the centre, no
  diagonal when diagonals are excluded at radius 1, inside the grid, within the radius.
\<close>

definition keepOffset :: "int \<Rightarrow> int \<Rightarrow> bool \<Rightarrow> int \<Rightarrow> int \<Rightarrow> int \<Rightarrow> bool" where
  "keepOffset x y b r dy dx =
     (\<not> (dx = 0 \<and> dy = 0) \<and> \<not> (\<not> b \<and> dx \<noteq> 0 \<and> dy \<noteq> 0 \<and> r = 1)
      \<and> x + dx \<ge> 0 \<and> x + dx < 15 \<and> y + dy \<ge> 0 \<and> y + dy < 15 \<and> dx * dx + dy * dy \<le> r * r)"

text \<open>The moisture of the square at a key (0 where the grid has no square).\<close>

definition moistureAt :: "squareState \<Rightarrow> int \<times> int \<Rightarrow> real" where
  "moistureAt st k = (case st k of Some sq \<Rightarrow> moisture (sq_soil sq) | None \<Rightarrow> 0)"

text \<open>The keys of the 15 by 15 grid.\<close>

definition in_grid :: "int \<times> int \<Rightarrow> bool" where
  "in_grid k = (0 \<le> fst k \<and> fst k < 15 \<and> 0 \<le> snd k \<and> snd k < 15)"

text \<open>
  A square holds a plant or a structure, not both (the source: \<open>only one can exist: plant
  or structure\<close>); and the grid in which every square does.
\<close>

definition vacant_or_single :: "Square \<Rightarrow> bool" where
  "vacant_or_single sq = (sq_plant sq = None \<or> sq_structure sq = None)"

definition occupancy_exclusive :: "squareState \<Rightarrow> bool" where
  "occupancy_exclusive st = (\<forall>k sq. st k = Some sq \<longrightarrow> vacant_or_single sq)"

subsection \<open>The tick over the grid (main.js)\<close>

text \<open>
  \<open>updateAllSquares\<close> visits the squares in the order of the map and runs, for each one, the
  four per-tick methods and then the final update of the derived soil scores and of the
  cached text.  The global state object is built once, before the loop.  The random draws
  of one square are a record; the result is the total evaporation and the grid.  The pass
  is followed with \<open>simulatedTimeOfDay\<close> bound; with the variable unbound (see
  \<open>_calculateLightFactor\<close>) it ends inside \<open>updateEntities\<close> at the first square whose
  plant is neither senescent nor dead, with the writes made up to there.
\<close>

text \<open>
  The simulated minutes of a tick, from the two readings of \<open>Date.now()\<close> (milliseconds)
  and the speed multiplier; SIMULATED_DAY_LENGTH_SECONDS is 20.
\<close>

definition tickElapsedSimMinutes :: "int \<Rightarrow> int \<Rightarrow> real \<Rightarrow> real" where
  "tickElapsedSimMinutes lastTickTimestamp now simulationSpeed =
     (let elapsedRealMs = real_of_int (now - lastTickTimestamp);
          elapsedSimSeconds = (elapsedRealMs / 1000) * simulationSpeed
      in elapsedSimSeconds * ((24 * 60) / jsor 20 20))"

record Draws =
  draw_grow :: real
  draw_spread :: real
  draw_pick :: real
  draw_nematodes :: real
  draw_aphids :: real
  draw_levelUp :: real
  draw_ladybeetle :: real
  draw_microbes :: real
  draw_marigold :: "int \<times> int \<Rightarrow> real"

record Weather =
  ambientTemperature :: real
  simulatedTimeOfDay :: real
  globalState :: GlobalState

definition squareTick ::
  "Weather \<Rightarrow> real \<Rightarrow> Draws \<Rightarrow> int \<times> int \<Rightarrow> squareState \<Rightarrow> real \<times> squareState" where
  "squareTick weather elapsedSimMinutes draws key st =
     (let gs = globalState weather;
          (evaporated, st1) =
            updateEnvironment (ambientTemperature weather) (currentHumidity gs)
              (currentWindSpeed gs) key st;
          st2 = updateEntities (simulatedTimeOfDay weather) elapsedSimMinutes gs
                  (draw_marigold draws) key st1;
          st3 = updateWeeds (draw_grow draws) (draw_spread draws) (draw_pick draws) gs key st2;
          st4 = updatePests (draw_nematodes draws) (draw_aphids draws) (draw_levelUp draws)
                  (draw_ladybeetle draws) (draw_microbes draws) gs key st3
      in (evaporated,
          updSq key
            (\<lambda>sq. updateDisplayText (sq\<lparr>sq_soil := updateDerivedVariables (sq_soil sq)\<rparr>)) st4))"

fun updateAllSquares ::
  "Weather \<Rightarrow> real \<Rightarrow> (int \<times> int \<Rightarrow> Draws) \<Rightarrow> (int \<times> int) list \<Rightarrow> squareState
   \<Rightarrow> real \<times> squareState" where
  "updateAllSquares weather elapsedSimMinutes draws [] st = (0, st)"
| "updateAllSquares weather elapsedSimMinutes draws (key # keys) st =
     (let (evaporated, st1) = squareTick weather elapsedSimMinutes (draws key) key st;
          (total, st2) = updateAllSquares weather elapsedSimMinutes draws keys st1
      in (evaporated + total, st2))"

text \<open>Every soil of the grid is within its bounds.\<close>

definition grid_bounds :: "squareState \<Rightarrow> bool" where
  "grid_bounds st = (\<forall>k sq. st k = Some sq \<longrightarrow> soil_bounds (sq_soil sq))"

section \<open>Example states\<close>

text \<open>A pollinated Corn at the Fruiting stage on a square that holds Aphids at level 2.\<close>

definition ripe_corn_with_aphids :: Square where
  "ripe_corn_with_aphids =
     (new_Square (0, 0) 20 0 \<lparr>pest_type = Some ''Aphids'', pest_level = 2\<rparr>)
       \<lparr>sq_plant := Some ((new_Plant ''Corn'')\<lparr>growthStage := 3, wasPollinated := True\<rparr>)\<rparr>"

definition calm_weather :: GlobalState where
  "calm_weather =
     \<lparr>currentHumidity = 60, currentWindSpeed = 0, currentWindDirection = ''None'',
      isPollinated = False, beneficialAttractionLevel = 0, beePosition = (7, 7)\<rparr>"

text \<open>A square with weeds at level 4 at \<open>(1, 0)\<close>, an empty square west of it, wind from the east.\<close>

definition weedy_grid :: squareState where
  "weedy_grid = [(1, 0) \<mapsto> new_Square (1, 0) 20 4 no_pests, (0, 0) \<mapsto> new_Square (0, 0) 20 0 no_pests]"

definition east_wind :: GlobalState where
  "east_wind = calm_weather\<lparr>currentWindDirection := ''E''\<rparr>"

text \<open>Two Trellises side by side, connected to each other.\<close>

definition trellis_pair :: squareState where
  "trellis_pair =
     [(0, 0) \<mapsto> (new_Square (0, 0) 20 0 no_pests)
          \<lparr>sq_structure := Some ((new_Structure ''Trellis'')
              \<lparr>connections := no_connections\<lparr>conn_right := True\<rparr>\<rparr>)\<rparr>,
      (1, 0) \<mapsto> (new_Square (1, 0) 20 0 no_pests)
          \<lparr>sq_structure := Some ((new_Structure ''Trellis'')
              \<lparr>connections := no_connections\<lparr>conn_left := True\<rparr>\<rparr>)\<rparr>]"

text \<open>
  A full Olla at \<open>(7, 7)\<close> on a grid of fresh squares (moisture 50), and on a grid whose
  other squares have been watered up to moisture 100.
\<close>

definition olla_square :: Square where
  "olla_square = (new_Square (7, 7) 20 0 no_pests)\<lparr>sq_structure := Some (new_Structure ''Olla'')\<rparr>"

definition dry_grid :: squareState where
  "dry_grid k =
     (if in_grid k
      then Some (if k = (7, 7) then olla_square else new_Square k 20 0 no_pests)
      else None)"

definition wet_grid :: squareState where
  "wet_grid k =
     (if in_grid k
      then Some (if k = (7, 7) then olla_square
                 else (new_Square k 20 0 no_pests)
                        \<lparr>sq_soil := addMoisture 50 (sq_soil (new_Square k 20 0 no_pests))\<rparr>)
      else None)"

text \<open>Noon of a calm day at 20 degrees, and draws under which no random event fires.\<close>

definition noon :: Weather where
  "noon = \<lparr>ambientTemperature = 20, simulatedTimeOfDay = 720, globalState = calm_weather\<rparr>"

definition no_events :: Draws where
  "no_events =
     \<lparr>draw_grow = 0.5, draw_spread = 0.5, draw_pick = 0.5, draw_nematodes = 0.5,
      draw_aphids = 0.5, draw_levelUp = 0.5, draw_ladybeetle = 0.5, draw_microbes = 0.5,
      draw_marigold = (\<lambda>k. 0.5)\<rparr>"

section \<open>Properties of the soil model\<close>

lemma jsor_zero [simp]: "jsor x 0 = x"
  by (simp add: jsor_def)

lemma clamp_lower [simp]: "lo \<le> hi \<Longrightarrow> lo \<le> clamp v lo hi"
  by (simp add: clamp_def)

lemma clamp_upper [simp]: "lo \<le> hi \<Longrightarrow> clamp v lo hi \<le> hi"
  by (simp add: clamp_def)

lemma updateDerivedVariables_inputs [simp]:
  "moisture (updateDerivedVariables s) = moisture s"
  "compaction (updateDerivedVariables s) = compaction s"
  "microbes (updateDerivedVariables s) = microbes s"
  "oxygen (updateDerivedVariables s) = oxygen s"
  "organicMatter (updateDerivedVariables s) = organicMatter s"
  "bioavailableNutrition (updateDerivedVariables s) = bioavailableNutrition s"
  "pH (updateDerivedVariables s) = pH s"
  "wetDuration (updateDerivedVariables s) = wetDuration s"
  "evaporationRate (updateDerivedVariables s) = evaporationRate s"
  by (simp_all add: updateDerivedVariables_def Let_def)

lemma updateDerivedVariables_idem:
  "updateDerivedVariables (updateDerivedVariables s) = updateDerivedVariables s"
  by (simp add: updateDerivedVariables_def Let_def)

lemma updateOxygen_idem: "updateOxygen c (updateOxygen c s) = updateOxygen c s"
  by (simp add: updateOxygen_def updateDerivedVariables_def Let_def)

lemma moisture_addMoisture [simp]: "moisture (addMoisture d s) = clamp (moisture s + d) 0 100"
  by (simp add: addMoisture_def)

lemma moisture_new_Soil_DEFAULTS: "moisture (new_Soil Soil_DEFAULTS) = 50"
  by (simp add: new_Soil_def updateOxygen_def Let_def Soil_DEFAULTS_def)

lemma updateOxygen_inputs:
  "moisture (updateOxygen c s) = moisture s"
  "microbes (updateOxygen c s) = microbes s"
  "organicMatter (updateOxygen c s) = organicMatter s"
  "bioavailableNutrition (updateOxygen c s) = bioavailableNutrition s"
  "pH (updateOxygen c s) = pH s"
  by (simp_all add: updateOxygen_def Let_def)

lemma oxygenBasePotential_dry:
  "moisture s < 80 \<Longrightarrow> compaction s < 100 \<Longrightarrow> moisture s \<noteq> 0 \<Longrightarrow> compaction s \<noteq> 0
     \<Longrightarrow> oxygenBasePotential (updateDerivedVariables s) = 100"
  by (simp add: updateDerivedVariables_def Let_def jsor_def)

lemma fresh_fields:
  "moisture (new_Soil Soil_DEFAULTS) = 50" "microbes (new_Soil Soil_DEFAULTS) = 50"
  "organicMatter (new_Soil Soil_DEFAULTS) = 10" "bioavailableNutrition (new_Soil Soil_DEFAULTS) = 10"
  "pH (new_Soil Soil_DEFAULTS) = 7" "oxygen (new_Soil Soil_DEFAULTS) = 100"
proof -
  show "moisture (new_Soil Soil_DEFAULTS) = 50" "microbes (new_Soil Soil_DEFAULTS) = 50"
    "organicMatter (new_Soil Soil_DEFAULTS) = 10" "bioavailableNutrition (new_Soil Soil_DEFAULTS) = 10"
    "pH (new_Soil Soil_DEFAULTS) = 7"
    by (simp_all add: new_Soil_def Soil_DEFAULTS_def updateOxygen_inputs)
  have "oxygenBasePotential (updateDerivedVariables (updateDerivedVariables
          (Soil_DEFAULTS\<lparr>oxygenBasePotential := 100\<rparr>))) = 100"
    by (rule oxygenBasePotential_dry) (simp_all add: Soil_DEFAULTS_def)
  then show "oxygen (new_Soil Soil_DEFAULTS) = 100"
    by (simp add: new_Soil_def updateOxygen_def Let_def clamp_def)
qed

lemma addMoisture_not_idempotent:
  "addMoisture 5 (addMoisture 5 (new_Soil Soil_DEFAULTS)) \<noteq> addMoisture 5 (new_Soil Soil_DEFAULTS)"
proof
  assume "addMoisture 5 (addMoisture 5 (new_Soil Soil_DEFAULTS)) = addMoisture 5 (new_Soil Soil_DEFAULTS)"
  then have "moisture (addMoisture 5 (addMoisture 5 (new_Soil Soil_DEFAULTS)))
      = moisture (addMoisture 5 (new_Soil Soil_DEFAULTS))"
    by (rule arg_cong)
  then show False by (simp add: fresh_fields clamp_def)
qed

lemma updateMicrobes_fresh:
  "organicMatter (updateMicrobes 20 (new_Soil Soil_DEFAULTS)) = 9"
  "microbes (updateMicrobes 20 (new_Soil Soil_DEFAULTS)) = 50.1"
  "bioavailableNutrition (updateMicrobes 20 (new_Soil Soil_DEFAULTS)) = 11"
  "oxygen (updateMicrobes 20 (new_Soil Soil_DEFAULTS)) = 100"
  "moisture (updateMicrobes 20 (new_Soil Soil_DEFAULTS)) = 50"
  "pH (updateMicrobes 20 (new_Soil Soil_DEFAULTS)) = 7"
  by (simp_all add: updateMicrobes_def Let_def fresh_fields microbeActivityFactor_of_def
      microbePhFactor_of_def clamp_def)

lemma updateMicrobes_not_idempotent:
  "updateMicrobes 20 (updateMicrobes 20 (new_Soil Soil_DEFAULTS)) \<noteq> updateMicrobes 20 (new_Soil Soil_DEFAULTS)"
proof
  assume "updateMicrobes 20 (updateMicrobes 20 (new_Soil Soil_DEFAULTS)) = updateMicrobes 20 (new_Soil Soil_DEFAULTS)"
  then have "organicMatter (updateMicrobes 20 (updateMicrobes 20 (new_Soil Soil_DEFAULTS)))
      = organicMatter (updateMicrobes 20 (new_Soil Soil_DEFAULTS))"
    by (rule arg_cong)
  moreover have "organicMatter (updateMicrobes 20 (updateMicrobes 20 (new_Soil Soil_DEFAULTS))) = 8"
    by (simp add: updateMicrobes_def[of 20 "updateMicrobes 20 (new_Soil Soil_DEFAULTS)"] Let_def
        updateMicrobes_fresh microbeActivityFactor_of_def microbePhFactor_of_def clamp_def)
  ultimately show False by (simp add: updateMicrobes_fresh)
qed

lemma applyEvaporation_moisture:
  "moisture (snd (applyEvaporation 20 60 0 1 s)) = clamp (moisture s - 0.0644 * (moisture s / 100)) 0 100"
  by (simp add: applyEvaporation_def evaporationRate_of_def Let_def jsor_def)

lemma applyEvaporation_not_idempotent:
  "snd (applyEvaporation 20 60 0 1 (snd (applyEvaporation 20 60 0 1 (new_Soil Soil_DEFAULTS))))
     \<noteq> snd (applyEvaporation 20 60 0 1 (new_Soil Soil_DEFAULTS))"
proof
  assume "snd (applyEvaporation 20 60 0 1 (snd (applyEvaporation 20 60 0 1 (new_Soil Soil_DEFAULTS))))
     = snd (applyEvaporation 20 60 0 1 (new_Soil Soil_DEFAULTS))"
  then have "moisture (snd (applyEvaporation 20 60 0 1 (snd (applyEvaporation 20 60 0 1 (new_Soil Soil_DEFAULTS)))))
     = moisture (snd (applyEvaporation 20 60 0 1 (new_Soil Soil_DEFAULTS)))"
    by (rule arg_cong)
  then show False
    by (simp add: applyEvaporation_moisture fresh_fields clamp_def)
qed

lemma updateDegradation_moisture:
  "30 \<le> moisture s \<Longrightarrow> moisture s < 80 \<Longrightarrow>
     moisture (updateDegradation s) = clamp (moisture s - 0.01) 0 100"
  by (simp add: updateDegradation_def Let_def jsor_def)

lemma updateDegradation_not_idempotent:
  "updateDegradation (updateDegradation (new_Soil Soil_DEFAULTS)) \<noteq> updateDegradation (new_Soil Soil_DEFAULTS)"
proof
  assume "updateDegradation (updateDegradation (new_Soil Soil_DEFAULTS)) = updateDegradation (new_Soil Soil_DEFAULTS)"
  then have e: "moisture (updateDegradation (updateDegradation (new_Soil Soil_DEFAULTS)))
     = moisture (updateDegradation (new_Soil Soil_DEFAULTS))"
    by (rule arg_cong)
  have m1: "moisture (updateDegradation (new_Soil Soil_DEFAULTS)) = 49.99"
    by (simp add: updateDegradation_moisture fresh_fields clamp_def)
  have m2: "moisture (updateDegradation (updateDegradation (new_Soil Soil_DEFAULTS))) = 49.98"
    by (simp add: updateDegradation_moisture m1 clamp_def)
  from e show False by (simp add: m1 m2)
qed

lemma updatePH_not_idempotent:
  "updatePH (updatePH ((new_Soil Soil_DEFAULTS)\<lparr>organicMatter := 80\<rparr>))
     \<noteq> updatePH ((new_Soil Soil_DEFAULTS)\<lparr>organicMatter := 80\<rparr>)"
proof
  assume "updatePH (updatePH ((new_Soil Soil_DEFAULTS)\<lparr>organicMatter := 80\<rparr>))
     = updatePH ((new_Soil Soil_DEFAULTS)\<lparr>organicMatter := 80\<rparr>)"
  then have "pH (updatePH (updatePH ((new_Soil Soil_DEFAULTS)\<lparr>organicMatter := 80\<rparr>)))
     = pH (updatePH ((new_Soil Soil_DEFAULTS)\<lparr>organicMatter := 80\<rparr>))"
    by (rule arg_cong)
  then show False
    by (simp add: updatePH_def fresh_fields clamp_def jsor_def)
qed

lemma updateWetDuration_not_idempotent:
  "updateWetDuration (updateWetDuration (Soil_DEFAULTS\<lparr>moisture := 90\<rparr>))
       \<noteq> updateWetDuration (Soil_DEFAULTS\<lparr>moisture := 90\<rparr>)"
proof
  assume "updateWetDuration (updateWetDuration (Soil_DEFAULTS\<lparr>moisture := 90\<rparr>))
      = updateWetDuration (Soil_DEFAULTS\<lparr>moisture := 90\<rparr>)"
  then have "wetDuration (updateWetDuration (updateWetDuration (Soil_DEFAULTS\<lparr>moisture := 90\<rparr>)))
      = wetDuration (updateWetDuration (Soil_DEFAULTS\<lparr>moisture := 90\<rparr>))"
    by (rule arg_cong)
  then show False by (simp add: updateWetDuration_def Soil_DEFAULTS_def)
qed

text \<open>
  C4, amended.  Recomputing the derived values and finalising the oxygen are idempotent:
  run twice with the same argument on any soil, either leaves the soil that one run
  leaves.  None of the other six operations is idempotent: each has a soil on which a
  second run with the same arguments changes the soil again.  For \<open>addMoisture\<close>,
  \<open>updateMicrobes\<close>, \<open>applyEvaporation\<close> and \<open>updateDegradation\<close> the fresh default soil is
  one; for \<open>updatePH\<close> a soil with organic matter above 70; for \<open>updateWetDuration\<close> a wet
  soil.
\<close>

theorem soil_idempotent_operations:
  "updateDerivedVariables (updateDerivedVariables s) = updateDerivedVariables s
   \<and> updateOxygen c (updateOxygen c s) = updateOxygen c s
   \<and> addMoisture 5 (addMoisture 5 (new_Soil Soil_DEFAULTS)) \<noteq> addMoisture 5 (new_Soil Soil_DEFAULTS)
   \<and> updateMicrobes 20 (updateMicrobes 20 (new_Soil Soil_DEFAULTS))
       \<noteq> updateMicrobes 20 (new_Soil Soil_DEFAULTS)
   \<and> snd (applyEvaporation 20 60 0 1 (snd (applyEvaporation 20 60 0 1 (new_Soil Soil_DEFAULTS))))
       \<noteq> snd (applyEvaporation 20 60 0 1 (new_Soil Soil_DEFAULTS))
   \<and> updateDegradation (updateDegradation (new_Soil Soil_DEFAULTS))
       \<noteq> updateDegradation (new_Soil Soil_DEFAULTS)
   \<and> updatePH (updatePH ((new_Soil Soil_DEFAULTS)\<lparr>organicMatter := 80\<rparr>))
       \<noteq> updatePH ((new_Soil Soil_DEFAULTS)\<lparr>organicMatter := 80\<rparr>)
   \<and> updateWetDuration (updateWetDuration (Soil_DEFAULTS\<lparr>moisture := 90\<rparr>))
       \<noteq> updateWetDuration (Soil_DEFAULTS\<lparr>moisture := 90\<rparr>)"
  using updateDerivedVariables_idem[of s] updateOxygen_idem[of c s]
    addMoisture_not_idempotent updateMicrobes_not_idempotent applyEvaporation_not_idempotent
    updateDegradation_not_idempotent updatePH_not_idempotent updateWetDuration_not_idempotent
  by (intro conjI)

text \<open>
  C4 as stated fails: adding 5 units of moisture twice to a fresh soil (moisture 50)
  leaves moisture 60, once leaves 55; and two runs of the wet-duration counter on a wet
  soil count 2, one run counts 1.
\<close>

theorem soil_operations_not_idempotent:
  "addMoisture 5 (addMoisture 5 (new_Soil Soil_DEFAULTS)) \<noteq> addMoisture 5 (new_Soil Soil_DEFAULTS)
   \<and> updateWetDuration (updateWetDuration (Soil_DEFAULTS\<lparr>moisture := 90\<rparr>))
       \<noteq> updateWetDuration (Soil_DEFAULTS\<lparr>moisture := 90\<rparr>)"
  using addMoisture_not_idempotent updateWetDuration_not_idempotent by (rule conjI)

lemma updateDerivedVariables_nutrition:
  "0 \<le> nutrition (updateDerivedVariables s) \<and> nutrition (updateDerivedVariables s) \<le> 100"
  by (simp add: updateDerivedVariables_def Let_def)

lemma updateDerivedVariables_soilCondition:
  "0 \<le> soilCondition (updateDerivedVariables s) \<and> soilCondition (updateDerivedVariables s) \<le> 100"
  by (simp add: updateDerivedVariables_def Let_def)

lemma updateDerivedVariables_bounds: "soil_bounds s \<Longrightarrow> soil_bounds (updateDerivedVariables s)"
  using updateDerivedVariables_nutrition[of s] updateDerivedVariables_soilCondition[of s]
  by (simp add: soil_bounds_def)

lemma addMoisture_bounds: "soil_bounds s \<Longrightarrow> soil_bounds (addMoisture d s)"
  unfolding addMoisture_def by (rule updateDerivedVariables_bounds) (simp add: soil_bounds_def)

lemma updateMicrobes_bounds: "soil_bounds s \<Longrightarrow> soil_bounds (updateMicrobes t s)"
  by (simp add: soil_bounds_def updateMicrobes_def Let_def)

lemma applyEvaporation_bounds:
  "soil_bounds s \<Longrightarrow> soil_bounds (snd (applyEvaporation t h w m s))"
  unfolding applyEvaporation_def Let_def snd_conv
  by (rule addMoisture_bounds) (simp add: soil_bounds_def)

lemma updateDegradation_bounds: "soil_bounds s \<Longrightarrow> soil_bounds (updateDegradation s)"
  using addMoisture_bounds[of s]
  by (auto simp add: updateDegradation_def Let_def soil_bounds_def)

lemma updateOxygen_bounds: "soil_bounds s \<Longrightarrow> soil_bounds (updateOxygen c s)"
  using updateDerivedVariables_bounds[of s]
  by (simp add: updateOxygen_def Let_def soil_bounds_def)

lemma updatePH_bounds: "soil_bounds s \<Longrightarrow> soil_bounds (updatePH s)"
  by (simp add: updatePH_def soil_bounds_def)

lemma updateWetDuration_bounds: "soil_bounds s \<Longrightarrow> soil_bounds (updateWetDuration s)"
  by (simp add: updateWetDuration_def soil_bounds_def)

lemma beansEffect_bounds: "soil_bounds s \<Longrightarrow> soil_bounds (beansEffect a b f s)"
  by (simp add: beansEffect_def soil_bounds_def Let_def)

lemma drawBN_bounds: "soil_bounds s \<Longrightarrow> soil_bounds (drawBN a s)"
  by (simp add: drawBN_def soil_bounds_def)

lemma apply_soil_op_bounds: "soil_bounds s \<Longrightarrow> soil_bounds (apply_soil_op op s)"
  by (cases op)
     (simp_all add: updateDerivedVariables_bounds addMoisture_bounds updateMicrobes_bounds
        applyEvaporation_bounds updateDegradation_bounds updateOxygen_bounds updatePH_bounds
        updateWetDuration_bounds beansEffect_bounds drawBN_bounds)

lemma new_Soil_DEFAULTS_bounds: "soil_bounds (new_Soil Soil_DEFAULTS)"
  unfolding new_Soil_def
  by (intro updateOxygen_bounds updateDerivedVariables_bounds)
     (simp add: soil_bounds_def Soil_DEFAULTS_def)

lemma grid_bounds_upd:
  "grid_bounds st \<Longrightarrow> soil_bounds (sq_soil sq) \<Longrightarrow> grid_bounds (st(k \<mapsto> sq))"
  by (simp add: grid_bounds_def)

lemma grid_bounds_updSq:
  assumes "grid_bounds st" and "\<And>sq. soil_bounds (sq_soil sq) \<Longrightarrow> soil_bounds (sq_soil (f sq))"
  shows "grid_bounds (updSq k f st)"
  using assms unfolding grid_bounds_def updSq_def by (auto split: option.splits)

lemma grid_bounds_fold_updSq:
  assumes "\<And>k sq. soil_bounds (sq_soil sq) \<Longrightarrow> soil_bounds (sq_soil (f k sq))"
  shows "grid_bounds st \<Longrightarrow> grid_bounds (fold (\<lambda>k. updSq k (f k)) ks st)"
  by (induction ks arbitrary: st) (simp_all add: grid_bounds_updSq assms)

lemma grid_bounds_at: "grid_bounds st \<Longrightarrow> st k = Some sq \<Longrightarrow> soil_bounds (sq_soil sq)"
  unfolding grid_bounds_def by blast

lemma updateEnvironment_bounds:
  assumes "grid_bounds st"
  shows "grid_bounds (snd (updateEnvironment a h w key st))"
proof (cases "st key")
  case None
  then show ?thesis using assms by (simp add: updateEnvironment_def)
next
  case (Some sq)
  have b: "soil_bounds (sq_soil sq)" using assms Some by (rule grid_bounds_at)
  show ?thesis
    using assms
    by (simp add: updateEnvironment_def Some Let_def split_beta grid_bounds_upd
        updateWetDuration_bounds updatePH_bounds updateMicrobes_bounds updateDegradation_bounds
        applyEvaporation_bounds b)
qed

lemma consumeResources_bounds:
  "soil_bounds soil \<Longrightarrow> soil_bounds (snd (consumeResources t soil p))"
  by (simp add: consumeResources_def Let_def drawBN_bounds addMoisture_bounds)

lemma Plant_update_bounds:
  "soil_bounds soil \<Longrightarrow> soil_bounds (snd (snd (Plant_update tod e soil temp t pests p)))"
  by (simp add: Plant_update_def Let_def split_beta consumeResources_bounds)

lemma addMoistureAt_bounds: "grid_bounds st \<Longrightarrow> grid_bounds (addMoistureAt a k st)"
  unfolding addMoistureAt_def by (rule grid_bounds_updSq) (simp_all add: addMoisture_bounds)

lemma fold_addMoistureAt_bounds: "grid_bounds st \<Longrightarrow> grid_bounds (fold (addMoistureAt a) ks st)"
  by (induction ks arbitrary: st) (simp_all add: addMoistureAt_bounds)

lemma distributeOllaWater_bounds: "grid_bounds st \<Longrightarrow> grid_bounds (distributeOllaWater key w st)"
  by (simp add: distributeOllaWater_def fold_addMoistureAt_bounds)

lemma updateStructureOf_bounds: "grid_bounds st \<Longrightarrow> grid_bounds (snd (updateStructureOf key st))"
  by (auto simp add: updateStructureOf_def split_beta grid_bounds_def split: option.splits)

lemma updatePlantOf_bounds:
  assumes "grid_bounds st"
  shows "grid_bounds (snd (updatePlantOf tod e gs key st))"
proof (cases "st key")
  case None
  then show ?thesis using assms by (simp add: updatePlantOf_def)
next
  case (Some sq)
  have b: "soil_bounds (sq_soil sq)" using assms Some by (rule grid_bounds_at)
  show ?thesis
    using assms b
    by (cases "sq_plant sq")
       (simp_all add: updatePlantOf_def Some Let_def split_beta grid_bounds_upd Plant_update_bounds)
qed

lemma applyNeighborEffects_bounds:
  assumes "grid_bounds st"
  shows "grid_bounds (applyNeighborEffects rnd key st)"
proof -
  have s: "soil_bounds (sq_soil (suppressNematodes r q)) = soil_bounds (sq_soil q)" for r q
    by (simp add: suppressNematodes_def Let_def)
  show ?thesis
    using assms
    by (auto simp add: applyNeighborEffects_def Let_def s beansEffect_bounds
        intro!: grid_bounds_fold_updSq split: option.splits)
qed

lemma updateEntities_bounds:
  "grid_bounds st \<Longrightarrow> grid_bounds (updateEntities tod e gs rnd key st)"
  by (simp add: updateEntities_def Let_def split_beta grid_bounds_updSq updateOxygen_bounds
      applyNeighborEffects_bounds updatePlantOf_bounds distributeOllaWater_bounds
      updateStructureOf_bounds)

lemma spreadWeedTo_bounds: "grid_bounds st \<Longrightarrow> grid_bounds (spreadWeedTo t st)"
  by (auto simp add: spreadWeedTo_def grid_bounds_def split: option.splits)

lemma updateWeeds_bounds:
  assumes "grid_bounds st"
  shows "grid_bounds (updateWeeds a b c gs key st)"
proof (cases "st key")
  case None
  then show ?thesis using assms by (simp add: updateWeeds_def)
next
  case (Some sq)
  have b: "soil_bounds (sq_soil sq)" using assms Some by (rule grid_bounds_at)
  show ?thesis
    using assms b
    by (simp add: updateWeeds_def Some Let_def spreadWeedTo_bounds grid_bounds_upd drawBN_bounds)
qed

lemma updatePests_bounds: "grid_bounds st \<Longrightarrow> grid_bounds (updatePests a b c d e gs key st)"
  by (auto simp add: updatePests_def grid_bounds_def split: option.splits)

lemma squareTick_bounds:
  "grid_bounds st \<Longrightarrow> grid_bounds (snd (squareTick weather e draws key st))"
  by (simp add: squareTick_def Let_def split_beta grid_bounds_updSq updateDisplayText_def
      updateDerivedVariables_bounds updatePests_bounds updateWeeds_bounds updateEntities_bounds
      updateEnvironment_bounds)

lemma updateAllSquares_bounds:
  "grid_bounds st \<Longrightarrow> grid_bounds (snd (updateAllSquares weather e draws keys st))"
  by (induction keys arbitrary: st) (simp_all add: split_beta Let_def squareTick_bounds)

lemma new_Square_bounds: "soil_bounds (sq_soil (new_Square k t w p))"
proof -
  have "soil_bounds (updateOxygen 0 (updateDerivedVariables (new_Soil Soil_DEFAULTS)))"
    by (intro updateOxygen_bounds updateDerivedVariables_bounds new_Soil_DEFAULTS_bounds)
  then show ?thesis by (simp add: new_Square_def updateDisplayText_def)
qed

lemma dry_grid_bounds: "grid_bounds dry_grid"
proof -
  have "soil_bounds (sq_soil olla_square)"
    using new_Square_bounds[of "(7, 7)" 20 0 no_pests] by (simp add: olla_square_def)
  then show ?thesis
    unfolding grid_bounds_def dry_grid_def
    by (auto simp add: new_Square_bounds split: if_splits)
qed

text \<open>
  C5.  Every soil stays within its bounds: moisture, compaction, oxygen, soil condition
  and nutrition in [0, 100], microbes in [0, 1000], pH in [4, 9].  This holds for a soil
  through any sequence of soil operations (the soil methods and the direct writes other
  classes make during a tick), and for every square of the grid through a whole pass of
  \<open>updateAllSquares\<close>, whatever the weather, the elapsed time, the random draws and the
  order of the squares.
\<close>

theorem soil_bounds_preserved:
  "(soil_bounds s \<longrightarrow> soil_bounds (apply_soil_ops ops s))
   \<and> (grid_bounds st \<longrightarrow> grid_bounds (snd (updateAllSquares weather e draws keys st)))"
proof (intro conjI impI)
  assume "soil_bounds s"
  then show "soil_bounds (apply_soil_ops ops s)"
    by (induction ops arbitrary: s) (simp_all add: apply_soil_op_bounds)
next
  assume "grid_bounds st"
  then show "grid_bounds (snd (updateAllSquares weather e draws keys st))"
    by (rule updateAllSquares_bounds)
qed

text \<open>
  C5 at a fresh soil, through the operations of one tick of a square (evaporation,
  degradation, microbes, pH, wet duration, water from an Olla, a plant's nutrient draw
  and the oxygen after the plant consumed 0.5), and at the grid with the Olla, through
  the tick of the Olla's square and of its eastern neighbour.
\<close>

theorem soil_bounds_preserved_witness:
  "soil_bounds (new_Soil Soil_DEFAULTS)
   \<and> soil_bounds (apply_soil_ops
        [ApplyEvaporation 20 60 0 1, UpdateDegradation, UpdateMicrobes 20, UpdatePH,
         UpdateWetDuration, AddMoisture (49 / 160), DrawBN 0.3, UpdateOxygen 0.5,
         UpdateDerivedVariables]
        (new_Soil Soil_DEFAULTS))
   \<and> grid_bounds dry_grid
   \<and> grid_bounds (snd (updateAllSquares noon 1 (\<lambda>k. no_events) [(7, 7), (8, 7)] dry_grid))"
  using soil_bounds_preserved[of "new_Soil Soil_DEFAULTS"
      "[ApplyEvaporation 20 60 0 1, UpdateDegradation, UpdateMicrobes 20, UpdatePH,
         UpdateWetDuration, AddMoisture (49 / 160), DrawBN 0.3, UpdateOxygen 0.5,
         UpdateDerivedVariables]"
      dry_grid noon 1 "\<lambda>k. no_events" "[(7, 7), (8, 7)]"]
    new_Soil_DEFAULTS_bounds dry_grid_bounds
  by blast

section \<open>Properties of the plant update\<close>

text \<open>The steps of the update after the maturity step leave stage and progress alone.\<close>

lemma lifecycle_applyMaintenanceRespiration [simp]:
  "growthStage (applyMaintenanceRespiration t p) = growthStage p"
  "maturityProgress (applyMaintenanceRespiration t p) = maturityProgress p"
  by (simp_all add: applyMaintenanceRespiration_def Let_def)

lemma lifecycle_updateHealthAndRecoveryDemand [simp]:
  "growthStage (snd (updateHealthAndRecoveryDemand s t pt pl p)) = growthStage p"
  "maturityProgress (snd (updateHealthAndRecoveryDemand s t pt pl p)) = maturityProgress p"
  by (simp_all add: updateHealthAndRecoveryDemand_def Let_def)

lemma lifecycle_updateStemAndLeaf [simp]:
  "growthStage (updateStemAndLeaf s l p) = growthStage p"
  "maturityProgress (updateStemAndLeaf s l p) = maturityProgress p"
  by (simp_all add: updateStemAndLeaf_def Let_def)

lemma lifecycle_generateATP [simp]:
  "growthStage (generateATP d p) = growthStage p"
  "maturityProgress (generateATP d p) = maturityProgress p"
  by (simp_all add: generateATP_def Let_def)

lemma lifecycle_applyGrowthAndRecoveryCosts [simp]:
  "growthStage (snd (applyGrowthAndRecoveryCosts g r c pt pl p)) = growthStage p"
  "maturityProgress (snd (applyGrowthAndRecoveryCosts g r c pt pl p)) = maturityProgress p"
  by (simp_all add: applyGrowthAndRecoveryCosts_def Let_def split_beta)

lemma lifecycle_updateRootDensity [simp]:
  "growthStage (updateRootDensity s t p) = growthStage p"
  "maturityProgress (updateRootDensity s t p) = maturityProgress p"
  by (simp_all add: updateRootDensity_def Let_def)

lemma lifecycle_finalizeStatus [simp]:
  "growthStage (snd (finalizeStatus c g r p)) = growthStage p"
  "maturityProgress (snd (finalizeStatus c g r p)) = maturityProgress p"
  by (simp_all add: finalizeStatus_def Let_def)

lemma growthStage_Plant_update:
  "growthStage (fst (snd (Plant_update tod e soil temp st pests p))) =
     growthStage (if fst (handleSenescence (updateAge e (p\<lparr>lastO2Consumed := 0\<rparr>)))
                  then snd (handleSenescence (updateAge e (p\<lparr>lastO2Consumed := 0\<rparr>)))
                  else updateMaturityAndStage e soil
                         (snd (handleSenescence (updateAge e (p\<lparr>lastO2Consumed := 0\<rparr>)))))"
  by (simp add: Plant_update_def Let_def split_beta)

lemma maturityProgress_Plant_update:
  "maturityProgress (fst (snd (Plant_update tod e soil temp st pests p))) =
     maturityProgress (if fst (handleSenescence (updateAge e (p\<lparr>lastO2Consumed := 0\<rparr>)))
                  then snd (handleSenescence (updateAge e (p\<lparr>lastO2Consumed := 0\<rparr>)))
                  else updateMaturityAndStage e soil
                         (snd (handleSenescence (updateAge e (p\<lparr>lastO2Consumed := 0\<rparr>)))))"
  by (simp add: Plant_update_def Let_def split_beta)

lemma maturityProgress_handleSenescence [simp]:
  "maturityProgress (snd (handleSenescence p)) = maturityProgress p"
  by (simp add: handleSenescence_def Let_def)

lemma maturityProgress_updateAge [simp]: "maturityProgress (updateAge e p) = maturityProgress p"
  by (simp add: updateAge_def)

lemma dailyProgressRate_nonneg: "0 \<le> dailyProgressRate props"
  by (simp add: dailyProgressRate_def Let_def)

lemma overallHealthFactor_nonneg: "0 \<le> overallHealthFactor p"
  using clamp_lower[of "0.1" "1.0"]
  by (simp add: overallHealthFactor_def order_trans[of 0 "0.1"])

lemma progressThisTick_nonneg:
  assumes "0 \<le> e"
  shows "0 \<le> progressThisTick e soil p"
proof -
  have c: "0 \<le> clamp (jsor (soilCondition soil) 0 / 65) 0.1 1.2"
    by (simp add: clamp_def)
  show ?thesis
    unfolding progressThisTick_def Let_def
    using assms c dailyProgressRate_nonneg[of "properties p"] overallHealthFactor_nonneg[of p]
    by (intro mult_nonneg_nonneg) simp_all
qed

lemma maturityProgress_updateMaturityAndStage:
  "maturityProgress (updateMaturityAndStage e soil p) =
     clamp (maturityProgress p + progressThisTick e soil p) 0 1"
  by (simp add: updateMaturityAndStage_def Let_def)

lemma tickElapsedSimMinutes_nonneg:
  "lastTickTimestamp \<le> now \<Longrightarrow> 0 \<le> simulationSpeed
     \<Longrightarrow> 0 \<le> tickElapsedSimMinutes lastTickTimestamp now simulationSpeed"
  by (simp add: tickElapsedSimMinutes_def Let_def jsor_def)

lemma lifecycle_Plant_update_unbound:
  "growthStage (snd (Plant_update_unbound e soil p))
     = growthStage (fst (snd (Plant_update tod e soil temp st pests p)))"
  "maturityProgress (snd (Plant_update_unbound e soil p))
     = maturityProgress (fst (snd (Plant_update tod e soil temp st pests p)))"
  by (simp_all add: growthStage_Plant_update maturityProgress_Plant_update
      Plant_update_unbound_def Let_def split_beta)

lemma maturityProgress_Plant_update_range:
  assumes "0 \<le> maturityProgress p" and "maturityProgress p \<le> 1"
  shows "0 \<le> maturityProgress (fst (snd (Plant_update tod e soil temp st pests p)))
         \<and> maturityProgress (fst (snd (Plant_update tod e soil temp st pests p))) \<le> 1"
  using assms
  by (simp add: maturityProgress_Plant_update maturityProgress_updateMaturityAndStage)

lemma maturityProgress_Plant_update_mono:
  assumes "0 \<le> e" and "maturityProgress p \<le> 1"
  shows "maturityProgress p \<le> maturityProgress (fst (snd (Plant_update tod e soil temp st pests p)))"
proof -
  let ?q = "snd (handleSenescence (updateAge e (p\<lparr>lastO2Consumed := 0\<rparr>)))"
  have q: "maturityProgress ?q = maturityProgress p" by simp
  have inc: "0 \<le> progressThisTick e soil ?q"
    using assms(1) by (rule progressThisTick_nonneg)
  have "maturityProgress p \<le> clamp (maturityProgress p + progressThisTick e soil ?q) 0 1"
    using inc assms by (simp add: clamp_def)
  then show ?thesis
    by (simp add: maturityProgress_Plant_update maturityProgress_updateMaturityAndStage q)
qed

text \<open>
  C10, amended.  The elapsed time of a tick is the difference of two clock readings times
  the speed; it is not negative when the clock did not step back between the readings (and
  the speed is not negative), and nothing in the code guards against a negative one.  When
  the elapsed time is not negative, the progress a tick adds is not negative, and an update
  of a plant whose maturity progress is at most 1 leaves it no smaller than it was.
  Whatever the elapsed time, an update of a plant whose maturity progress is in [0, 1]
  leaves it in [0, 1].  The update that the unbound \<open>simulatedTimeOfDay\<close> ends leaves
  the same maturity progress as the update followed to its end.
\<close>

theorem maturityProgress_monotone:
  "(lastTickTimestamp \<le> now \<and> 0 \<le> simulationSpeed
      \<longrightarrow> 0 \<le> tickElapsedSimMinutes lastTickTimestamp now simulationSpeed)
   \<and> (0 \<le> elapsedSimMinutes \<longrightarrow> 0 \<le> progressThisTick elapsedSimMinutes soil p)
   \<and> (0 \<le> elapsedSimMinutes \<and> maturityProgress p \<le> 1 \<longrightarrow>
        maturityProgress p
          \<le> maturityProgress (fst (snd (Plant_update tod elapsedSimMinutes soil temp st pests p))))
   \<and> (0 \<le> maturityProgress p \<and> maturityProgress p \<le> 1 \<longrightarrow>
        0 \<le> maturityProgress (fst (snd (Plant_update tod elapsedSimMinutes soil temp st pests p)))
        \<and> maturityProgress (fst (snd (Plant_update tod elapsedSimMinutes soil temp st pests p))) \<le> 1)
   \<and> maturityProgress (snd (Plant_update_unbound elapsedSimMinutes soil p))
       = maturityProgress (fst (snd (Plant_update tod elapsedSimMinutes soil temp st pests p)))"
  using tickElapsedSimMinutes_nonneg[of lastTickTimestamp now simulationSpeed]
    progressThisTick_nonneg[of elapsedSimMinutes soil p]
    maturityProgress_Plant_update_mono[of elapsedSimMinutes p tod soil temp st pests]
    maturityProgress_Plant_update_range[of p tod elapsedSimMinutes soil temp st pests]
    lifecycle_Plant_update_unbound(2)[of elapsedSimMinutes soil p tod temp st pests]
  by blast

lemma tick_72: "tickElapsedSimMinutes 0 1000 1 = 72"
  by (simp add: tickElapsedSimMinutes_def Let_def jsor_def)

text \<open>
  C10, amended, at a freshly planted Corn on a fresh soil, for the tick between the clock
  readings 0 and 1000 ms at speed 1 (72 simulated minutes), at noon.
\<close>

theorem maturityProgress_monotone_witness:
  "(0::int) \<le> 1000 \<and> (0::real) \<le> 1 \<and> tickElapsedSimMinutes 0 1000 1 = 72
   \<and> 0 \<le> tickElapsedSimMinutes 0 1000 1
   \<and> maturityProgress (new_Plant ''Corn'') = 0
   \<and> 0 \<le> progressThisTick 72 (new_Soil Soil_DEFAULTS) (new_Plant ''Corn'')
   \<and> maturityProgress (new_Plant ''Corn'')
        \<le> maturityProgress (fst (snd (Plant_update 720 72 (new_Soil Soil_DEFAULTS) 20 None no_pests
              (new_Plant ''Corn''))))
   \<and> 0 \<le> maturityProgress (fst (snd (Plant_update 720 72 (new_Soil Soil_DEFAULTS) 20 None no_pests
              (new_Plant ''Corn''))))
   \<and> maturityProgress (fst (snd (Plant_update 720 72 (new_Soil Soil_DEFAULTS) 20 None no_pests
              (new_Plant ''Corn'')))) \<le> 1"
proof -
  have m: "maturityProgress (new_Plant ''Corn'') = 0"
    by (simp add: new_Plant_def PLANT_PROPERTIES_def)
  show ?thesis
    using maturityProgress_monotone[of 0 1000 1 72 "new_Soil Soil_DEFAULTS" "new_Plant ''Corn''"
        720 20 None no_pests]
    by (simp add: m tick_72)
qed

lemma progressThisTick_neg:
  assumes "e < 0" and "0 \<le> daysToHarvestableStage (properties p)"
  shows "progressThisTick e soil p < 0"
proof -
  have r: "0 < dailyProgressRate (properties p)"
    using assms(2) by (simp add: dailyProgressRate_def Let_def jsor_def)
  have c: "0 < clamp (jsor (soilCondition soil) 0 / 65) 0.1 1.2"
    by (simp add: clamp_def)
  have h: "0 < overallHealthFactor p"
    by (simp add: overallHealthFactor_def clamp_def)
  have f: "e / (24 * 60) < 0" using assms(1) by simp
  have "dailyProgressRate (properties p) * (e / (24 * 60)) < 0"
    using r f by (simp add: mult_pos_neg)
  then have "dailyProgressRate (properties p) * (e / (24 * 60))
      * clamp (jsor (soilCondition soil) 0 / 65) 0.1 1.2 < 0"
    using c by (simp add: mult_neg_pos)
  then have "dailyProgressRate (properties p) * (e / (24 * 60))
      * clamp (jsor (soilCondition soil) 0 / 65) 0.1 1.2 * overallHealthFactor p < 0"
    using h by (simp add: mult_neg_pos)
  then show ?thesis by (simp add: progressThisTick_def Let_def)
qed

lemma clamp_decrease: "x < 0 \<Longrightarrow> 0 < m \<Longrightarrow> clamp (m + x) 0 1 < m"
  unfolding clamp_def by (auto simp add: max_def min_def)

text \<open>
  C10 as stated fails: when the clock steps back by 20 seconds between two ticks, the
  elapsed time is -1440 simulated minutes, and the update of a living Corn at the
  Flowering stage lowers its maturity progress below the 0.5 it had.
\<close>

theorem maturityProgress_decreases_when_clock_steps_back:
  "tickElapsedSimMinutes 20000 0 1 = - 1440
   \<and> maturityProgress ((new_Plant ''Corn'')\<lparr>maturityProgress := 0.5, growthStage := 2\<rparr>) = 0.5
   \<and> maturityProgress (fst (snd (Plant_update 720 (- 1440) (new_Soil Soil_DEFAULTS) 20 None no_pests
        ((new_Plant ''Corn'')\<lparr>maturityProgress := 0.5, growthStage := 2\<rparr>)))) < 0.5"
proof -
  let ?p = "(new_Plant ''Corn'')\<lparr>maturityProgress := 0.5, growthStage := 2\<rparr>"
  let ?q = "updateAge (- 1440) (?p\<lparr>lastO2Consumed := 0\<rparr>)"
  have t: "tickElapsedSimMinutes 20000 0 1 = - 1440"
    by (simp add: tickElapsedSimMinutes_def Let_def jsor_def)
  have hs: "handleSenescence ?q = (False, ?q)"
    by (simp add: handleSenescence_def updateAge_def new_Plant_def PLANT_PROPERTIES_def Let_def)
  have d: "0 \<le> daysToHarvestableStage (properties ?q)"
    by (simp add: updateAge_def new_Plant_def PLANT_PROPERTIES_def)
  have mp: "maturityProgress ?q = 0.5" by (simp add: updateAge_def)
  have n: "progressThisTick (- 1440) (new_Soil Soil_DEFAULTS) ?q < 0"
    by (rule progressThisTick_neg[OF _ d]) simp
  have "maturityProgress (updateMaturityAndStage (- 1440) (new_Soil Soil_DEFAULTS) ?q) < 0.5"
    unfolding maturityProgress_updateMaturityAndStage mp
    by (rule clamp_decrease[OF n]) simp
  moreover have "maturityProgress (fst (snd (Plant_update 720 (- 1440) (new_Soil Soil_DEFAULTS) 20
        None no_pests ?p)))
      = maturityProgress (updateMaturityAndStage (- 1440) (new_Soil Soil_DEFAULTS) ?q)"
    unfolding maturityProgress_Plant_update hs by simp
  ultimately show ?thesis
    using t by simp
qed



text \<open>
  The same at the update that the unbound \<open>simulatedTimeOfDay\<close> ends: the stage is
  written before the read, so the \<open>ReferenceError\<close> is raised on a plant already moved
  back to stage 2.
\<close>

lemma growthStage_regresses_unbound:
  "fst (Plant_update_unbound 1 (new_Soil (Soil_DEFAULTS\<lparr>bioavailableNutrition := 5\<rparr>))
         ((new_Plant ''Corn'')\<lparr>maturityProgress := 0.9, growthStage := 3\<rparr>))
   \<and> growthStage (snd (Plant_update_unbound 1 (new_Soil (Soil_DEFAULTS\<lparr>bioavailableNutrition := 5\<rparr>))
         ((new_Plant ''Corn'')\<lparr>maturityProgress := 0.9, growthStage := 3\<rparr>))) = 2"
proof -
  let ?p = "(new_Plant ''Corn'')\<lparr>maturityProgress := 0.9, growthStage := 3\<rparr>"
  let ?soil = "new_Soil (Soil_DEFAULTS\<lparr>bioavailableNutrition := 5\<rparr>)"
  let ?q = "updateAge 1 (?p\<lparr>lastO2Consumed := 0\<rparr>)"
  have hs: "handleSenescence ?q = (False, ?q)"
    by (simp add: handleSenescence_def updateAge_def new_Plant_def PLANT_PROPERTIES_def Let_def)
  have bn: "bioavailableNutrition ?soil = 5"
    by (simp add: new_Soil_def updateOxygen_def Let_def Soil_DEFAULTS_def)
  have mp: "maturityProgress ?q = 0.9" and gs: "growthStage ?q = 3"
    by (simp_all add: updateAge_def)
  have ge: "0.9 \<le> maturityProgress (updateMaturityAndStage 1 ?soil ?q)"
    using progressThisTick_nonneg[of 1 ?soil ?q]
    by (simp add: maturityProgress_updateMaturityAndStage mp clamp_def)
  have g: "growthStage (updateMaturityAndStage 1 ?soil ?q) = 2"
    using ge unfolding maturityProgress_updateMaturityAndStage
    by (simp add: updateMaturityAndStage_def Let_def bn gs)
  have u: "Plant_update_unbound 1 ?soil ?p = (True, updateMaturityAndStage 1 ?soil ?q)"
    unfolding Plant_update_unbound_def Let_def hs by simp
  show ?thesis unfolding u using g by simp
qed


section \<open>Properties of the commands\<close>

lemma harvestPlant_immature:
  assumes "sq_plant sq = Some plant" and "growthStage plant < harvestableStage plant"
    and "growthStage plant \<noteq> 4"
  shows "harvestPlant sq =
           (\<lparr>harvested = False, hr_yield = None, hr_value = None,
             hr_type = Some (plant_type plant),
             hr_reason = Some (if requiresPollination plant \<and> \<not> wasPollinated plant
                               then ''unpollinated'' else ''immature'')\<rparr>, sq)"
  using assms by (simp add: harvestPlant_def Let_def)

text \<open>
  C7, amended.  Harvest of a plant below its harvestable stage (and not senescent) fails
  and changes nothing; the reason is \<open>unpollinated\<close> when the plant requires pollination
  and was not pollinated, and \<open>immature\<close> otherwise.
\<close>

theorem harvest_immature_reason:
  assumes "sq_plant sq = Some plant" and "growthStage plant < harvestableStage plant"
    and "growthStage plant \<noteq> 4"
  shows "harvested (fst (harvestPlant sq)) = False
         \<and> hr_reason (fst (harvestPlant sq))
             = Some (if requiresPollination plant \<and> \<not> wasPollinated plant
                     then ''unpollinated'' else ''immature'')
         \<and> snd (harvestPlant sq) = sq"
  using harvestPlant_immature[OF assms] by simp

text \<open>C7, amended, at a freshly planted Flower (no pollination required): \<open>immature\<close>.\<close>

theorem harvest_immature_reason_witness:
  "sq_plant ((new_Square (0, 0) 20 0 no_pests)\<lparr>sq_plant := Some (new_Plant ''Flower'')\<rparr>)
       = Some (new_Plant ''Flower'')
   \<and> growthStage (new_Plant ''Flower'') < harvestableStage (new_Plant ''Flower'')
   \<and> growthStage (new_Plant ''Flower'') \<noteq> 4
   \<and> harvested (fst (harvestPlant
        ((new_Square (0, 0) 20 0 no_pests)\<lparr>sq_plant := Some (new_Plant ''Flower'')\<rparr>))) = False
   \<and> hr_reason (fst (harvestPlant
        ((new_Square (0, 0) 20 0 no_pests)\<lparr>sq_plant := Some (new_Plant ''Flower'')\<rparr>)))
       = Some ''immature''"
proof -
  have f: "plant_type (new_Plant ''Flower'') = ''Flower''" "growthStage (new_Plant ''Flower'') = 0"
    "maxYield (properties (new_Plant ''Flower'')) = 0"
    by (simp_all add: new_Plant_def PLANT_PROPERTIES_def)
  have h: "growthStage (new_Plant ''Flower'') < harvestableStage (new_Plant ''Flower'')"
    by (simp add: f harvestableStage_def isFlowerOrHerb_def)
  have n: "\<not> requiresPollination (new_Plant ''Flower'')"
    by (simp add: requiresPollination_def f on_trellis_species_def)
  show ?thesis
    using harvest_immature_reason[of
        "(new_Square (0, 0) 20 0 no_pests)\<lparr>sq_plant := Some (new_Plant ''Flower'')\<rparr>"
        "new_Plant ''Flower''"] h n
    by (simp add: f)
qed

lemma Corn_plant:
  "plant_type (new_Plant ''Corn'') = ''Corn'' \<and> growthStage (new_Plant ''Corn'') = 0
   \<and> \<not> wasPollinated (new_Plant ''Corn'') \<and> maxYield (properties (new_Plant ''Corn'')) = 2"
  by (simp add: new_Plant_def PLANT_PROPERTIES_def)

text \<open>
  C7 as stated fails: a freshly planted Corn is below its harvestable stage and not
  senescent, and the reason Harvest gives is \<open>unpollinated\<close>, not \<open>immature\<close>.
\<close>

theorem harvest_immature_unpollinated:
  "growthStage (new_Plant ''Corn'') < harvestableStage (new_Plant ''Corn'')
   \<and> growthStage (new_Plant ''Corn'') \<noteq> 4
   \<and> hr_reason (fst (harvestPlant
        ((new_Square (0, 0) 20 0 no_pests)\<lparr>sq_plant := Some (new_Plant ''Corn'')\<rparr>)))
       = Some ''unpollinated''"
  using harvestPlant_immature[of
      "(new_Square (0, 0) 20 0 no_pests)\<lparr>sq_plant := Some (new_Plant ''Corn'')\<rparr>"
      "new_Plant ''Corn''"]
  by (simp add: Corn_plant harvestableStage_def isFlowerOrHerb_def requiresPollination_def)

lemma harvestPlant_success:
  assumes "harvested (fst (harvestPlant sq))"
  shows "sq_plant (snd (harvestPlant sq)) = None
         \<and> var_pests (snd (harvestPlant sq)) = var_pests sq"
  using assms by (auto simp add: harvestPlant_def Let_def split: option.splits if_splits)

lemma controlPests_no_plant: "sq_plant sq = None \<Longrightarrow> controlPests a b c gs sq = no_pests"
  by (simp add: controlPests_def Let_def)

lemma harvestPlant_pests: "var_pests (snd (harvestPlant sq)) = var_pests sq"
  by (simp add: harvestPlant_def Let_def split: option.splits)

lemma updatePests_without_plant:
  assumes "st key = Some sq" and "sq_plant sq = None" and "pest_type (var_pests sq) \<noteq> None"
  shows "map_option var_pests (updatePests r1 r2 r3 r4 r5 gs key st key) = Some no_pests"
  using assms by (auto simp add: updatePests_def controlPests_no_plant)

lemma ripe_corn_harvested: "harvested (fst (harvestPlant ripe_corn_with_aphids))"
  by (simp add: harvestPlant_def ripe_corn_with_aphids_def new_Square_def updateDisplayText_def
      harvestableStage_def isFlowerOrHerb_def requiresPollination_def Let_def new_Plant_def
      PLANT_PROPERTIES_def)

lemma ripe_corn_pests:
  "var_pests ripe_corn_with_aphids = \<lparr>pest_type = Some ''Aphids'', pest_level = 2\<rparr>"
  by (simp add: ripe_corn_with_aphids_def new_Square_def updateDisplayText_def)

text \<open>
  C2 fails on the code.  A successful Harvest removes the plant and leaves the pest state
  of the square as it was: \<open>harvestPlant\<close> never writes \<open>variables.pests\<close>.
\<close>

theorem harvest_keeps_pests:
  assumes "harvested (fst (harvestPlant sq))"
  shows "sq_plant (snd (harvestPlant sq)) = None
         \<and> var_pests (snd (harvestPlant sq)) = var_pests sq"
  using harvestPlant_success[OF assms] by simp

text \<open>
  C2 at the ripe Corn with Aphids at level 2: when Harvest returns, the plant is gone and
  the square still holds the Aphids at level 2.
\<close>

theorem harvest_keeps_pests_witness:
  "harvested (fst (harvestPlant ripe_corn_with_aphids))
   \<and> sq_plant (snd (harvestPlant ripe_corn_with_aphids)) = None
   \<and> var_pests (snd (harvestPlant ripe_corn_with_aphids))
       = \<lparr>pest_type = Some ''Aphids'', pest_level = 2\<rparr>
   \<and> var_pests (snd (harvestPlant ripe_corn_with_aphids)) \<noteq> no_pests"
  using harvest_keeps_pests[OF ripe_corn_harvested] ripe_corn_harvested
  by (simp add: ripe_corn_pests no_pests_def)

text \<open>
  The pests left behind are not bound to go with the next tick either.  \<open>updatePests\<close>
  clears the pests of a square that holds no plant; a square planted again before that
  keeps them, on the new plant.  Here Corn is planted again after the harvest, and after
  the next pest update (no random event) the new Corn carries the Aphids at level 2.
\<close>

lemma tryPlanting_pests: "var_pests (snd (tryPlanting t sq)) = var_pests sq"
  by (simp add: tryPlanting_def updateDisplayText_def)

lemma pests_outlive_replanting:
  "fst (tryPlanting ''Corn'' (snd (harvestPlant ripe_corn_with_aphids)))
   \<and> map_option (map_option plant_type \<circ> sq_plant)
        (updatePests 0.5 0.5 0.5 0.5 0.5 calm_weather (0, 0)
           [(0, 0) \<mapsto> snd (tryPlanting ''Corn'' (snd (harvestPlant ripe_corn_with_aphids)))] (0, 0))
       = Some (Some ''Corn'')
   \<and> map_option var_pests
        (updatePests 0.5 0.5 0.5 0.5 0.5 calm_weather (0, 0)
           [(0, 0) \<mapsto> snd (tryPlanting ''Corn'' (snd (harvestPlant ripe_corn_with_aphids)))] (0, 0))
       = Some \<lparr>pest_type = Some ''Aphids'', pest_level = 2\<rparr>"
proof -
  let ?h = "snd (harvestPlant ripe_corn_with_aphids)"
  have e: "sq_plant ?h = None" "var_pests ?h = \<lparr>pest_type = Some ''Aphids'', pest_level = 2\<rparr>"
    using harvestPlant_success[OF ripe_corn_harvested] by (simp_all add: ripe_corn_pests)
  have s: "sq_structure ?h = None"
    by (simp add: harvestPlant_def ripe_corn_with_aphids_def new_Square_def updateDisplayText_def
        Let_def split: option.splits)
  have t: "tryPlanting ''Corn'' ?h = (True, updateDisplayText (?h\<lparr>sq_plant := Some (new_Plant ''Corn'')\<rparr>))"
    by (simp add: tryPlanting_def e s)
  have c: "plant_type (new_Plant ''Corn'') = ''Corn''" using Corn_plant by simp
  show ?thesis
    unfolding t
    by (simp add: updatePests_def controlPests_def updateDisplayText_def e c Let_def
        calm_weather_def clamp_def no_pests_def)
qed

text \<open>
  Where a plant dies in \<open>updateEntities\<close>, the same step resets the pests of its square
  (the source: \<open>Pests leave if plant dies\<close>): whenever the plant update leaves the square
  without its plant, it leaves it without pests.
\<close>

lemma plant_death_resets_pests:
  assumes "st key = Some sq" and "sq_plant sq \<noteq> None"
    and "map_option sq_plant (snd (updatePlantOf tod e gs key st) key) = Some None"
  shows "map_option var_pests (snd (updatePlantOf tod e gs key st) key) = Some no_pests"
  using assms
  by (auto simp add: updatePlantOf_def Let_def split_beta split: option.splits if_splits)

lemma PLANT_PROPERTIES_None:
  "PLANT_PROPERTIES t = None \<longleftrightarrow> t \<notin> set PLANT_PROPERTIES_keys \<and> t \<notin> set Object_prototype_keys"
  by (simp add: PLANT_PROPERTIES_def PLANT_PROPERTIES_keys_def)

lemma new_Plant_unknown: "PLANT_PROPERTIES t = None \<Longrightarrow> new_Plant t = new_Plant ''Test''"
  by (simp add: new_Plant_def PLANT_PROPERTIES_def)

text \<open>
  C3, amended.  Take an identifier that is not the name of a property inherited from
  \<open>Object.prototype\<close>.  If it is not a key of \<open>STRUCTURE_INFO\<close>, placing it as a structure
  fails with the grid unchanged; if it is not one of \<open>compost\<close>, \<open>crh\<close>, \<open>sand\<close> (inherited
  name or not), adding it as an amendment fails with the square unchanged.  If it is not
  a key of \<open>PLANT_PROPERTIES\<close>, planting it is not rejected: on an empty square the command
  succeeds and plants a \<open>Test\<close> plant; on an occupied square it fails with the square
  unchanged, as for any species.
\<close>

theorem unknown_kinds:
  "(t \<notin> set STRUCTURE_INFO_keys \<and> t \<notin> set Object_prototype_keys
      \<longrightarrow> tryAddingStructure c t key st = (False, st))
   \<and> (t \<noteq> ''compost'' \<and> t \<noteq> ''crh'' \<and> t \<noteq> ''sand'' \<longrightarrow> addAmendment t sq = (False, sq))
   \<and> (t \<notin> set PLANT_PROPERTIES_keys \<and> t \<notin> set Object_prototype_keys
        \<and> sq_plant sq = None \<and> sq_structure sq = None \<longrightarrow>
        tryPlanting t sq = (True, updateDisplayText (sq\<lparr>sq_plant := Some (new_Plant ''Test'')\<rparr>)))
   \<and> (sq_plant sq \<noteq> None \<or> sq_structure sq \<noteq> None \<longrightarrow> tryPlanting t sq = (False, sq))"
proof -
  have a: "t \<notin> set STRUCTURE_INFO_keys \<and> t \<notin> set Object_prototype_keys
      \<longrightarrow> tryAddingStructure c t key st = (False, st)"
    by (simp add: tryAddingStructure_def STRUCTURE_INFO_has_def split: option.splits)
  have b: "t \<noteq> ''compost'' \<and> t \<noteq> ''crh'' \<and> t \<noteq> ''sand'' \<longrightarrow> addAmendment t sq = (False, sq)"
    by (simp add: addAmendment_def Let_def)
  have c: "t \<notin> set PLANT_PROPERTIES_keys \<and> t \<notin> set Object_prototype_keys
        \<and> sq_plant sq = None \<and> sq_structure sq = None \<longrightarrow>
        tryPlanting t sq = (True, updateDisplayText (sq\<lparr>sq_plant := Some (new_Plant ''Test'')\<rparr>))"
    using new_Plant_unknown[of t] PLANT_PROPERTIES_None[of t]
    by (simp add: tryPlanting_def)
  have d: "sq_plant sq \<noteq> None \<or> sq_structure sq \<noteq> None \<longrightarrow> tryPlanting t sq = (False, sq)"
    by (auto simp add: tryPlanting_def)
  from a b c d show ?thesis by blast
qed

lemma unknown_identifiers:
  "''Fence'' \<notin> set STRUCTURE_INFO_keys" "''Fence'' \<notin> set Object_prototype_keys"
  "''Potato'' \<notin> set PLANT_PROPERTIES_keys" "''Potato'' \<notin> set Object_prototype_keys"
  by (simp_all add: STRUCTURE_INFO_keys_def PLANT_PROPERTIES_keys_def Object_prototype_keys_def)

text \<open>C3, amended, at the identifiers \<open>Fence\<close>, \<open>lime\<close> and \<open>Potato\<close>.\<close>

theorem unknown_kinds_witness:
  "''Fence'' \<notin> set STRUCTURE_INFO_keys \<and> ''Fence'' \<notin> set Object_prototype_keys
   \<and> tryAddingStructure True ''Fence'' (0, 0) [(0, 0) \<mapsto> new_Square (0, 0) 20 0 no_pests]
        = (False, [(0, 0) \<mapsto> new_Square (0, 0) 20 0 no_pests])
   \<and> addAmendment ''lime'' (new_Square (0, 0) 20 0 no_pests)
        = (False, new_Square (0, 0) 20 0 no_pests)
   \<and> ''Potato'' \<notin> set PLANT_PROPERTIES_keys \<and> ''Potato'' \<notin> set Object_prototype_keys
   \<and> tryPlanting ''Potato'' (new_Square (0, 0) 20 0 no_pests)
        = (True, updateDisplayText
             ((new_Square (0, 0) 20 0 no_pests)\<lparr>sq_plant := Some (new_Plant ''Test'')\<rparr>))
   \<and> tryPlanting ''Potato'' ripe_corn_with_aphids = (False, ripe_corn_with_aphids)"
proof -
  have e: "sq_plant (new_Square (0, 0) 20 0 no_pests) = None"
    "sq_structure (new_Square (0, 0) 20 0 no_pests) = None"
    by (simp_all add: new_Square_def updateDisplayText_def)
  have o: "sq_plant ripe_corn_with_aphids \<noteq> None"
    by (simp add: ripe_corn_with_aphids_def)
  show ?thesis
    using unknown_kinds[of "''Fence''" True "(0, 0)"
        "[(0, 0) \<mapsto> new_Square (0, 0) 20 0 no_pests]" "new_Square (0, 0) 20 0 no_pests"]
      unknown_kinds[of "''lime''" True "(0, 0)" Map.empty "new_Square (0, 0) 20 0 no_pests"]
      unknown_kinds[of "''Potato''" True "(0, 0)" Map.empty "new_Square (0, 0) 20 0 no_pests"]
      unknown_kinds[of "''Potato''" True "(0, 0)" Map.empty ripe_corn_with_aphids]
      e o unknown_identifiers
    by simp
qed

text \<open>
  C3 as stated fails: \<open>Potato\<close> is not a species (and not an inherited name), and planting
  it on an empty square succeeds and leaves a \<open>Test\<close> plant there.
\<close>

theorem unknown_species_planted:
  "''Potato'' \<notin> set PLANT_PROPERTIES_keys \<and> ''Potato'' \<notin> set Object_prototype_keys
   \<and> fst (tryPlanting ''Potato'' (new_Square (0, 0) 20 0 no_pests))
   \<and> map_option plant_type
        (sq_plant (snd (tryPlanting ''Potato'' (new_Square (0, 0) 20 0 no_pests)))) = Some ''Test''"
  using new_Plant_unknown[of "''Potato''"] PLANT_PROPERTIES_None[of "''Potato''"]
  by (simp add: tryPlanting_def new_Square_def updateDisplayText_def unknown_identifiers
      new_Plant_def[of "''Test''"] PLANT_PROPERTIES_def[of "''Test''"])

text \<open>
  Under an inherited name the lookups find a built-in, so the guards let the identifier
  through: \<open>constructor\<close> is placed as a structure, and a plant of type \<open>constructor\<close> keeps
  its type.  The amended statement leaves these identifiers out.
\<close>

lemma inherited_names_accepted:
  "fst (tryAddingStructure True ''constructor'' (0, 0)
          [(0, 0) \<mapsto> new_Square (0, 0) 20 0 no_pests])
   \<and> map_option structure_type
        (structureAt (snd (tryAddingStructure True ''constructor'' (0, 0)
           [(0, 0) \<mapsto> new_Square (0, 0) 20 0 no_pests])) (0, 0)) = Some ''constructor''
   \<and> plant_type (new_Plant ''constructor'') = ''constructor''"
proof -
  have e: "sq_plant (new_Square (0, 0) 20 0 no_pests) = None"
    "sq_structure (new_Square (0, 0) 20 0 no_pests) = None"
    by (simp_all add: new_Square_def updateDisplayText_def)
  have k: "STRUCTURE_INFO_has ''constructor''"
    by (simp add: STRUCTURE_INFO_has_def Object_prototype_keys_def)
  have n: "\<not> isTrellisOrNet ''constructor''"
    by (simp add: isTrellisOrNet_def)
  have p: "plant_type (new_Plant ''constructor'') = ''constructor''"
    by (simp add: new_Plant_def PLANT_PROPERTIES_def Object_prototype_keys_def)
  show ?thesis
    by (simp add: tryAddingStructure_def e k n p Let_def structureAt_def updSq_def
        updateDisplayText_def new_Structure_def)
qed

section \<open>Properties of the grid\<close>

lemma upto_m1_1: "[- 1..1::int] = [- 1, 0, 1]"
  by code_simp


lemma getNeighbors_1_0: "getNeighbors 1 0 True 1 = [(0,0),(2,0),(1,1)]"
  by (simp add: getNeighbors_def upto_m1_1)

lemma updSq_apply: "updSq k f st k' = (if k' = k then map_option f (st k) else st k')"
  by (simp add: updSq_def split: option.splits)

lemma spreadWeedTo_other: "k \<noteq> t \<Longrightarrow> spreadWeedTo t st k = st k"
  by (simp add: spreadWeedTo_def split: option.splits)

lemma spreadWeedTo_changed:
  "spreadWeedTo t st t \<noteq> st t \<Longrightarrow>
     map_option var_weeds (st t) = Some 0 \<and> map_option var_weeds (spreadWeedTo t st t) = Some 1"
  by (auto simp add: spreadWeedTo_def split: option.splits if_splits)

lemma downwind_E: "n \<in> set (downwindNeighbors ''E'' key) \<Longrightarrow> fst n < fst key"
  by (simp add: downwindNeighbors_def Let_def)

text \<open>
  C8.  Whatever the random draws, the weed update of a square changes another square
  only if the updated square has weeds at level 4; the other square then had no weeds and
  now has weeds at level 1, and with wind from the east its x-coordinate is strictly
  smaller.  So a square below level 4 spreads nothing, and with wind \<open>E\<close> a level-4 square
  spreads only to the west.
\<close>

theorem weeds_spread_downwind:
  assumes "nKey \<noteq> key"
    and "updateWeeds rGrow rSpread rPick gs key st nKey \<noteq> st nKey"
  shows "map_option var_weeds (st key) = Some 4
         \<and> (currentWindDirection gs = ''E'' \<longrightarrow> fst nKey < fst key)
         \<and> map_option var_weeds (st nKey) = Some 0
         \<and> map_option var_weeds (updateWeeds rGrow rSpread rPick gs key st nKey) = Some 1"
proof (cases "st key")
  case None
  with assms(2) show ?thesis by (simp add: updateWeeds_def)
next
  case (Some sq)
  let ?dw = "downwindNeighbors (currentWindDirection gs) key"
  let ?i = "\<lfloor>rPick * real (length ?dw)\<rfloor>"
  define sq2 where "sq2 = (if var_weeds sq > 0
        then (if var_weeds sq > 0 \<and> var_weeds sq < 4 \<and> rGrow < 0.015
              then sq\<lparr>var_weeds := var_weeds sq + 1\<rparr> else sq)
             \<lparr>sq_soil := drawBN (0.08 * real (var_weeds sq))
                (sq_soil (if var_weeds sq > 0 \<and> var_weeds sq < 4 \<and> rGrow < 0.015
              then sq\<lparr>var_weeds := var_weeds sq + 1\<rparr> else sq))\<rparr>
        else (if var_weeds sq > 0 \<and> var_weeds sq < 4 \<and> rGrow < 0.015
              then sq\<lparr>var_weeds := var_weeds sq + 1\<rparr> else sq))"
  let ?st1 = "st(key \<mapsto> sq2)"
  have u: "updateWeeds rGrow rSpread rPick gs key st =
      (if var_weeds sq = 4 \<and> rSpread < 0.01
       then (if length ?dw > 0 \<and> 0 \<le> ?i \<and> ?i < int (length ?dw)
             then spreadWeedTo (?dw ! nat ?i) ?st1 else ?st1)
       else ?st1)"
    by (simp add: updateWeeds_def Some Let_def sq2_def)
  have st1: "?st1 nKey = st nKey" using assms(1) by simp
  from assms(2) u st1 have spread: "var_weeds sq = 4" "rSpread < 0.01" "length ?dw > 0"
      "0 \<le> ?i" "?i < int (length ?dw)"
    by (auto split: if_splits)
  then have u': "updateWeeds rGrow rSpread rPick gs key st = spreadWeedTo (?dw ! nat ?i) ?st1"
    using u by simp
  have t: "?dw ! nat ?i = nKey"
    using assms(2) st1 spreadWeedTo_other[of nKey "?dw ! nat ?i" ?st1] unfolding u' by auto
  have "nat ?i < length ?dw" using spread by linarith
  then have "nKey \<in> set ?dw" using t nth_mem by metis
  then have x: "currentWindDirection gs = ''E'' \<longrightarrow> fst nKey < fst key"
    using downwind_E[of nKey key] by auto
  have "spreadWeedTo nKey ?st1 nKey \<noteq> ?st1 nKey"
    using assms(2) st1 unfolding u' t by simp
  from spreadWeedTo_changed[OF this] show ?thesis
    using x spread(1) Some st1 unfolding u' t by simp
qed

lemma new_Square_fields [simp]:
  "var_weeds (new_Square k t w p) = w" "sq_plant (new_Square k t w p) = None"
  "sq_structure (new_Square k t w p) = None" "var_pests (new_Square k t w p) = p"
  by (simp_all add: new_Square_def updateDisplayText_def)

lemma weedy_spread:
  "map_option var_weeds (updateWeeds 0.5 0 0 east_wind (1, 0) weedy_grid (0, 0)) = Some 1"
  by (simp add: updateWeeds_def weedy_grid_def east_wind_def calm_weather_def
      downwindNeighbors_def getNeighbors_1_0 spreadWeedTo_def Let_def)

text \<open>C8 at the weedy square, with draws that make it spread to its western neighbour.\<close>

theorem weeds_spread_downwind_witness:
  "(0, 0) \<noteq> ((1, 0) :: int \<times> int)
   \<and> updateWeeds 0.5 0 0 east_wind (1, 0) weedy_grid (0, 0) \<noteq> weedy_grid (0, 0)
   \<and> currentWindDirection east_wind = ''E''
   \<and> map_option var_weeds (weedy_grid (1, 0)) = Some 4
   \<and> fst ((0, 0) :: int \<times> int) < fst ((1, 0) :: int \<times> int)
   \<and> map_option var_weeds (weedy_grid (0, 0)) = Some 0
   \<and> map_option var_weeds (updateWeeds 0.5 0 0 east_wind (1, 0) weedy_grid (0, 0)) = Some 1"
proof -
  have w: "currentWindDirection east_wind = ''E''"
    by (simp add: east_wind_def)
  have n: "(0, 0) \<noteq> ((1, 0) :: int \<times> int)" by simp
  have c: "updateWeeds 0.5 0 0 east_wind (1, 0) weedy_grid (0, 0) \<noteq> weedy_grid (0, 0)"
  proof
    assume eq: "updateWeeds 0.5 0 0 east_wind (1, 0) weedy_grid (0, 0) = weedy_grid (0, 0)"
    have "map_option var_weeds (weedy_grid (0, 0)) = Some 1"
      using weedy_spread unfolding eq .
    then show False by (simp add: weedy_grid_def)
  qed
  show ?thesis
    using weeds_spread_downwind[OF n c] w c by simp
qed

subsection \<open>Removing a connected structure\<close>

lemma opposite_opposite [simp]: "opposite (opposite d) = d"
  by (cases d) simp_all

lemma neighborKey_back [simp]: "neighborKey (neighborKey k d) (opposite d) = k"
  by (cases k; cases d) simp_all

lemma neighborKey_neq [simp]: "neighborKey k d \<noteq> k" "k \<noteq> neighborKey k d"
  by (cases k; cases d; simp)+

lemma neighborKey_inj [simp]: "neighborKey k d = neighborKey k d' \<longleftrightarrow> d = d'"
  by (cases k; cases d; cases d'; simp)

lemma isConnected_setFlag [simp]:
  "isConnected (setFlag e b c) d = (if d = e then b else isConnected c d)"
  by (cases d; cases e; simp)

lemma flagAt_setFlagSq:
  "flagAt (updSq n (setFlagSq e b) st) k d =
     (if k = n \<and> d = e \<and> structureAt st n \<noteq> None then b else flagAt st k d)"
  by (auto simp add: flagAt_def structureAt_def updSq_def setFlagSq_def split: option.splits)

lemma structureAt_setFlagSq_None [simp]:
  "structureAt (updSq n (setFlagSq e b) st) k = None \<longleftrightarrow> structureAt st k = None"
  by (auto simp add: structureAt_def updSq_def setFlagSq_def split: option.splits)

lemma flagAt_clearNeighborConnections:
  "flagAt (clearNeighborConnections key conns st) k d =
     (flagAt st k d \<and> \<not> (isConnected conns (opposite d) \<and> k = neighborKey key (opposite d)))"
proof -
  have "flagAt st k d \<Longrightarrow> structureAt st k \<noteq> None"
    by (auto simp add: flagAt_def split: option.splits)
  then show ?thesis
    by (cases d) (auto simp add: clearNeighborConnections_def flagAt_setFlagSq)
qed

lemma clearNeighborConnections_key [simp]:
  "clearNeighborConnections key conns st key = st key"
  by (simp add: clearNeighborConnections_def updSq_apply)

lemma flagAt_remove:
  "flagAt (updSq key (\<lambda>q. f (q\<lparr>sq_structure := None\<rparr>)) st) k d = (k \<noteq> key \<and> flagAt st k d)"
  if "\<And>q. sq_structure (f q) = sq_structure q"
  using that by (auto simp add: flagAt_def structureAt_def updSq_def split: option.splits)

lemma flagAt_soil_upd:
  "flagAt (updSq key (\<lambda>q. q\<lparr>sq_soil := g q\<rparr>) st) k d = flagAt st k d"
  by (auto simp add: flagAt_def structureAt_def updSq_def split: option.splits)

lemma flagAt_same_structures:
  "(\<And>k. structureAt st' k = structureAt st k) \<Longrightarrow> flagAt st' k d = flagAt st k d"
  by (simp add: flagAt_def)

lemma flagAt_till:
  assumes "st key = Some sq" and "sq_structure sq = Some s" and "isTrellisOrNet (structure_type s)"
  shows "flagAt (snd (till key st)) k d =
           (k \<noteq> key \<and> flagAt st k d
            \<and> \<not> (isConnected (connections s) (opposite d) \<and> k = neighborKey key (opposite d)))"
proof -
  define sq1 where "sq1 = sq\<lparr>sq_soil := (sq_soil sq)\<lparr>compaction := max 0 (jsor (compaction (sq_soil sq)) 0 - jsor 20 0)\<rparr>
        \<lparr>microbes := max 0 (jsor (microbes (sq_soil sq)) 0 - jsor 5 0)\<rparr>,
      var_weeds := (if var_weeds sq > 0 then 0 else var_weeds sq)\<rparr>"
  have t: "snd (till key st) =
      updSq key (\<lambda>q. q\<lparr>sq_soil := updateDerivedVariables (sq_soil q)\<rparr>)
        (updSq key (\<lambda>q. q\<lparr>sq_structure := None\<rparr>)
           (clearNeighborConnections key (connections s) (st(key \<mapsto> sq1))))"
    using assms by (simp add: till_def Let_def sq1_def split_beta)
  have s1: "flagAt (st(key \<mapsto> sq1)) k d = flagAt st k d" for k d
    by (rule flagAt_same_structures) (simp add: structureAt_def sq1_def assms)
  show ?thesis
    unfolding t flagAt_soil_upd
    using flagAt_remove[of "\<lambda>q. q" key "clearNeighborConnections key (connections s) (st(key \<mapsto> sq1))" k d]
    by (auto simp add: flagAt_clearNeighborConnections s1)
qed

lemma flagAt_removeEntity:
  assumes "st key = Some sq" and "sq_structure sq = Some s" and "isTrellisOrNet (structure_type s)"
    and "sq_plant sq = None"
  shows "flagAt (snd (removeEntity key st)) k d =
           (k \<noteq> key \<and> flagAt st k d
            \<and> \<not> (isConnected (connections s) (opposite d) \<and> k = neighborKey key (opposite d)))"
proof -
  have t: "snd (removeEntity key st) =
      updSq key (\<lambda>q. updateDisplayText (q\<lparr>sq_structure := None\<rparr>))
        (clearNeighborConnections key (connections s) st)"
    using assms by (simp add: removeEntity_def Let_def)
  have u: "sq_structure (updateDisplayText q) = sq_structure q" for q
    by (simp add: updateDisplayText_def)
  show ?thesis
    unfolding t
    using flagAt_remove[of updateDisplayText key "clearNeighborConnections key (connections s) st" k d, OF u]
    by (auto simp add: flagAt_clearNeighborConnections)
qed

lemma symmetric_after_removal:
  assumes f: "\<And>k d. flagAt st' k d =
           (k \<noteq> key \<and> flagAt st k d
            \<and> \<not> (isConnected (connections s) (opposite d) \<and> k = neighborKey key (opposite d)))"
    and s: "flagAt st key = isConnected (connections s)"
    and sym: "connections_symmetric st"
  shows "connections_symmetric st'"
  unfolding connections_symmetric_def
proof (intro allI)
  fix k d
  have bk: "flagAt st k d = flagAt st (neighborKey k d) (opposite d)"
    using sym unfolding connections_symmetric_def by blast
  show "flagAt st' k d = flagAt st' (neighborKey k d) (opposite d)"
  proof (cases "k = key")
    case True
    then show ?thesis using bk s by (auto simp add: f)
  next
    case False
    show ?thesis
    proof (cases "neighborKey k d = key")
      case True
      then have k: "k = neighborKey key (opposite d)" by (metis neighborKey_back)
      from True bk s have "flagAt st k d = isConnected (connections s) (opposite d)" by simp
      then show ?thesis using True k by (auto simp add: f)
    next
      case n: False
      have "k = neighborKey key (opposite d) \<longleftrightarrow> neighborKey k d = key"
        by (metis neighborKey_back opposite_opposite)
      moreover have "neighborKey k d = neighborKey key d \<longleftrightarrow> k = key"
        by (metis neighborKey_back)
      ultimately show ?thesis using False n bk by (auto simp add: f)
    qed
  qed
qed

lemma flagAt_key:
  "st key = Some sq \<Longrightarrow> sq_structure sq = Some s \<Longrightarrow> flagAt st key = isConnected (connections s)"
  by (auto simp add: flagAt_def structureAt_def)

lemma neighborKey_other [simp]: "d \<noteq> d' \<Longrightarrow> neighborKey k d \<noteq> neighborKey k d'"
  by simp

lemma clearNeighborConnections_neighbor:
  assumes "isConnected conns d"
  shows "clearNeighborConnections key conns st (neighborKey key d)
           = map_option (setFlagSq (opposite d) False) (st (neighborKey key d))"
  using assms
  by (cases d) (simp_all add: clearNeighborConnections_def updSq_apply)

lemma clearNeighborConnections_other:
  assumes "\<And>d. isConnected conns d \<Longrightarrow> k \<noteq> neighborKey key d"
  shows "clearNeighborConnections key conns st k = st k"
  using assms[of DTop] assms[of DRight] assms[of DBottom] assms[of DLeft]
  by (simp add: clearNeighborConnections_def updSq_apply)

lemma till_structure:
  assumes "st key = Some sq" and "sq_structure sq = Some s" and "isTrellisOrNet (structure_type s)"
  shows "snd (till key st) =
      (clearNeighborConnections key (connections s) st)
        (key \<mapsto> sq\<lparr>sq_soil := updateDerivedVariables
                     ((sq_soil sq)\<lparr>compaction := max 0 (compaction (sq_soil sq) - 20),
                                   microbes := max 0 (microbes (sq_soil sq) - 5)\<rparr>),
                   var_weeds := 0, sq_structure := None\<rparr>)"
proof -
  define sq1 where "sq1 = sq\<lparr>sq_soil := (sq_soil sq)\<lparr>compaction := max 0 (jsor (compaction (sq_soil sq)) 0 - jsor 20 0)\<rparr>
        \<lparr>microbes := max 0 (jsor (microbes (sq_soil sq)) 0 - jsor 5 0)\<rparr>,
      var_weeds := (if var_weeds sq > 0 then 0 else var_weeds sq)\<rparr>"
  have t: "snd (till key st) =
      updSq key (\<lambda>q. q\<lparr>sq_soil := updateDerivedVariables (sq_soil q)\<rparr>)
        (updSq key (\<lambda>q. q\<lparr>sq_structure := None\<rparr>)
           (clearNeighborConnections key (connections s) (st(key \<mapsto> sq1))))"
    using assms by (simp add: till_def Let_def sq1_def split_beta)
  have c: "clearNeighborConnections key (connections s) (st(key \<mapsto> sq1)) k
      = (if k = key then Some sq1 else clearNeighborConnections key (connections s) st k)" for k
    by (simp add: clearNeighborConnections_def updSq_apply)
  have "snd (till key st) =
      (clearNeighborConnections key (connections s) st)
        (key \<mapsto> sq1\<lparr>sq_structure := None, sq_soil := updateDerivedVariables (sq_soil sq1)\<rparr>)"
    unfolding t by (rule ext) (simp add: updSq_apply c)
  also have "sq1\<lparr>sq_structure := None, sq_soil := updateDerivedVariables (sq_soil sq1)\<rparr>
      = sq\<lparr>sq_soil := updateDerivedVariables
                     ((sq_soil sq)\<lparr>compaction := max 0 (compaction (sq_soil sq) - 20),
                                   microbes := max 0 (microbes (sq_soil sq) - 5)\<rparr>),
                   var_weeds := 0, sq_structure := None\<rparr>"
    by (simp add: sq1_def jsor_def)
  finally show ?thesis .
qed

lemma removeEntity_structure:
  assumes "st key = Some sq" and "sq_structure sq = Some s" and "isTrellisOrNet (structure_type s)"
    and "sq_plant sq = None"
  shows "snd (removeEntity key st) =
      (clearNeighborConnections key (connections s) st)
        (key \<mapsto> updateDisplayText (sq\<lparr>sq_structure := None\<rparr>))"
  using assms
  by (auto simp add: removeEntity_def Let_def updSq_apply fun_eq_iff)

text \<open>
  C9.  On a square that holds a Trellis or a Net, Till does exactly this to the grid.
  For every flag set on the removed structure, the neighbour it points to keeps its
  square, with the mirrored flag of its structure cleared and nothing else changed.
  Every other square but the tilled one is unchanged.  The tilled square keeps its plant,
  has its soil tilled and its weeds removed, and holds no structure.  So a flag is set
  after the command exactly when it was set before, on another square, and is not the
  mirrored flag of a flag of the removed structure; and when the flags of the grid were
  symmetric before the command, they are symmetric after it.  RemoveEntity does the same
  on a square that holds no plant (a square holds a plant or a structure, not both, see
  the last subsection; with a plant, RemoveEntity removes the plant), leaving the square
  as it was but for its structure and the cached text.
\<close>

theorem removal_clears_mirrored_flags:
  assumes "st key = Some sq" and "sq_structure sq = Some s" and "isTrellisOrNet (structure_type s)"
  shows "(\<forall>d. isConnected (connections s) d \<longrightarrow>
            snd (till key st) (neighborKey key d)
              = map_option (setFlagSq (opposite d) False) (st (neighborKey key d)))
         \<and> (\<forall>k. k \<noteq> key \<and> (\<forall>d. isConnected (connections s) d \<longrightarrow> k \<noteq> neighborKey key d)
              \<longrightarrow> snd (till key st) k = st k)
         \<and> snd (till key st) key
             = Some (sq\<lparr>sq_soil := updateDerivedVariables
                          ((sq_soil sq)\<lparr>compaction := max 0 (compaction (sq_soil sq) - 20),
                                        microbes := max 0 (microbes (sq_soil sq) - 5)\<rparr>),
                        var_weeds := 0, sq_structure := None\<rparr>)
         \<and> (\<forall>k d. flagAt (snd (till key st)) k d
               = (k \<noteq> key \<and> flagAt st k d
                  \<and> \<not> (isConnected (connections s) (opposite d) \<and> k = neighborKey key (opposite d))))
         \<and> (connections_symmetric st \<longrightarrow> connections_symmetric (snd (till key st)))
         \<and> (sq_plant sq = None \<longrightarrow>
              (\<forall>d. isConnected (connections s) d \<longrightarrow>
                 snd (removeEntity key st) (neighborKey key d)
                   = map_option (setFlagSq (opposite d) False) (st (neighborKey key d)))
              \<and> (\<forall>k. k \<noteq> key \<and> (\<forall>d. isConnected (connections s) d \<longrightarrow> k \<noteq> neighborKey key d)
                   \<longrightarrow> snd (removeEntity key st) k = st k)
              \<and> snd (removeEntity key st) key = Some (updateDisplayText (sq\<lparr>sq_structure := None\<rparr>))
              \<and> (\<forall>k d. flagAt (snd (removeEntity key st)) k d
                    = (k \<noteq> key \<and> flagAt st k d
                       \<and> \<not> (isConnected (connections s) (opposite d)
                             \<and> k = neighborKey key (opposite d))))
              \<and> (connections_symmetric st \<longrightarrow> connections_symmetric (snd (removeEntity key st))))"
proof -
  note ts = till_structure[of st key sq s, OF assms]
  note ft = flagAt_till[of st key sq s, OF assms]
  have t1: "\<forall>d. isConnected (connections s) d \<longrightarrow>
            snd (till key st) (neighborKey key d)
              = map_option (setFlagSq (opposite d) False) (st (neighborKey key d))"
    unfolding ts by (simp add: clearNeighborConnections_neighbor)
  have t2: "\<forall>k. k \<noteq> key \<and> (\<forall>d. isConnected (connections s) d \<longrightarrow> k \<noteq> neighborKey key d)
              \<longrightarrow> snd (till key st) k = st k"
    unfolding ts by (simp add: clearNeighborConnections_other)
  have t3: "snd (till key st) key
             = Some (sq\<lparr>sq_soil := updateDerivedVariables
                          ((sq_soil sq)\<lparr>compaction := max 0 (compaction (sq_soil sq) - 20),
                                        microbes := max 0 (microbes (sq_soil sq) - 5)\<rparr>),
                        var_weeds := 0, sq_structure := None\<rparr>)"
    unfolding ts by simp
  have t4: "\<forall>k d. flagAt (snd (till key st)) k d
               = (k \<noteq> key \<and> flagAt st k d
                  \<and> \<not> (isConnected (connections s) (opposite d) \<and> k = neighborKey key (opposite d)))"
    using ft by blast
  have t5: "connections_symmetric st \<longrightarrow> connections_symmetric (snd (till key st))"
    using symmetric_after_removal[of "snd (till key st)" key st s] ft flagAt_key[of st key sq s, OF assms(1,2)]
    by blast
  have r: "sq_plant sq = None \<longrightarrow>
              (\<forall>d. isConnected (connections s) d \<longrightarrow>
                 snd (removeEntity key st) (neighborKey key d)
                   = map_option (setFlagSq (opposite d) False) (st (neighborKey key d)))
              \<and> (\<forall>k. k \<noteq> key \<and> (\<forall>d. isConnected (connections s) d \<longrightarrow> k \<noteq> neighborKey key d)
                   \<longrightarrow> snd (removeEntity key st) k = st k)
              \<and> snd (removeEntity key st) key = Some (updateDisplayText (sq\<lparr>sq_structure := None\<rparr>))
              \<and> (\<forall>k d. flagAt (snd (removeEntity key st)) k d
                    = (k \<noteq> key \<and> flagAt st k d
                       \<and> \<not> (isConnected (connections s) (opposite d)
                             \<and> k = neighborKey key (opposite d))))
              \<and> (connections_symmetric st \<longrightarrow> connections_symmetric (snd (removeEntity key st)))"
  proof
    assume p: "sq_plant sq = None"
    note rs = removeEntity_structure[of st key sq s, OF assms p]
    note fr = flagAt_removeEntity[of st key sq s, OF assms p]
    have r1: "\<forall>d. isConnected (connections s) d \<longrightarrow>
                 snd (removeEntity key st) (neighborKey key d)
                   = map_option (setFlagSq (opposite d) False) (st (neighborKey key d))"
      unfolding rs by (simp add: clearNeighborConnections_neighbor)
    have r2: "\<forall>k. k \<noteq> key \<and> (\<forall>d. isConnected (connections s) d \<longrightarrow> k \<noteq> neighborKey key d)
                   \<longrightarrow> snd (removeEntity key st) k = st k"
      unfolding rs by (simp add: clearNeighborConnections_other)
    have r3: "snd (removeEntity key st) key = Some (updateDisplayText (sq\<lparr>sq_structure := None\<rparr>))"
      unfolding rs by simp
    have r4: "\<forall>k d. flagAt (snd (removeEntity key st)) k d
                    = (k \<noteq> key \<and> flagAt st k d
                       \<and> \<not> (isConnected (connections s) (opposite d)
                             \<and> k = neighborKey key (opposite d)))"
      using fr by blast
    have r5: "connections_symmetric st \<longrightarrow> connections_symmetric (snd (removeEntity key st))"
      using symmetric_after_removal[of "snd (removeEntity key st)" key st s] fr
        flagAt_key[of st key sq s, OF assms(1,2)]
      by blast
    from r1 r2 r3 r4 r5 show "(\<forall>d. isConnected (connections s) d \<longrightarrow>
                 snd (removeEntity key st) (neighborKey key d)
                   = map_option (setFlagSq (opposite d) False) (st (neighborKey key d)))
              \<and> (\<forall>k. k \<noteq> key \<and> (\<forall>d. isConnected (connections s) d \<longrightarrow> k \<noteq> neighborKey key d)
                   \<longrightarrow> snd (removeEntity key st) k = st k)
              \<and> snd (removeEntity key st) key = Some (updateDisplayText (sq\<lparr>sq_structure := None\<rparr>))
              \<and> (\<forall>k d. flagAt (snd (removeEntity key st)) k d
                    = (k \<noteq> key \<and> flagAt st k d
                       \<and> \<not> (isConnected (connections s) (opposite d)
                             \<and> k = neighborKey key (opposite d))))
              \<and> (connections_symmetric st \<longrightarrow> connections_symmetric (snd (removeEntity key st)))"
      by (intro conjI)
  qed
  from t1 t2 t3 t4 t5 r show ?thesis by (intro conjI)
qed

lemma flagAt_trellis_pair:
  "flagAt trellis_pair k d = ((k = (0, 0) \<and> d = DRight) \<or> (k = (1, 0) \<and> d = DLeft))"
  by (cases d) (auto simp add: flagAt_def structureAt_def trellis_pair_def no_connections_def new_Structure_def)

lemma trellis_pair_symmetric: "connections_symmetric trellis_pair"
  unfolding connections_symmetric_def
proof (intro allI)
  fix k :: "int \<times> int" and d
  obtain x y where k: "k = (x, y)" by (cases k)
  show "flagAt trellis_pair k d = flagAt trellis_pair (neighborKey k d) (opposite d)"
    unfolding flagAt_trellis_pair k by (cases d) auto
qed

text \<open>
  C9 at the two connected Trellises, removing the western one: the eastern square keeps
  its Trellis, now with no flag set.
\<close>

theorem removal_clears_mirrored_flags_witness:
  "connections_symmetric trellis_pair
   \<and> flagAt trellis_pair (0, 0) DRight \<and> flagAt trellis_pair (1, 0) DLeft
   \<and> snd (till (0, 0) trellis_pair) (1, 0)
       = Some ((new_Square (1, 0) 20 0 no_pests)\<lparr>sq_structure := Some (new_Structure ''Trellis'')\<rparr>)
   \<and> \<not> flagAt (snd (till (0, 0) trellis_pair)) (1, 0) DLeft
   \<and> map_option sq_structure (snd (till (0, 0) trellis_pair) (0, 0)) = Some None
   \<and> connections_symmetric (snd (till (0, 0) trellis_pair))
   \<and> snd (removeEntity (0, 0) trellis_pair) (1, 0)
       = Some ((new_Square (1, 0) 20 0 no_pests)\<lparr>sq_structure := Some (new_Structure ''Trellis'')\<rparr>)
   \<and> \<not> flagAt (snd (removeEntity (0, 0) trellis_pair)) (1, 0) DLeft
   \<and> map_option sq_structure (snd (removeEntity (0, 0) trellis_pair) (0, 0)) = Some None
   \<and> connections_symmetric (snd (removeEntity (0, 0) trellis_pair))"
proof -
  let ?s = "(new_Structure ''Trellis'')\<lparr>connections := no_connections\<lparr>conn_right := True\<rparr>\<rparr>"
  let ?sq = "(new_Square (0, 0) 20 0 no_pests)\<lparr>sq_structure := Some ?s\<rparr>"
  have a: "trellis_pair (0, 0) = Some ?sq" by (simp add: trellis_pair_def)
  have b: "sq_structure ?sq = Some ?s" by simp
  have c: "isTrellisOrNet (structure_type ?s)" by (simp add: isTrellisOrNet_def new_Structure_def)
  have p: "sq_plant ?sq = None" by simp
  have r: "isConnected (connections ?s) DRight" by simp
  have n: "map_option (setFlagSq (opposite DRight) False) (trellis_pair (neighborKey (0, 0) DRight))
      = Some ((new_Square (1, 0) 20 0 no_pests)\<lparr>sq_structure := Some (new_Structure ''Trellis'')\<rparr>)"
    by (simp add: trellis_pair_def setFlagSq_def new_Structure_def no_connections_def)
  note main = removal_clears_mirrored_flags[of trellis_pair "(0, 0)" ?sq ?s, OF a b c]
  from main r have t1: "snd (till (0, 0) trellis_pair) (neighborKey (0, 0) DRight)
      = map_option (setFlagSq (opposite DRight) False) (trellis_pair (neighborKey (0, 0) DRight))"
    by blast
  from main r p have e1: "snd (removeEntity (0, 0) trellis_pair) (neighborKey (0, 0) DRight)
      = map_option (setFlagSq (opposite DRight) False) (trellis_pair (neighborKey (0, 0) DRight))"
    by blast
  from main have t2: "\<not> flagAt (snd (till (0, 0) trellis_pair)) (1, 0) DLeft"
    using r by simp
  from main p have e2: "\<not> flagAt (snd (removeEntity (0, 0) trellis_pair)) (1, 0) DLeft"
    using r by simp
  from main have t3: "map_option sq_structure (snd (till (0, 0) trellis_pair) (0, 0)) = Some None"
    by simp
  from main p have e3: "map_option sq_structure (snd (removeEntity (0, 0) trellis_pair) (0, 0)) = Some None"
    by (simp add: updateDisplayText_def)
  from main p trellis_pair_symmetric have s: "connections_symmetric (snd (till (0, 0) trellis_pair))"
      "connections_symmetric (snd (removeEntity (0, 0) trellis_pair))"
    by blast+
  from t1 e1 t2 e2 t3 e3 s trellis_pair_symmetric show ?thesis
    unfolding n by (simp add: flagAt_trellis_pair)
qed


subsection \<open>The neighbours of a square\<close>

lemma concat_map_if:
  "concat (map (\<lambda>x. if P x then [f x] else []) xs) = map f (filter P xs)"
  by (induction xs) simp_all

lemma concat_map_product:
  "concat (map (\<lambda>y. map (f y) (filter (P y) xs)) ys) =
     map (\<lambda>(y, x). f y x) (filter (\<lambda>(y, x). P y x) (List.product ys xs))"
  by (induction ys) (simp_all add: filter_map comp_def)

lemma getNeighbors_alt:
  "getNeighbors x y b r =
     map (\<lambda>(dy, dx). (x + dx, y + dy))
       (filter (\<lambda>(dy, dx). keepOffset x y b r dy dx) (List.product [- r..r] [- r..r]))"
proof -
  have "getNeighbors x y b r =
      concat (map (\<lambda>dy. concat (map (\<lambda>dx. if keepOffset x y b r dy dx then [(x + dx, y + dy)] else [])
         [- r..r])) [- r..r])"
    unfolding getNeighbors_def keepOffset_def Let_def
    by (intro arg_cong[where f=concat] map_cong refl) auto
  then show ?thesis
    by (simp add: concat_map_if concat_map_product)
qed

lemma set_getNeighbors:
  "n \<in> set (getNeighbors x y b r) \<longleftrightarrow>
     (\<exists>dy dx. - r \<le> dy \<and> dy \<le> r \<and> - r \<le> dx \<and> dx \<le> r \<and> keepOffset x y b r dy dx
        \<and> n = (x + dx, y + dy))"
  by (auto simp add: getNeighbors_alt)

lemma distinct_getNeighbors: "distinct (getNeighbors x y b r)"
  unfolding getNeighbors_alt
  by (rule distinct_map[THEN iffD2])
     (auto simp add: distinct_product inj_on_def)

lemma key_notin_getNeighbors: "(x, y) \<notin> set (getNeighbors x y b r)"
  by (auto simp add: set_getNeighbors keepOffset_def)

subsection \<open>The water of an Olla\<close>

lemma addMoistureAt_apply:
  "addMoistureAt a n st k =
     (if k = n then map_option (\<lambda>q. q\<lparr>sq_soil := addMoisture a (sq_soil q)\<rparr>) (st k) else st k)"
  by (simp add: addMoistureAt_def updSq_apply)

lemma fold_addMoistureAt:
  "distinct ks \<Longrightarrow>
   fold (addMoistureAt a) ks st k =
     (if k \<in> set ks then map_option (\<lambda>q. q\<lparr>sq_soil := addMoisture a (sq_soil q)\<rparr>) (st k) else st k)"
  by (induction ks arbitrary: st) (auto simp add: addMoistureAt_apply)

lemma distinct_ollaNeighbors1: "distinct (ollaNeighbors1 key)"
  by (simp add: ollaNeighbors1_def distinct_getNeighbors)

lemma distinct_ollaNeighbors2: "distinct (ollaNeighbors2 key)"
  by (simp add: ollaNeighbors2_def distinct_getNeighbors)

lemma key_notin_ollaNeighbors: "key \<notin> set (ollaNeighbors1 key)" "key \<notin> set (ollaNeighbors2 key)"
  using key_notin_getNeighbors[of "fst key" "snd key"]
  by (simp_all add: ollaNeighbors1_def ollaNeighbors2_def)

lemma ollaNeighbors_disjoint: "n \<in> set (ollaNeighbors2 key) \<Longrightarrow> n \<notin> set (ollaNeighbors1 key)"
  by (simp add: ollaNeighbors2_def)

lemma distributeOllaWater_apply:
  assumes "0 < w"
  shows "distributeOllaWater key w st k =
     (if k \<in> set (ollaNeighbors1 key)
      then map_option (\<lambda>q. q\<lparr>sq_soil := addMoisture (releasePerNeighbor1 key w) (sq_soil q)\<rparr>) (st k)
      else if k \<in> set (ollaNeighbors2 key)
      then map_option (\<lambda>q. q\<lparr>sq_soil := addMoisture (releasePerNeighbor2 key w) (sq_soil q)\<rparr>) (st k)
      else st k)"
  using assms ollaNeighbors_disjoint[of k key]
  by (auto simp add: distributeOllaWater_def fold_addMoistureAt distinct_ollaNeighbors1
      distinct_ollaNeighbors2)



lemma shares_sum:
  assumes "ollaNeighbors1 key \<noteq> []" "ollaNeighbors2 key \<noteq> []"
  shows "releasePerNeighbor1 key w * real (length (ollaNeighbors1 key))
         + releasePerNeighbor2 key w * real (length (ollaNeighbors2 key)) = w"
  using assms by (simp add: releasePerNeighbor1_def releasePerNeighbor2_def Let_def jsor_def field_simps)

lemma releasePerNeighbor_bounds:
  assumes "0 \<le> w"
  shows "0 \<le> releasePerNeighbor1 key w" "releasePerNeighbor1 key w \<le> w"
        "0 \<le> releasePerNeighbor2 key w" "releasePerNeighbor2 key w \<le> w"
proof -
  have d: "w * c / real n \<le> w" if "0 < n" "0 \<le> c" "c \<le> 1" for c :: real and n :: nat
  proof -
    have "w * c \<le> w * 1" using assms that by (intro mult_left_mono) simp_all
    also have "\<dots> \<le> w * real n" using assms that by (intro mult_left_mono) simp_all
    finally show ?thesis using that by (simp add: pos_divide_le_eq)
  qed
  show "0 \<le> releasePerNeighbor1 key w" "0 \<le> releasePerNeighbor2 key w"
    using assms by (simp_all add: releasePerNeighbor1_def releasePerNeighbor2_def Let_def jsor_def)
  show "releasePerNeighbor1 key w \<le> w"
    using assms d[of "length (ollaNeighbors1 key)" "0.7"]
    by (simp add: releasePerNeighbor1_def Let_def jsor_def)
  show "releasePerNeighbor2 key w \<le> w"
    using assms d[of "length (ollaNeighbors2 key)" "0.3"]
    by (simp add: releasePerNeighbor2_def Let_def jsor_def)
qed

lemma updateEntities_olla:
  assumes "st key = Some sq" and "sq_structure sq = Some s" and "structure_type s = ''Olla''"
    and "waterLevel s = Some w" and "0 < w" and "sq_plant sq = None"
  shows "updateEntities tod e gs rnd key st =
           (distributeOllaWater key (min w 3.5) st)
             (key \<mapsto> sq\<lparr>sq_structure := Some (s\<lparr>waterLevel := Some (w - min w 3.5)\<rparr>),
                        display_statusText := ''-'',
                        sq_soil := updateOxygen 0 (sq_soil sq)\<rparr>)"
proof -
  define r where "r = min w 3.5"
  define sq1 where "sq1 = sq\<lparr>sq_structure := Some (s\<lparr>waterLevel := Some (w - r)\<rparr>)\<rparr>"
  define st2 where "st2 = distributeOllaWater key r (st(key \<mapsto> sq1))"
  define st3 where "st3 = st2(key \<mapsto> sq1\<lparr>display_statusText := ''-''\<rparr>)"
  have r: "0 < r" using assms(5) by (simp add: r_def)
  have u1: "updateStructureOf key st = (r, st(key \<mapsto> sq1))"
    using assms by (simp add: updateStructureOf_def Structure_update_def Let_def r_def sq1_def)
  have k2: "st2 key = Some sq1"
    using key_notin_ollaNeighbors[of key] r by (simp add: st2_def distributeOllaWater_apply)
  have p1: "sq_plant sq1 = None" using assms(6) by (simp add: sq1_def)
  have u3: "updatePlantOf tod e gs key st2 = (0, st3)"
    using p1 by (simp add: updatePlantOf_def k2 st3_def)
  have u4: "applyNeighborEffects rnd key st3 = st3"
    using p1 by (simp add: applyNeighborEffects_def st3_def)
  have "updateEntities tod e gs rnd key st =
      updSq key (\<lambda>q. q\<lparr>sq_soil := updateOxygen 0 (sq_soil q)\<rparr>) st3"
    by (simp add: updateEntities_def u1 u3 u4 st2_def[symmetric])
  also have "\<dots> = (distributeOllaWater key r st)
             (key \<mapsto> sq\<lparr>sq_structure := Some (s\<lparr>waterLevel := Some (w - r)\<rparr>),
                        display_statusText := ''-'',
                        sq_soil := updateOxygen 0 (sq_soil sq)\<rparr>)"
    using key_notin_ollaNeighbors[of key] r
    by (auto simp add: fun_eq_iff updSq_apply distributeOllaWater_apply st3_def st2_def sq1_def)
  finally show ?thesis unfolding r_def .
qed

lemma sum_list_const: "(\<And>x. x \<in> set xs \<Longrightarrow> f x = c) \<Longrightarrow> sum_list (map f xs) = c * real (length xs)"
  by (induction xs) (simp_all add: algebra_simps)

lemma moistureAt_gain:
  assumes "st n = Some q" and "0 \<le> a"
  shows "moistureAt (st(n \<mapsto> q\<lparr>sq_soil := addMoisture a (sq_soil q)\<rparr>)) n - moistureAt st n
           = clamp (moisture (sq_soil q) + a) 0 100 - moisture (sq_soil q)"
  using assms by (simp add: moistureAt_def)

lemma olla_neighbor_moisture:
  assumes "st key = Some sq" and "sq_structure sq = Some s" and "structure_type s = ''Olla''"
    and "waterLevel s = Some w" and "0 < w" and "sq_plant sq = None"
  shows "n \<in> set (ollaNeighbors1 key) \<Longrightarrow>
           moistureAt (updateEntities tod e gs rnd key st) n =
             (case st n of Some q \<Rightarrow> clamp (moisture (sq_soil q) + releasePerNeighbor1 key (min w 3.5)) 0 100
                         | None \<Rightarrow> 0)"
    and "n \<in> set (ollaNeighbors2 key) \<Longrightarrow>
           moistureAt (updateEntities tod e gs rnd key st) n =
             (case st n of Some q \<Rightarrow> clamp (moisture (sq_soil q) + releasePerNeighbor2 key (min w 3.5)) 0 100
                         | None \<Rightarrow> 0)"
proof -
  define r where "r = min w 3.5"
  have r: "0 < r" using assms(5) by (simp add: r_def)
  note ue = updateEntities_olla[of st key sq s w tod e gs rnd, OF assms, folded r_def]
  show "n \<in> set (ollaNeighbors1 key) \<Longrightarrow>
           moistureAt (updateEntities tod e gs rnd key st) n =
             (case st n of Some q \<Rightarrow> clamp (moisture (sq_soil q) + releasePerNeighbor1 key (min w 3.5)) 0 100
                         | None \<Rightarrow> 0)"
    unfolding r_def[symmetric] ue
    using key_notin_ollaNeighbors[of key] r
    by (auto simp add: distributeOllaWater_apply moistureAt_def split: option.splits)
  show "n \<in> set (ollaNeighbors2 key) \<Longrightarrow>
           moistureAt (updateEntities tod e gs rnd key st) n =
             (case st n of Some q \<Rightarrow> clamp (moisture (sq_soil q) + releasePerNeighbor2 key (min w 3.5)) 0 100
                         | None \<Rightarrow> 0)"
    unfolding r_def[symmetric] ue
    using key_notin_ollaNeighbors[of key] ollaNeighbors_disjoint[of n key] r
    by (auto simp add: distributeOllaWater_apply moistureAt_def split: option.splits)
qed


lemma olla_waterLevel:
  assumes "st key = Some sq" and "sq_structure sq = Some s" and "structure_type s = ''Olla''"
    and "waterLevel s = Some w" and "0 < w" and "sq_plant sq = None"
  shows "map_option waterLevel (structureAt (updateEntities tod e gs rnd key st) key)
           = Some (Some (w - min 3.5 w))"
  by (simp add: updateEntities_olla[of st key sq s w tod e gs rnd, OF assms] structureAt_def min.commute)

lemma olla_moisture_sum:
  assumes "st key = Some sq" and "sq_structure sq = Some s" and "structure_type s = ''Olla''"
    and "waterLevel s = Some w" and "0 < w" and "sq_plant sq = None"
    and ne: "ollaNeighbors1 key \<noteq> []" "ollaNeighbors2 key \<noteq> []"
    and n1: "\<And>n. n \<in> set (ollaNeighbors1 key) \<Longrightarrow>
               \<exists>q. st n = Some q \<and> 0 \<le> moisture (sq_soil q)
                  \<and> moisture (sq_soil q) + releasePerNeighbor1 key (min w 3.5) \<le> 100"
    and n2: "\<And>n. n \<in> set (ollaNeighbors2 key) \<Longrightarrow>
               \<exists>q. st n = Some q \<and> 0 \<le> moisture (sq_soil q)
                  \<and> moisture (sq_soil q) + releasePerNeighbor2 key (min w 3.5) \<le> 100"
  shows "(\<Sum>n\<leftarrow>ollaNeighbors1 key @ ollaNeighbors2 key.
            moistureAt (updateEntities tod e gs rnd key st) n - moistureAt st n) = min w 3.5"
proof -
  define r where "r = min w 3.5"
  have r: "0 \<le> r" using assms(5) by (simp add: r_def)
  note b = releasePerNeighbor_bounds[OF r, of key]
  note m = olla_neighbor_moisture[of st key sq s w _ tod e gs rnd, OF assms(1-6), folded r_def]
  have g1: "moistureAt (updateEntities tod e gs rnd key st) n - moistureAt st n
              = releasePerNeighbor1 key r" if mem: "n \<in> set (ollaNeighbors1 key)" for n
  proof -
    obtain q where q: "st n = Some q" "0 \<le> moisture (sq_soil q)"
        "moisture (sq_soil q) + releasePerNeighbor1 key r \<le> 100"
      using n1[OF mem, folded r_def] by blast
    have "moistureAt (updateEntities tod e gs rnd key st) n
            = clamp (moisture (sq_soil q) + releasePerNeighbor1 key r) 0 100"
      using m(1)[OF mem] q(1) by simp
    moreover have "moistureAt st n = moisture (sq_soil q)"
      using q(1) by (simp add: moistureAt_def)
    ultimately show ?thesis using q b(1) by (simp add: clamp_def)
  qed
  have g2: "moistureAt (updateEntities tod e gs rnd key st) n - moistureAt st n
              = releasePerNeighbor2 key r" if mem: "n \<in> set (ollaNeighbors2 key)" for n
  proof -
    obtain q where q: "st n = Some q" "0 \<le> moisture (sq_soil q)"
        "moisture (sq_soil q) + releasePerNeighbor2 key r \<le> 100"
      using n2[OF mem, folded r_def] by blast
    have "moistureAt (updateEntities tod e gs rnd key st) n
            = clamp (moisture (sq_soil q) + releasePerNeighbor2 key r) 0 100"
      using m(2)[OF mem] q(1) by simp
    moreover have "moistureAt st n = moisture (sq_soil q)"
      using q(1) by (simp add: moistureAt_def)
    ultimately show ?thesis using q b(3) by (simp add: clamp_def)
  qed
  have "(\<Sum>n\<leftarrow>ollaNeighbors1 key @ ollaNeighbors2 key.
            moistureAt (updateEntities tod e gs rnd key st) n - moistureAt st n)
        = releasePerNeighbor1 key r * real (length (ollaNeighbors1 key))
          + releasePerNeighbor2 key r * real (length (ollaNeighbors2 key))"
    by (simp add: sum_list_const[OF g1] sum_list_const[OF g2])
  also have "\<dots> = r" by (rule shares_sum[OF ne])
  finally show ?thesis unfolding r_def .
qed


lemma ollaNeighbors_in_grid:
  "n \<in> set (ollaNeighbors1 key) \<Longrightarrow> in_grid n" "n \<in> set (ollaNeighbors2 key) \<Longrightarrow> in_grid n"
  by (auto simp add: ollaNeighbors1_def ollaNeighbors2_def set_getNeighbors keepOffset_def in_grid_def)

lemma moisture_new_Square [simp]: "moisture (sq_soil (new_Square k t w p)) = 50"
  by (simp add: new_Square_def updateDisplayText_def updateOxygen_def Let_def
      moisture_new_Soil_DEFAULTS)

lemma olla_square_facts:
  "sq_structure olla_square = Some (new_Structure ''Olla'')"
  "structure_type (new_Structure ''Olla'') = ''Olla''"
  "waterLevel (new_Structure ''Olla'') = Some 200"
  "sq_plant olla_square = None"
  "in_grid (7, 7)"
  by (simp_all add: olla_square_def new_Structure_def in_grid_def)


lemma wet_grid_olla: "wet_grid (7, 7) = Some olla_square"
  by (simp add: wet_grid_def in_grid_def)

lemma dry_grid_neighbor:
  assumes "n \<in> set (ollaNeighbors1 (7, 7)) \<or> n \<in> set (ollaNeighbors2 (7, 7))"
  shows "\<exists>q. dry_grid n = Some q \<and> moisture (sq_soil q) = 50"
  using assms ollaNeighbors_in_grid[of n "(7, 7)"] key_notin_ollaNeighbors[of "(7, 7)"]
  by (auto simp add: dry_grid_def)

lemma wet_grid_neighbor:
  assumes "n \<in> set (ollaNeighbors1 (7, 7)) \<or> n \<in> set (ollaNeighbors2 (7, 7))"
  shows "\<exists>q. wet_grid n = Some q \<and> moisture (sq_soil q) = 100"
  using assms ollaNeighbors_in_grid[of n "(7, 7)"] key_notin_ollaNeighbors[of "(7, 7)"]
  by (auto simp add: wet_grid_def clamp_def)








text \<open>
  The amount added to a neighbour and the moisture the neighbour gains differ where
  \<open>addMoisture\<close> clamps at 100.  When every neighbour stays at or below 100 with its share
  added, the gains sum to the released amount (lemma \<open>olla_moisture_sum\<close>); on the grid
  whose squares are at moisture 100 the Olla releases 3.5 and its neighbours gain nothing.
\<close>

lemma olla_saturated_neighbors_gain_nothing:
  "map_option waterLevel
        (structureAt (updateEntities 720 1 calm_weather (\<lambda>_. 1) (7, 7) wet_grid) (7, 7))
       = Some (Some (200 - min 3.5 200))
   \<and> (\<Sum>n\<leftarrow>ollaNeighbors1 (7, 7) @ ollaNeighbors2 (7, 7).
         moistureAt (updateEntities 720 1 calm_weather (\<lambda>_. 1) (7, 7) wet_grid) n
           - moistureAt wet_grid n) = 0
   \<and> (\<Sum>n\<leftarrow>ollaNeighbors1 (7, 7) @ ollaNeighbors2 (7, 7).
         moistureAt (updateEntities 720 1 calm_weather (\<lambda>_. 1) (7, 7) wet_grid) n
           - moistureAt wet_grid n) \<noteq> min 3.5 200"
proof -
  have p: "(0::real) < 200" by simp
  note f = wet_grid_olla olla_square_facts(1,2,3) p olla_square_facts(4)
  note b = releasePerNeighbor_bounds[of "min 200 3.5" "(7, 7)"]
  note m = olla_neighbor_moisture[of wet_grid "(7, 7)" olla_square "new_Structure ''Olla''" 200 _
      720 1 calm_weather "\<lambda>_. 1", OF f]
  have a: "map_option waterLevel
        (structureAt (updateEntities 720 1 calm_weather (\<lambda>_. 1) (7, 7) wet_grid) (7, 7))
       = Some (Some (200 - min 3.5 200))"
    by (rule olla_waterLevel[of wet_grid "(7, 7)" olla_square "new_Structure ''Olla''" 200, OF f])
  have z: "moistureAt (updateEntities 720 1 calm_weather (\<lambda>_. 1) (7, 7) wet_grid) n
           - moistureAt wet_grid n = 0"
    if mem: "n \<in> set (ollaNeighbors1 (7, 7) @ ollaNeighbors2 (7, 7))" for n
  proof -
    from mem have d: "n \<in> set (ollaNeighbors1 (7, 7)) \<or> n \<in> set (ollaNeighbors2 (7, 7))" by simp
    then obtain q where q: "wet_grid n = Some q" "moisture (sq_soil q) = 100"
      using wet_grid_neighbor[of n] by blast
    have w: "moistureAt wet_grid n = 100" using q by (simp add: moistureAt_def)
    from d show ?thesis
    proof
      assume "n \<in> set (ollaNeighbors1 (7, 7))"
      from m(1)[OF this] q b(1) show ?thesis by (simp add: w clamp_def)
    next
      assume "n \<in> set (ollaNeighbors2 (7, 7))"
      from m(2)[OF this] q b(3) show ?thesis by (simp add: w clamp_def)
    qed
  qed
  have s: "(\<Sum>n\<leftarrow>ollaNeighbors1 (7, 7) @ ollaNeighbors2 (7, 7).
         moistureAt (updateEntities 720 1 calm_weather (\<lambda>_. 1) (7, 7) wet_grid) n
           - moistureAt wet_grid n) = 0"
    using sum_list_const[of "ollaNeighbors1 (7, 7) @ ollaNeighbors2 (7, 7)" _ 0, OF z] by simp
  from a s show ?thesis by simp
qed

subsection \<open>One entity on a square\<close>

text \<open>
  The constructor leaves a square with neither plant nor structure, and the two methods
  that put one there, \<open>tryPlanting\<close> and \<open>tryAddingStructure\<close>, refuse a square that holds
  either.  So once every square of the grid holds at most one of the two, it stays so
  through the commands and through the tick, and a square that holds a structure holds no
  plant.  (The action methods not followed here, \<open>addWater\<close>, \<open>applyNeem\<close> and
  \<open>applySoilConditioner\<close>, assign neither field.)
\<close>

lemma occupancy_at:
  "occupancy_exclusive st \<Longrightarrow> st k = Some sq \<Longrightarrow> vacant_or_single sq"
  unfolding occupancy_exclusive_def by blast

lemma occupancy_upd:
  "occupancy_exclusive st \<Longrightarrow> vacant_or_single sq \<Longrightarrow> occupancy_exclusive (st(k \<mapsto> sq))"
  by (simp add: occupancy_exclusive_def)

lemma occupancy_upd_at:
  assumes "occupancy_exclusive st" and "st k = Some sq"
    and "vacant_or_single sq \<Longrightarrow> vacant_or_single sq'"
  shows "occupancy_exclusive (st(k \<mapsto> sq'))"
  using assms occupancy_at[of st k sq] by (simp add: occupancy_upd)

lemma updateDisplayText_entities:
  "sq_plant (updateDisplayText sq) = sq_plant sq"
  "sq_structure (updateDisplayText sq) = sq_structure sq"
  by (simp_all add: updateDisplayText_def)

lemma occupancy_updSq:
  assumes "occupancy_exclusive st" and "\<And>sq. vacant_or_single sq \<Longrightarrow> vacant_or_single (f sq)"
  shows "occupancy_exclusive (updSq k f st)"
  using assms unfolding occupancy_exclusive_def updSq_def by (auto split: option.splits)

lemma occupancy_fold_updSq:
  assumes "\<And>k sq. vacant_or_single sq \<Longrightarrow> vacant_or_single (f k sq)"
  shows "occupancy_exclusive st \<Longrightarrow> occupancy_exclusive (fold (\<lambda>k. updSq k (f k)) ks st)"
  by (induction ks arbitrary: st) (simp_all add: occupancy_updSq assms)

lemma vacant_setFlagSq [simp]: "vacant_or_single (setFlagSq d b sq) = vacant_or_single sq"
  by (simp add: vacant_or_single_def setFlagSq_def split: option.splits)

lemma vacant_updateDisplayText [simp]: "vacant_or_single (updateDisplayText sq) = vacant_or_single sq"
  by (simp add: vacant_or_single_def updateDisplayText_def)

lemma vacant_new_Square: "vacant_or_single (new_Square k t w p)"
  by (simp add: vacant_or_single_def new_Square_def updateDisplayText_def)

lemma vacant_tryPlanting: "vacant_or_single sq \<Longrightarrow> vacant_or_single (snd (tryPlanting t sq))"
  by (simp add: tryPlanting_def vacant_or_single_def updateDisplayText_def)

lemma vacant_harvestPlant: "vacant_or_single sq \<Longrightarrow> vacant_or_single (snd (harvestPlant sq))"
  by (auto simp add: harvestPlant_def vacant_or_single_def Let_def split: option.splits)

lemma vacant_addAmendment: "vacant_or_single sq \<Longrightarrow> vacant_or_single (snd (addAmendment t sq))"
  by (simp add: addAmendment_def vacant_or_single_def Let_def)

lemma occupancy_clearNeighborConnections:
  "occupancy_exclusive st \<Longrightarrow> occupancy_exclusive (clearNeighborConnections key conns st)"
  by (simp add: clearNeighborConnections_def occupancy_updSq)

lemma occupancy_till:
  assumes "occupancy_exclusive st"
  shows "occupancy_exclusive (snd (till key st))"
proof (cases "st key")
  case None
  then show ?thesis using assms by (simp add: till_def)
next
  case (Some sq)
  have v: "vacant_or_single sq" using assms Some by (rule occupancy_at)
  then have v1: "vacant_or_single (sq\<lparr>sq_soil := s, var_weeds := w\<rparr>)" for s w
    by (simp add: vacant_or_single_def)
  show ?thesis
    using assms
    by (auto simp add: till_def Some Let_def split_beta vacant_or_single_def
        intro!: occupancy_updSq occupancy_clearNeighborConnections occupancy_upd v1
        split: option.splits)
qed

lemma occupancy_removeEntity:
  assumes "occupancy_exclusive st"
  shows "occupancy_exclusive (snd (removeEntity key st))"
proof (cases "st key")
  case None
  then show ?thesis using assms by (simp add: removeEntity_def)
next
  case (Some sq)
  have u: "vacant_or_single (updateDisplayText (q\<lparr>sq_structure := None\<rparr>))" for q
    by (simp add: vacant_or_single_def updateDisplayText_entities)
  show ?thesis
  proof (cases "sq_plant sq")
    case (Some p)
    have "vacant_or_single (updateDisplayText (sq\<lparr>sq_plant := None, display_statusText := ''-''\<rparr>))"
      by (simp add: vacant_or_single_def updateDisplayText_entities)
    then show ?thesis
      using assms by (simp add: removeEntity_def \<open>st key = Some sq\<close> Some occupancy_upd)
  next
    case None
    show ?thesis
    proof (cases "sq_structure sq")
      case (Some s)
      have "occupancy_exclusive (updSq key (\<lambda>q. updateDisplayText (q\<lparr>sq_structure := None\<rparr>)) st')"
        if "occupancy_exclusive st'" for st'
        using that by (rule occupancy_updSq) (rule u)
      then show ?thesis
        using assms
        by (simp add: removeEntity_def \<open>st key = Some sq\<close> None Some Let_def
            occupancy_clearNeighborConnections)
    next
      case n: None
      have "vacant_or_single (updateDisplayText sq)"
        by (simp add: vacant_or_single_def updateDisplayText_entities None)
      then show ?thesis
        using assms by (simp add: removeEntity_def \<open>st key = Some sq\<close> None n occupancy_upd)
    qed
  qed
qed

lemma occupancy_connectTo:
  "occupancy_exclusive st \<Longrightarrow> occupancy_exclusive (connectTo key nKey st)"
  by (simp add: connectTo_def Let_def occupancy_updSq)

lemma occupancy_fold_connectTo:
  "occupancy_exclusive st \<Longrightarrow> occupancy_exclusive (fold (connectTo key) ns st)"
  by (induction ns arbitrary: st) (simp_all add: occupancy_connectTo)

lemma occupancy_tryAddingStructure:
  assumes "occupancy_exclusive st"
  shows "occupancy_exclusive (snd (tryAddingStructure c t key st))"
proof (cases "st key")
  case None
  then show ?thesis using assms by (simp add: tryAddingStructure_def)
next
  case (Some sq)
  show ?thesis
  proof (cases "\<not> STRUCTURE_INFO_has t \<or> sq_plant sq \<noteq> None \<or> sq_structure sq \<noteq> None")
    case True
    then show ?thesis using assms by (auto simp add: tryAddingStructure_def Some)
  next
    case False
    then have "vacant_or_single (sq\<lparr>sq_structure := Some (new_Structure t)\<rparr>)"
      by (simp add: vacant_or_single_def)
    then have "occupancy_exclusive (st(key \<mapsto> sq\<lparr>sq_structure := Some (new_Structure t)\<rparr>))"
      using assms by (rule occupancy_upd[rotated])
    then show ?thesis
      using False
      by (simp add: tryAddingStructure_def Some Let_def occupancy_updSq occupancy_fold_connectTo)
  qed
qed

lemma occupancy_updateEnvironment:
  assumes "occupancy_exclusive st"
  shows "occupancy_exclusive (snd (updateEnvironment a h w key st))"
proof (cases "st key")
  case None
  then show ?thesis using assms by (simp add: updateEnvironment_def)
next
  case (Some sq)
  show ?thesis
    unfolding updateEnvironment_def Some Let_def split_beta option.case snd_conv
    by (rule occupancy_upd_at[OF assms Some]) (simp add: vacant_or_single_def)
qed

lemma occupancy_addMoistureAt:
  "occupancy_exclusive st \<Longrightarrow> occupancy_exclusive (addMoistureAt a k st)"
  unfolding addMoistureAt_def by (rule occupancy_updSq) (simp_all add: vacant_or_single_def)

lemma occupancy_fold_addMoistureAt:
  "occupancy_exclusive st \<Longrightarrow> occupancy_exclusive (fold (addMoistureAt a) ks st)"
  by (induction ks arbitrary: st) (simp_all add: occupancy_addMoistureAt)

lemma occupancy_distributeOllaWater:
  "occupancy_exclusive st \<Longrightarrow> occupancy_exclusive (distributeOllaWater key w st)"
  by (simp add: distributeOllaWater_def occupancy_fold_addMoistureAt)

lemma occupancy_updateStructureOf:
  assumes "occupancy_exclusive st"
  shows "occupancy_exclusive (snd (updateStructureOf key st))"
proof (cases "st key")
  case None
  then show ?thesis using assms by (simp add: updateStructureOf_def)
next
  case (Some sq)
  show ?thesis
  proof (cases "sq_structure sq")
    case None
    then show ?thesis using assms by (simp add: updateStructureOf_def Some)
  next
    case s: (Some s)
    have "occupancy_exclusive (st(key \<mapsto> sq\<lparr>sq_structure := Some (snd (Structure_update s))\<rparr>))"
      using s by (intro occupancy_upd_at[OF assms Some]) (simp add: vacant_or_single_def)
    then show ?thesis by (simp add: updateStructureOf_def Some s split_beta)
  qed
qed

lemma occupancy_updatePlantOf:
  assumes "occupancy_exclusive st"
  shows "occupancy_exclusive (snd (updatePlantOf tod e gs key st))"
proof (cases "st key")
  case None
  then show ?thesis using assms by (simp add: updatePlantOf_def)
next
  case (Some sq)
  show ?thesis
  proof (cases "sq_plant sq")
    case None
    have "occupancy_exclusive (st(key \<mapsto> sq\<lparr>display_statusText := ''-''\<rparr>))"
      by (intro occupancy_upd_at[OF assms Some]) (simp add: vacant_or_single_def)
    then show ?thesis by (simp add: updatePlantOf_def Some None)
  next
    case p: (Some p)
    have v: "sq_structure sq = None"
      using occupancy_at[OF assms Some] p by (simp add: vacant_or_single_def)
    show ?thesis
      unfolding updatePlantOf_def Some p Let_def split_beta option.case snd_conv
      by (rule occupancy_upd_at[OF assms Some]) (simp add: vacant_or_single_def v)
  qed
qed

lemma occupancy_applyNeighborEffects:
  assumes "occupancy_exclusive st"
  shows "occupancy_exclusive (applyNeighborEffects rnd key st)"
proof -
  have s: "vacant_or_single (suppressNematodes r q) = vacant_or_single q" for r q
    by (simp add: suppressNematodes_def Let_def vacant_or_single_def)
  have b: "vacant_or_single (q\<lparr>sq_soil := x\<rparr>) = vacant_or_single q" for q x
    by (simp add: vacant_or_single_def)
  show ?thesis
    using assms
    by (auto simp add: applyNeighborEffects_def Let_def s b
        intro!: occupancy_fold_updSq split: option.splits)
qed

lemma occupancy_updateEntities:
  "occupancy_exclusive st \<Longrightarrow> occupancy_exclusive (updateEntities tod e gs rnd key st)"
  unfolding updateEntities_def Let_def split_beta
  by (intro occupancy_updSq occupancy_applyNeighborEffects occupancy_updatePlantOf
      occupancy_distributeOllaWater occupancy_updateStructureOf)
     (simp_all add: vacant_or_single_def)

lemma occupancy_spreadWeedTo:
  assumes "occupancy_exclusive st"
  shows "occupancy_exclusive (spreadWeedTo t st)"
proof (cases "st t")
  case None
  then show ?thesis using assms by (simp add: spreadWeedTo_def)
next
  case (Some sq)
  have "occupancy_exclusive (st(t \<mapsto> sq\<lparr>var_weeds := 1\<rparr>))"
    by (intro occupancy_upd_at[OF assms Some]) (simp add: vacant_or_single_def)
  then show ?thesis using assms by (simp add: spreadWeedTo_def Some)
qed

lemma occupancy_updateWeeds:
  assumes "occupancy_exclusive st"
  shows "occupancy_exclusive (updateWeeds a b c gs key st)"
proof (cases "st key")
  case None
  then show ?thesis using assms by (simp add: updateWeeds_def)
next
  case (Some sq)
  have v: "vacant_or_single sq" using assms Some by (rule occupancy_at)
  show ?thesis
    using assms v
    by (simp add: updateWeeds_def Some Let_def occupancy_spreadWeedTo occupancy_upd
        vacant_or_single_def)
qed

lemma occupancy_updatePests:
  assumes "occupancy_exclusive st"
  shows "occupancy_exclusive (updatePests a b c d e gs key st)"
proof (cases "st key")
  case None
  then show ?thesis using assms by (simp add: updatePests_def)
next
  case (Some sq)
  show ?thesis
    unfolding updatePests_def Some option.case
    by (rule occupancy_upd_at[OF assms Some]) (simp add: vacant_or_single_def)
qed

lemma occupancy_squareTick:
  "occupancy_exclusive st \<Longrightarrow> occupancy_exclusive (snd (squareTick weather e draws key st))"
  unfolding squareTick_def Let_def split_beta snd_conv
  by (intro occupancy_updSq occupancy_updatePests occupancy_updateWeeds occupancy_updateEntities
      occupancy_updateEnvironment)
     (simp_all add: vacant_or_single_def updateDisplayText_entities)

lemma occupancy_updateAllSquares:
  "occupancy_exclusive st \<Longrightarrow> occupancy_exclusive (snd (updateAllSquares weather e draws keys st))"
  by (induction keys arbitrary: st) (simp_all add: split_beta Let_def occupancy_squareTick)

lemma structure_excludes_plant:
  "occupancy_exclusive st \<Longrightarrow> st key = Some sq \<Longrightarrow> sq_structure sq = Some s \<Longrightarrow> sq_plant sq = None"
  using occupancy_at[of st key sq] by (simp add: vacant_or_single_def)


end
